theory Spec2Isabelle
  imports Complex_Main
begin

section \<open>Errors and results\<close>

text \<open>
  Every Python exception the modelled code can raise is a value.  A computation that may
  raise returns \<open>error + 'a\<close>, with \<open>Inl\<close> for the exception.  Numbers are the
  real numbers: rounding, overflow and NaN of the float type are not part of the model
  (where torch would produce NaN by dividing zero by zero, the model has HOL's value of
  the same expression).
\<close>

datatype error =
    AssertionError
  | ZeroDivisionError
  | TypeError
  | ValueError
  | IndexError
  | RuntimeError

definition and_then :: "error + 'a \<Rightarrow> ('a \<Rightarrow> error + 'b) \<Rightarrow> error + 'b" where
  "and_then m f = (case m of Inl e \<Rightarrow> Inl e | Inr x \<Rightarrow> f x)"

definition py_mod :: "int \<Rightarrow> int \<Rightarrow> error + int" where
  "py_mod a b = (if b = 0 then Inl ZeroDivisionError else Inr (a mod b))"

definition py_floordiv :: "int \<Rightarrow> int \<Rightarrow> error + int" where
  "py_floordiv a b = (if b = 0 then Inl ZeroDivisionError else Inr (a div b))"

definition py_truediv :: "real \<Rightarrow> int \<Rightarrow> error + real" where
  "py_truediv a b = (if b = 0 then Inl ZeroDivisionError else Inr (a / real_of_int b))"

definition py_assert :: "bool \<Rightarrow> error + unit" where
  "py_assert c = (if c then Inr () else Inl AssertionError)"

definition math_sqrt :: "int \<Rightarrow> error + real" where
  "math_sqrt n = (if n < 0 then Inl ValueError else Inr (sqrt (real_of_int n)))"

definition py_getitem :: "'a list \<Rightarrow> int \<Rightarrow> error + 'a" where
  "py_getitem xs i =
     (if 0 \<le> i \<and> i < int (length xs) then Inr (xs ! nat i)
      else if i < 0 \<and> - int (length xs) \<le> i then Inr (xs ! nat (int (length xs) + i))
      else Inl IndexError)"

section \<open>Tensors\<close>

text \<open>
  A tensor is its shape and its elements, read by a multi-index.  Only the logical
  contents are modelled: strides and storage are not, so \<open>contiguous\<close> is the identity.
\<close>

datatype 'a tensor = Tensor (shape: "nat list") (elem: "nat list \<Rightarrow> 'a")

text \<open>
  The random source of parameter initialisation and of dropout: a tree of streams.
  \<open>draw g\<close> is the stream at the root, \<open>child g k\<close> the \<open>k\<close>-th subtree, so that
  every module and every call draws from its own stream.
\<close>

type_synonym rng = "nat list \<Rightarrow> nat list \<Rightarrow> real"

definition draw :: "rng \<Rightarrow> nat list \<Rightarrow> real" where
  "draw g = g []"

definition child :: "rng \<Rightarrow> nat \<Rightarrow> rng" where
  "child g k = (\<lambda>path. g (k # path))"

definition map_tensor :: "('a \<Rightarrow> 'b) \<Rightarrow> 'a tensor \<Rightarrow> 'b tensor" where
  "map_tensor f a = Tensor (shape a) (\<lambda>idx. f (elem a idx))"

text \<open>\<open>torch.zeros\<close>, \<open>torch.ones\<close>, \<open>torch.empty\<close>: a negative size is refused.\<close>

definition torch_size :: "int list \<Rightarrow> error + nat list" where
  "torch_size ds = (if list_all (\<lambda>d. 0 \<le> d) ds then Inr (map nat ds) else Inl RuntimeError)"

definition torch_full :: "int list \<Rightarrow> real \<Rightarrow> error + real tensor" where
  "torch_full ds c = and_then (torch_size ds) (\<lambda>s. Inr (Tensor s (\<lambda>idx. c)))"

definition torch_zeros :: "int list \<Rightarrow> error + real tensor" where
  "torch_zeros ds = torch_full ds 0"

definition torch_ones :: "int list \<Rightarrow> error + real tensor" where
  "torch_ones ds = torch_full ds 1"

definition torch_random :: "rng \<Rightarrow> int list \<Rightarrow> error + real tensor" where
  "torch_random g ds = and_then (torch_size ds) (\<lambda>s. Inr (Tensor s (draw g)))"

text \<open>\<open>torch.arange(0, n, step)\<close> for a positive step: the values \<open>0, step, 2 step, ...\<close> below \<open>n\<close>.\<close>

definition torch_arange :: "int \<Rightarrow> nat \<Rightarrow> error + real tensor" where
  "torch_arange n step =
     (if n < 0 then Inl RuntimeError
      else Inr (Tensor [(nat n + step - 1) div step] (\<lambda>idx. real (hd idx * step))))"

text \<open>\<open>t.shape[i]\<close>\<close>

definition shape_at :: "'a tensor \<Rightarrow> int \<Rightarrow> error + int" where
  "shape_at a i = py_getitem (map int (shape a)) i"

subsection \<open>Broadcasting\<close>

text \<open>Shapes are aligned at the last axis; two sizes agree when equal or when one is 1.\<close>

fun broadcast_rev :: "nat list \<Rightarrow> nat list \<Rightarrow> error + nat list" where
  "broadcast_rev [] ys = Inr ys"
| "broadcast_rev (x # xs) [] = Inr (x # xs)"
| "broadcast_rev (x # xs) (y # ys) =
     (if x = y \<or> y = 1 then and_then (broadcast_rev xs ys) (\<lambda>r. Inr (x # r))
      else if x = 1 then and_then (broadcast_rev xs ys) (\<lambda>r. Inr (y # r))
      else Inl RuntimeError)"

definition broadcast_shapes :: "nat list \<Rightarrow> nat list \<Rightarrow> error + nat list" where
  "broadcast_shapes s t = and_then (broadcast_rev (rev s) (rev t)) (\<lambda>r. Inr (rev r))"

text \<open>The index into an operand of shape \<open>s\<close> that an index of the broadcast result reads.\<close>

definition bidx :: "nat list \<Rightarrow> nat list \<Rightarrow> nat list" where
  "bidx s idx = map2 (\<lambda>d i. if d = 1 then 0 else i) s (drop (length idx - length s) idx)"

definition broadcast_op :: "('a \<Rightarrow> 'b \<Rightarrow> 'c) \<Rightarrow> 'a tensor \<Rightarrow> 'b tensor \<Rightarrow> error + 'c tensor" where
  "broadcast_op f a b =
     and_then (broadcast_shapes (shape a) (shape b))
       (\<lambda>s. Inr (Tensor s (\<lambda>idx. f (elem a (bidx (shape a) idx)) (elem b (bidx (shape b) idx)))))"

definition t_add :: "real tensor \<Rightarrow> real tensor \<Rightarrow> error + real tensor" where
  "t_add = broadcast_op (+)"

definition t_sub :: "real tensor \<Rightarrow> real tensor \<Rightarrow> error + real tensor" where
  "t_sub = broadcast_op (-)"

definition t_mul :: "real tensor \<Rightarrow> real tensor \<Rightarrow> error + real tensor" where
  "t_mul = broadcast_op (*)"

definition t_div :: "real tensor \<Rightarrow> real tensor \<Rightarrow> error + real tensor" where
  "t_div = broadcast_op (/)"

text \<open>\<open>expand\<close> to a given shape: a size-1 axis stretches to any size, also to 0.\<close>

fun expandable_rev :: "nat list \<Rightarrow> nat list \<Rightarrow> bool" where
  "expandable_rev [] ts = True"
| "expandable_rev (x # xs) [] = False"
| "expandable_rev (x # xs) (t # ts) = ((x = t \<or> x = 1) \<and> expandable_rev xs ts)"

definition expand_to :: "'a tensor \<Rightarrow> nat list \<Rightarrow> error + 'a tensor" where
  "expand_to a target =
     (if expandable_rev (rev (shape a)) (rev target)
      then Inr (Tensor target (\<lambda>idx. elem a (bidx (shape a) idx)))
      else Inl RuntimeError)"

text \<open>\<open>t.expand(sizes)\<close>, where \<open>-1\<close> keeps the size of an existing axis.\<close>

fun expand_sizes_rev :: "nat list \<Rightarrow> int list \<Rightarrow> error + nat list" where
  "expand_sizes_rev [] [] = Inr []"
| "expand_sizes_rev [] (t # ts) =
     (if t < 0 then Inl RuntimeError
      else and_then (expand_sizes_rev [] ts) (\<lambda>r. Inr (nat t # r)))"
| "expand_sizes_rev (x # xs) [] = Inl RuntimeError"
| "expand_sizes_rev (x # xs) (t # ts) =
     (if t = - 1 \<or> t = int x then and_then (expand_sizes_rev xs ts) (\<lambda>r. Inr (x # r))
      else if x = 1 \<and> 0 \<le> t then and_then (expand_sizes_rev xs ts) (\<lambda>r. Inr (nat t # r))
      else Inl RuntimeError)"

definition tensor_expand :: "'a tensor \<Rightarrow> int list \<Rightarrow> error + 'a tensor" where
  "tensor_expand a sizes =
     and_then (expand_sizes_rev (rev (shape a)) (rev sizes)) (\<lambda>r. expand_to a (rev r))"

subsection \<open>Views\<close>

definition wrap_dim :: "nat \<Rightarrow> int \<Rightarrow> error + nat" where
  "wrap_dim r d =
     (let n = int (max r 1)
      in if d < - n \<or> n \<le> d then Inl IndexError else Inr (nat (if d < 0 then d + n else d)))"

definition unsqueeze :: "'a tensor \<Rightarrow> int \<Rightarrow> error + 'a tensor" where
  "unsqueeze a d =
     (let r = int (length (shape a))
      in if d < - (r + 1) \<or> r < d then Inl IndexError
         else let k = nat (if d < 0 then d + r + 1 else d)
              in Inr (Tensor (take k (shape a) @ [1] @ drop k (shape a))
                        (\<lambda>idx. elem a (take k idx @ drop (Suc k) idx))))"

definition swap :: "'a list \<Rightarrow> nat \<Rightarrow> nat \<Rightarrow> 'a list" where
  "swap xs i j = (xs[i := xs ! j])[j := xs ! i]"

definition transpose_t :: "'a tensor \<Rightarrow> int \<Rightarrow> int \<Rightarrow> error + 'a tensor" where
  "transpose_t a d0 d1 =
     and_then (wrap_dim (length (shape a)) d0) (\<lambda>i.
     and_then (wrap_dim (length (shape a)) d1) (\<lambda>j.
       Inr (Tensor (swap (shape a) i j) (\<lambda>idx. elem a (swap idx i j)))))"

text \<open>Row-major position of a multi-index, and back.\<close>

fun flat :: "nat list \<Rightarrow> nat list \<Rightarrow> nat" where
  "flat (d # ds) (i # is) = i * prod_list ds + flat ds is"
| "flat ds is = 0"

fun unflat :: "nat list \<Rightarrow> nat \<Rightarrow> nat list" where
  "unflat [] n = []"
| "unflat (d # ds) n = (n div prod_list ds) mod d # unflat ds n"

text \<open>
  The sizes of \<open>t.view(sizes)\<close>: at most one \<open>-1\<close>, inferred from the number of
  elements; it cannot be inferred when the other sizes multiply to 0.
\<close>

definition infer_view :: "nat \<Rightarrow> int list \<Rightarrow> error + nat list" where
  "infer_view n sizes =
     (if \<not> list_all (\<lambda>d. - 1 \<le> d) sizes \<or> 1 < length (filter (\<lambda>d. d = - 1) sizes)
      then Inl RuntimeError
      else let known = prod_list (map nat (filter (\<lambda>d. d \<noteq> - 1) sizes))
           in if - 1 \<in> set sizes
              then (if known = 0 \<or> n mod known \<noteq> 0 then Inl RuntimeError
                    else Inr (map (\<lambda>d. if d = - 1 then n div known else nat d) sizes))
              else (if known = n then Inr (map nat sizes) else Inl RuntimeError))"

definition view :: "'a tensor \<Rightarrow> int list \<Rightarrow> error + 'a tensor" where
  "view a sizes =
     and_then (infer_view (prod_list (shape a)) sizes)
       (\<lambda>s. Inr (Tensor s (\<lambda>idx. elem a (unflat (shape a) (flat s idx)))))"

definition contiguous :: "'a tensor \<Rightarrow> 'a tensor" where
  "contiguous a = a"

text \<open>\<open>t[:, :n, :]\<close> on a tensor of at least three axes, for \<open>n \<ge> 0\<close>.\<close>

definition slice_rows :: "'a tensor \<Rightarrow> nat \<Rightarrow> error + 'a tensor" where
  "slice_rows a n =
     (if length (shape a) < 3 then Inl IndexError
      else Inr (Tensor ((shape a)[1 := min n (shape a ! 1)]) (elem a)))"

text \<open>
  \<open>dst[:, start::step] = src\<close> on a tensor of at least two axes: the source, its
  leading axes of size 1 dropped, is expanded to the shape of the slice and copied.
\<close>

definition strip_leading_ones :: "'a tensor \<Rightarrow> 'a tensor" where
  "strip_leading_ones a =
     (let k = length (takeWhile (\<lambda>d. d = 1) (shape a))
      in Tensor (drop k (shape a)) (\<lambda>idx. elem a (replicate k 0 @ idx)))"

definition slice_len :: "nat \<Rightarrow> nat \<Rightarrow> nat \<Rightarrow> nat" where
  "slice_len n start step = (if start < n then (n - start + step - 1) div step else 0)"

definition setitem_cols :: "'a tensor \<Rightarrow> nat \<Rightarrow> nat \<Rightarrow> 'a tensor \<Rightarrow> error + 'a tensor" where
  "setitem_cols dst start step src =
     (if length (shape dst) < 2 then Inl IndexError
      else and_then
             (expand_to (strip_leading_ones src)
                ((shape dst)[1 := slice_len (shape dst ! 1) start step]))
             (\<lambda>b. Inr (Tensor (shape dst)
                    (\<lambda>idx. if start \<le> idx ! 1 \<and> (idx ! 1 - start) mod step = 0
                           then elem b (idx[1 := (idx ! 1 - start) div step])
                           else elem dst idx))))"

text \<open>\<open>torch.cat([a, b], dim=1)\<close>; a tensor of shape \<open>(0,)\<close> is skipped.\<close>

definition torch_cat1 :: "'a tensor \<Rightarrow> 'a tensor \<Rightarrow> error + 'a tensor" where
  "torch_cat1 a b =
     (if shape a = [0] then (if shape b = [0] \<or> 2 \<le> length (shape b) then Inr b else Inl IndexError)
      else if shape b = [0] then (if 2 \<le> length (shape a) then Inr a else Inl IndexError)
      else if length (shape a) < 2 then Inl IndexError
      else if length (shape a) \<noteq> length (shape b) \<or> (shape a)[1 := 0] \<noteq> (shape b)[1 := 0]
      then Inl RuntimeError
      else Inr (Tensor ((shape a)[1 := shape a ! 1 + shape b ! 1])
             (\<lambda>idx. if idx ! 1 < shape a ! 1 then elem a idx
                    else elem b (idx[1 := idx ! 1 - shape a ! 1]))))"

subsection \<open>Reductions and products\<close>

text \<open>The elements along the last axis at an index (a tensor without axes is one element).\<close>

definition lastaxis :: "'a tensor \<Rightarrow> nat list \<Rightarrow> 'a list" where
  "lastaxis a idx =
     (if shape a = [] then [elem a []]
      else map (\<lambda>j. elem a (butlast idx @ [j])) [0..<last (shape a)])"

definition keepdim_shape :: "nat list \<Rightarrow> nat list" where
  "keepdim_shape s = (if s = [] then [] else butlast s @ [1])"

definition mean_row :: "real list \<Rightarrow> real" where
  "mean_row r = sum_list r / real (length r)"

text \<open>
  The sample standard deviation (Bessel's correction), torch's default.  Floats are
  modelled by the reals, which have no NaN and no infinities: where torch divides by
  zero (the mean of an empty row, the deviation of a row of fewer than two elements, a
  zero denominator) the value below is HOL's \<open>x / 0 = 0\<close> and says nothing about
  the code.  The theorems about these functions assume rows of at least two elements.
\<close>

definition std_row :: "real list \<Rightarrow> real" where
  "std_row r = sqrt (sum_list (map (\<lambda>v. (v - mean_row r)\<^sup>2) r) / (real (length r) - 1))"

definition mean_lastdim :: "real tensor \<Rightarrow> real tensor" where
  "mean_lastdim x = Tensor (keepdim_shape (shape x)) (\<lambda>idx. mean_row (lastaxis x idx))"

definition std_lastdim :: "real tensor \<Rightarrow> real tensor" where
  "std_lastdim x = Tensor (keepdim_shape (shape x)) (\<lambda>idx. std_row (lastaxis x idx))"

definition softmax_lastdim :: "real tensor \<Rightarrow> real tensor" where
  "softmax_lastdim x =
     Tensor (shape x) (\<lambda>idx. exp (elem x idx) / sum_list (map exp (lastaxis x idx)))"

text \<open>
  \<open>a @ b\<close>: a one-axis operand is a row (on the left) or a column (on the right), the
  axes before the last two are broadcast.
\<close>

definition matmul :: "real tensor \<Rightarrow> real tensor \<Rightarrow> error + real tensor" where
  "matmul a b =
     (let ra = length (shape a); rb = length (shape b)
      in if ra = 0 \<or> rb = 0 then Inl RuntimeError
         else
           let sa = (if ra = 1 then 1 # shape a else shape a);
               sb = (if rb = 1 then shape b @ [1] else shape b);
               ba = take (length sa - 2) sa;
               bb = take (length sb - 2) sb;
               n = sa ! (length sa - 2);
               k = last sa;
               m = last sb
           in if k \<noteq> sb ! (length sb - 2) then Inl RuntimeError
              else and_then (broadcast_shapes ba bb) (\<lambda>bs.
                Inr (Tensor (bs @ (if ra = 1 then [] else [n]) @ (if rb = 1 then [] else [m]))
                  (\<lambda>idx.
                     let bi = take (length bs) idx;
                         i = (if ra = 1 then 0 else idx ! length bs);
                         j = (if rb = 1 then 0 else idx ! (length bs + (if ra = 1 then 0 else 1)))
                     in \<Sum>l<k. elem a (if ra = 1 then [l] else bidx ba bi @ [i, l])
                              * elem b (if rb = 1 then [l] else bidx bb bi @ [l, j])))))"

text \<open>\<open>t.masked_fill_(mask, value)\<close>: the mask is expanded to the shape of \<open>t\<close>.\<close>

definition masked_fill :: "real tensor \<Rightarrow> bool tensor \<Rightarrow> real \<Rightarrow> error + real tensor" where
  "masked_fill a m v =
     and_then (expand_to m (shape a))
       (\<lambda>me. Inr (Tensor (shape a) (\<lambda>idx. if elem me idx then v else elem a idx)))"

section \<open>Library modules\<close>

text \<open>
  \<open>nn.Dropout(p)\<close> refuses a probability outside \<open>[0, 1]\<close>.  A new module is in
  training mode, where an element is zeroed when its draw (uniform in \<open>[0, 1)\<close>) is
  below \<open>p\<close>, and scaled by \<open>1 / (1 - p)\<close> otherwise; in evaluation mode the input is
  returned.
\<close>

record Dropout =
  drop_p :: real
  drop_training :: bool

definition nn_Dropout :: "real \<Rightarrow> error + Dropout" where
  "nn_Dropout q =
     (if q < 0 \<or> 1 < q then Inl ValueError else Inr \<lparr>drop_p = q, drop_training = True\<rparr>)"

definition Dropout_forward :: "Dropout \<Rightarrow> rng \<Rightarrow> real tensor \<Rightarrow> real tensor" where
  "Dropout_forward d g x =
     (if drop_training d
      then Tensor (shape x) (\<lambda>idx. if draw g idx < drop_p d then 0 else elem x idx / (1 - drop_p d))
      else x)"

text \<open>\<open>nn.Linear(n_in, n_out, bias)\<close>: a weight of shape \<open>(n_out, n_in)\<close>, randomly initialised.\<close>

record Linear =
  lin_in :: nat
  lin_out :: nat
  lin_weight :: "real tensor"
  lin_bias :: "real tensor option"

definition nn_Linear :: "rng \<Rightarrow> int \<Rightarrow> int \<Rightarrow> bool \<Rightarrow> error + Linear" where
  "nn_Linear g n_in n_out with_bias =
     and_then (torch_random (child g 0) [n_out, n_in]) (\<lambda>w.
       if with_bias
       then and_then (torch_random (child g 1) [n_out]) (\<lambda>b.
              Inr \<lparr>lin_in = nat n_in, lin_out = nat n_out, lin_weight = w, lin_bias = Some b\<rparr>)
       else Inr \<lparr>lin_in = nat n_in, lin_out = nat n_out, lin_weight = w, lin_bias = None\<rparr>)"

definition Linear_forward :: "Linear \<Rightarrow> real tensor \<Rightarrow> error + real tensor" where
  "Linear_forward l x =
     (if shape x = [] \<or> last (shape x) \<noteq> lin_in l then Inl RuntimeError
      else Inr (Tensor (butlast (shape x) @ [lin_out l])
             (\<lambda>idx. (\<Sum>k<lin_in l. elem x (butlast idx @ [k]) * elem (lin_weight l) [last idx, k])
                    + (case lin_bias l of None \<Rightarrow> 0 | Some b \<Rightarrow> elem b [last idx]))))"

text \<open>\<open>nn.Embedding(num, width)\<close>: a lookup table; an id outside \<open>[0, num)\<close> is an IndexError.\<close>

record Embedding =
  emb_num :: nat
  emb_dim :: nat
  emb_weight :: "real tensor"

definition nn_Embedding :: "rng \<Rightarrow> int \<Rightarrow> int \<Rightarrow> error + Embedding" where
  "nn_Embedding g num width =
     and_then (torch_random g [num, width]) (\<lambda>w.
       Inr \<lparr>emb_num = nat num, emb_dim = nat width, emb_weight = w\<rparr>)"

fun indices :: "nat list \<Rightarrow> nat list list" where
  "indices [] = [[]]"
| "indices (d # ds) = concat (map (\<lambda>i. map ((#) i) (indices ds)) [0..<d])"

definition Embedding_forward :: "Embedding \<Rightarrow> int tensor \<Rightarrow> error + real tensor" where
  "Embedding_forward e ids =
     (if list_all (\<lambda>idx. 0 \<le> elem ids idx \<and> elem ids idx < int (emb_num e)) (indices (shape ids))
      then Inr (Tensor (shape ids @ [emb_dim e])
             (\<lambda>idx. elem (emb_weight e) [nat (elem ids (butlast idx)), last idx]))
      else Inl IndexError)"

text \<open>
  \<open>nn.init.xavier_uniform_\<close>: new random values; it needs two axes, and divides by the
  sum of the fans.
\<close>

definition xavier_uniform :: "rng \<Rightarrow> real tensor \<Rightarrow> error + real tensor" where
  "xavier_uniform g t =
     (if length (shape t) < 2 then Inl ValueError
      else let fan_out = shape t ! 0 * prod_list (drop 2 (shape t));
               fan_in = shape t ! 1 * prod_list (drop 2 (shape t))
           in if fan_in + fan_out = 0 then Inl ZeroDivisionError
              else Inr (Tensor (shape t) (draw g)))"

text \<open>The body of the loops \<open>for p in ....parameters(): if p.dim() > 1: xavier_uniform_(p)\<close>.\<close>

definition init_param :: "rng \<Rightarrow> real tensor \<Rightarrow> error + real tensor" where
  "init_param g t = (if 1 < length (shape t) then xavier_uniform g t else Inr t)"

definition Linear_init_params :: "rng \<Rightarrow> Linear \<Rightarrow> error + Linear" where
  "Linear_init_params g l =
     and_then (init_param (child g 0) (lin_weight l)) (\<lambda>w.
       case lin_bias l of
         None \<Rightarrow> Inr (l\<lparr>lin_weight := w\<rparr>)
       | Some b \<Rightarrow> and_then (init_param (child g 1) b) (\<lambda>b'.
                    Inr (l\<lparr>lin_weight := w, lin_bias := Some b'\<rparr>)))"

definition torch_relu :: "real tensor \<Rightarrow> real tensor" where
  "torch_relu = map_tensor (\<lambda>v. max 0 v)"

definition torch_sigmoid :: "real tensor \<Rightarrow> real tensor" where
  "torch_sigmoid = map_tensor (\<lambda>v. 1 / (1 + exp (- v)))"

section \<open>The model (model.py)\<close>

subsection \<open>LayerNormalization\<close>

record LayerNormalization =
  ln_eps :: real
  ln_alpha :: "real tensor"
  ln_bias :: "real tensor"

definition default_eps :: real where
  "default_eps = 1 / 10 ^ 6"

definition LayerNormalization_init :: "int \<Rightarrow> real \<Rightarrow> error + LayerNormalization" where
  "LayerNormalization_init features eps =
     and_then (torch_ones [features]) (\<lambda>a.
     and_then (torch_zeros [features]) (\<lambda>b.
       Inr \<lparr>ln_eps = eps, ln_alpha = a, ln_bias = b\<rparr>))"

definition LayerNormalization_forward :: "LayerNormalization \<Rightarrow> real tensor \<Rightarrow> error + real tensor" where
  "LayerNormalization_forward layer x =
     (let mean = mean_lastdim x;
          std = std_lastdim x
      in and_then (t_sub x mean) (\<lambda>centred.
         and_then (t_mul (ln_alpha layer) centred) (\<lambda>scaled.
         and_then (t_div scaled (map_tensor (\<lambda>v. v + ln_eps layer) std)) (\<lambda>normed.
           t_add normed (ln_bias layer)))))"

definition LayerNormalization_init_params :: "rng \<Rightarrow> LayerNormalization \<Rightarrow> error + LayerNormalization" where
  "LayerNormalization_init_params g layer =
     and_then (init_param (child g 0) (ln_alpha layer)) (\<lambda>a.
     and_then (init_param (child g 1) (ln_bias layer)) (\<lambda>b.
       Inr (layer\<lparr>ln_alpha := a, ln_bias := b\<rparr>)))"

subsection \<open>FeedForwardBlock\<close>

record FeedForwardBlock =
  ff_linear_1 :: Linear
  ff_dropout :: Dropout
  ff_linear_2 :: Linear

definition FeedForwardBlock_init :: "rng \<Rightarrow> int \<Rightarrow> int \<Rightarrow> real \<Rightarrow> error + FeedForwardBlock" where
  "FeedForwardBlock_init g d_model d_ff dropout =
     and_then (nn_Linear (child g 0) d_model d_ff True) (\<lambda>l1.
     and_then (nn_Dropout dropout) (\<lambda>dr.
     and_then (nn_Linear (child g 1) d_ff d_model True) (\<lambda>l2.
       Inr \<lparr>ff_linear_1 = l1, ff_dropout = dr, ff_linear_2 = l2\<rparr>)))"

definition FeedForwardBlock_forward :: "FeedForwardBlock \<Rightarrow> rng \<Rightarrow> real tensor \<Rightarrow> error + real tensor" where
  "FeedForwardBlock_forward ff g x =
     and_then (Linear_forward (ff_linear_1 ff) x) (\<lambda>a.
       Linear_forward (ff_linear_2 ff) (Dropout_forward (ff_dropout ff) g (torch_relu a)))"

definition FeedForwardBlock_init_params :: "rng \<Rightarrow> FeedForwardBlock \<Rightarrow> error + FeedForwardBlock" where
  "FeedForwardBlock_init_params g ff =
     and_then (Linear_init_params (child g 0) (ff_linear_1 ff)) (\<lambda>l1.
     and_then (Linear_init_params (child g 1) (ff_linear_2 ff)) (\<lambda>l2.
       Inr (ff\<lparr>ff_linear_1 := l1, ff_linear_2 := l2\<rparr>)))"

subsection \<open>InputEmbeddings\<close>

record InputEmbeddings =
  ie_d_model :: int
  ie_vocab_size :: int
  ie_embedding :: Embedding

definition InputEmbeddings_init :: "rng \<Rightarrow> int \<Rightarrow> int \<Rightarrow> error + InputEmbeddings" where
  "InputEmbeddings_init g d_model vocab_size =
     and_then (nn_Embedding g vocab_size d_model) (\<lambda>e.
       Inr \<lparr>ie_d_model = d_model, ie_vocab_size = vocab_size, ie_embedding = e\<rparr>)"

definition InputEmbeddings_forward :: "InputEmbeddings \<Rightarrow> int tensor \<Rightarrow> error + real tensor" where
  "InputEmbeddings_forward ie x =
     and_then (Embedding_forward (ie_embedding ie) x) (\<lambda>e.
     and_then (math_sqrt (ie_d_model ie)) (\<lambda>c.
       Inr (map_tensor (\<lambda>v. v * c) e)))"

definition InputEmbeddings_init_params :: "rng \<Rightarrow> InputEmbeddings \<Rightarrow> error + InputEmbeddings" where
  "InputEmbeddings_init_params g ie =
     and_then (init_param g (emb_weight (ie_embedding ie))) (\<lambda>w.
       Inr (ie\<lparr>ie_embedding := (ie_embedding ie)\<lparr>emb_weight := w\<rparr>\<rparr>))"

subsection \<open>PositionalEncoding\<close>

record PositionalEncoding =
  pe_d_model :: int
  pe_seq_len :: int
  pe_dropout :: Dropout
  pe :: "real tensor"

definition PositionalEncoding_init :: "int \<Rightarrow> int \<Rightarrow> real \<Rightarrow> error + PositionalEncoding" where
  "PositionalEncoding_init d_model seq_len dropout =
     and_then (nn_Dropout dropout) (\<lambda>dr.
     and_then (torch_zeros [seq_len, d_model]) (\<lambda>pe0.
     and_then (torch_arange seq_len 1) (\<lambda>ar.
     and_then (unsqueeze ar 1) (\<lambda>position.
     and_then (torch_arange d_model 2) (\<lambda>evens.
     and_then (py_truediv (- ln 10000) d_model) (\<lambda>c.
       let div_term = map_tensor exp (map_tensor (\<lambda>v. v * c) evens)
       in and_then (t_mul position div_term) (\<lambda>angle_sin.
          and_then (setitem_cols pe0 0 2 (map_tensor sin angle_sin)) (\<lambda>pe1.
          and_then (t_mul position div_term) (\<lambda>angle_cos.
          and_then (setitem_cols pe1 1 2 (map_tensor cos angle_cos)) (\<lambda>pe2.
          and_then (unsqueeze pe2 0) (\<lambda>pe3.
            Inr \<lparr>pe_d_model = d_model, pe_seq_len = seq_len, pe_dropout = dr, pe = pe3\<rparr>)))))))))))"

definition PositionalEncoding_forward :: "PositionalEncoding \<Rightarrow> rng \<Rightarrow> real tensor \<Rightarrow> error + real tensor" where
  "PositionalEncoding_forward P g x =
     and_then (shape_at x 1) (\<lambda>n.
     and_then (slice_rows (pe P) (nat n)) (\<lambda>rows.
     and_then (t_add x rows) (\<lambda>y.
       Inr (Dropout_forward (pe_dropout P) g y))))"

subsection \<open>ResidualConnection\<close>

record ResidualConnection =
  rc_dropout :: Dropout
  rc_norm :: LayerNormalization

definition ResidualConnection_init :: "int \<Rightarrow> real \<Rightarrow> error + ResidualConnection" where
  "ResidualConnection_init features dropout =
     and_then (nn_Dropout dropout) (\<lambda>dr.
     and_then (LayerNormalization_init features default_eps) (\<lambda>n.
       Inr \<lparr>rc_dropout = dr, rc_norm = n\<rparr>))"

text \<open>The sublayer returns its output and the state it changed (the attention block).\<close>

definition ResidualConnection_forward ::
  "ResidualConnection \<Rightarrow> rng \<Rightarrow> real tensor \<Rightarrow> (real tensor \<Rightarrow> error + real tensor \<times> 's)
     \<Rightarrow> error + real tensor \<times> 's" where
  "ResidualConnection_forward rc g x sublayer =
     and_then (LayerNormalization_forward (rc_norm rc) x) (\<lambda>nx.
     and_then (sublayer nx) (\<lambda>(y, s).
     and_then (t_add x (Dropout_forward (rc_dropout rc) g y)) (\<lambda>r.
       Inr (r, s))))"

definition ResidualConnection_init_params :: "rng \<Rightarrow> ResidualConnection \<Rightarrow> error + ResidualConnection" where
  "ResidualConnection_init_params g rc =
     and_then (LayerNormalization_init_params g (rc_norm rc)) (\<lambda>n. Inr (rc\<lparr>rc_norm := n\<rparr>))"

subsection \<open>MultiHeadAttentionBlock\<close>

text \<open>
  \<open>attention_scores\<close> is the attribute that \<open>forward\<close> assigns on every call; a new
  block does not have it.
\<close>

record MultiHeadAttentionBlock =
  mha_d_model :: int
  mha_h :: int
  mha_d_k :: int
  mha_w_q :: Linear
  mha_w_k :: Linear
  mha_w_v :: Linear
  mha_w_o :: Linear
  mha_dropout :: Dropout
  mha_attention_scores :: "real tensor option"

text \<open>The statement \<open>assert d_model % h == 0\<close>.\<close>

definition check_divisible :: "int \<Rightarrow> int \<Rightarrow> error + unit" where
  "check_divisible d_model h = and_then (py_mod d_model h) (\<lambda>r. py_assert (r = 0))"

definition MultiHeadAttentionBlock_init ::
  "rng \<Rightarrow> int \<Rightarrow> int \<Rightarrow> real \<Rightarrow> error + MultiHeadAttentionBlock" where
  "MultiHeadAttentionBlock_init g d_model h dropout =
     and_then (check_divisible d_model h) (\<lambda>u.
     and_then (py_floordiv d_model h) (\<lambda>d_k.
     and_then (nn_Linear (child g 0) d_model d_model False) (\<lambda>wq.
     and_then (nn_Linear (child g 1) d_model d_model False) (\<lambda>wk.
     and_then (nn_Linear (child g 2) d_model d_model False) (\<lambda>wv.
     and_then (nn_Linear (child g 3) d_model d_model False) (\<lambda>wo.
     and_then (nn_Dropout dropout) (\<lambda>dr.
       Inr \<lparr>mha_d_model = d_model, mha_h = h, mha_d_k = d_k,
            mha_w_q = wq, mha_w_k = wk, mha_w_v = wv, mha_w_o = wo,
            mha_dropout = dr, mha_attention_scores = None\<rparr>)))))))"

text \<open>
  The first half of the static method \<open>attention\<close>: the scaled scores with \<open>-1e9\<close>
  written where the expanded mask equals 1.  The scaling divides by \<open>sqrt d_k\<close>; at
  \<open>d_k = 0\<close> the code divides by zero, which the reals do not model, and the theorems
  about the scores assume \<open>d_k\<close> positive.
\<close>

definition masked_scores ::
  "real tensor \<Rightarrow> real tensor \<Rightarrow> int tensor option \<Rightarrow> error + real tensor" where
  "masked_scores query key mask' =
     and_then (shape_at query (- 1)) (\<lambda>d_k.
     and_then (transpose_t key (- 2) (- 1)) (\<lambda>key_t.
     and_then (matmul query key_t) (\<lambda>qk.
       let attention_scores = map_tensor (\<lambda>v. v / sqrt (real_of_int d_k)) qk
       in case mask' of
            None \<Rightarrow> Inr attention_scores
          | Some m \<Rightarrow>
              and_then (unsqueeze m 1) (\<lambda>m1.
              and_then (unsqueeze m1 2) (\<lambda>m2.
              and_then (shape_at query 1) (\<lambda>q1.
              and_then (shape_at query 2) (\<lambda>q2.
              and_then (tensor_expand m2 [- 1, q1, q2, - 1]) (\<lambda>m3.
                masked_fill attention_scores (map_tensor (\<lambda>v. v = 1) m3) (- 1000000000)))))))))"

text \<open>The static method \<open>attention\<close>: the weighted values and the attention weights.\<close>

definition attention ::
  "real tensor \<Rightarrow> real tensor \<Rightarrow> real tensor \<Rightarrow> int tensor option \<Rightarrow> Dropout option \<Rightarrow> rng
     \<Rightarrow> error + real tensor \<times> real tensor" where
  "attention query key value mask' dropout g =
     and_then (masked_scores query key mask') (\<lambda>masked.
       let attention_scores = softmax_lastdim masked;
           attention_scores =
             (case dropout of None \<Rightarrow> attention_scores
              | Some d \<Rightarrow> Dropout_forward d g attention_scores)
       in and_then (matmul attention_scores value) (\<lambda>out. Inr (out, attention_scores)))"

text \<open>\<open>t.view(t.shape[0], t.shape[1], self.h, self.d_k).transpose(1, 2)\<close>\<close>

definition split_heads :: "MultiHeadAttentionBlock \<Rightarrow> real tensor \<Rightarrow> error + real tensor" where
  "split_heads blk t =
     and_then (shape_at t 0) (\<lambda>b.
     and_then (shape_at t 1) (\<lambda>s.
     and_then (view t [b, s, mha_h blk, mha_d_k blk]) (\<lambda>t4.
       transpose_t t4 1 2)))"

definition MultiHeadAttentionBlock_forward ::
  "MultiHeadAttentionBlock \<Rightarrow> rng \<Rightarrow> real tensor \<Rightarrow> real tensor \<Rightarrow> real tensor \<Rightarrow> int tensor option
     \<Rightarrow> error + real tensor \<times> MultiHeadAttentionBlock" where
  "MultiHeadAttentionBlock_forward blk g q k v mask' =
     and_then (Linear_forward (mha_w_q blk) q) (\<lambda>query.
     and_then (Linear_forward (mha_w_k blk) k) (\<lambda>key.
     and_then (Linear_forward (mha_w_v blk) v) (\<lambda>value.
     and_then (split_heads blk query) (\<lambda>query.
     and_then (split_heads blk key) (\<lambda>key.
     and_then (split_heads blk value) (\<lambda>value.
     and_then (attention query key value mask' (Some (mha_dropout blk)) g) (\<lambda>(x, scores).
     and_then (transpose_t x 1 2) (\<lambda>xt.
     and_then (shape_at x 0) (\<lambda>b.
     and_then (view (contiguous xt) [b, - 1, mha_h blk * mha_d_k blk]) (\<lambda>xv.
     and_then (Linear_forward (mha_w_o blk) xv) (\<lambda>y.
       Inr (y, blk\<lparr>mha_attention_scores := Some scores\<rparr>))))))))))))"

definition MultiHeadAttentionBlock_init_params ::
  "rng \<Rightarrow> MultiHeadAttentionBlock \<Rightarrow> error + MultiHeadAttentionBlock" where
  "MultiHeadAttentionBlock_init_params g blk =
     and_then (Linear_init_params (child g 0) (mha_w_q blk)) (\<lambda>wq.
     and_then (Linear_init_params (child g 1) (mha_w_k blk)) (\<lambda>wk.
     and_then (Linear_init_params (child g 2) (mha_w_v blk)) (\<lambda>wv.
     and_then (Linear_init_params (child g 3) (mha_w_o blk)) (\<lambda>wo.
       Inr (blk\<lparr>mha_w_q := wq, mha_w_k := wk, mha_w_v := wv, mha_w_o := wo\<rparr>)))))"

subsection \<open>EncoderBlock\<close>

record EncoderBlock =
  eb_self_attention_block :: MultiHeadAttentionBlock
  eb_feed_forward_block :: FeedForwardBlock
  eb_residual_connections :: "ResidualConnection list"

definition EncoderBlock_init ::
  "int \<Rightarrow> MultiHeadAttentionBlock \<Rightarrow> FeedForwardBlock \<Rightarrow> real \<Rightarrow> error + EncoderBlock" where
  "EncoderBlock_init features self_attention_block feed_forward_block dropout =
     and_then (ResidualConnection_init features dropout) (\<lambda>r0.
     and_then (ResidualConnection_init features dropout) (\<lambda>r1.
       Inr \<lparr>eb_self_attention_block = self_attention_block,
            eb_feed_forward_block = feed_forward_block,
            eb_residual_connections = [r0, r1]\<rparr>))"

definition EncoderBlock_forward ::
  "EncoderBlock \<Rightarrow> rng \<Rightarrow> real tensor \<Rightarrow> int tensor option \<Rightarrow> error + real tensor \<times> EncoderBlock" where
  "EncoderBlock_forward blk g x seq_mask =
     and_then (py_getitem (eb_residual_connections blk) 0) (\<lambda>r0.
     and_then (ResidualConnection_forward r0 (child g 0) x
                 (\<lambda>nx. MultiHeadAttentionBlock_forward (eb_self_attention_block blk) (child g 1)
                         nx nx nx seq_mask)) (\<lambda>(x1, att).
     and_then (py_getitem (eb_residual_connections blk) 1) (\<lambda>r1.
     and_then (ResidualConnection_forward r1 (child g 2) x1
                 (\<lambda>nx. and_then (FeedForwardBlock_forward (eb_feed_forward_block blk) (child g 3) nx)
                         (\<lambda>y. Inr (y, ())))) (\<lambda>(x2, u).
       Inr (x2, blk\<lparr>eb_self_attention_block := att\<rparr>)))))"

fun ResidualConnections_init_params ::
  "rng \<Rightarrow> ResidualConnection list \<Rightarrow> error + ResidualConnection list" where
  "ResidualConnections_init_params g [] = Inr []"
| "ResidualConnections_init_params g (r # rs) =
     and_then (ResidualConnection_init_params (child g 0) r) (\<lambda>r'.
     and_then (ResidualConnections_init_params (child g 1) rs) (\<lambda>rs'. Inr (r' # rs')))"

definition EncoderBlock_init_params :: "rng \<Rightarrow> EncoderBlock \<Rightarrow> error + EncoderBlock" where
  "EncoderBlock_init_params g blk =
     and_then (MultiHeadAttentionBlock_init_params (child g 0) (eb_self_attention_block blk)) (\<lambda>att.
     and_then (FeedForwardBlock_init_params (child g 1) (eb_feed_forward_block blk)) (\<lambda>ff.
     and_then (ResidualConnections_init_params (child g 2) (eb_residual_connections blk)) (\<lambda>rs.
       Inr (blk\<lparr>eb_self_attention_block := att, eb_feed_forward_block := ff,
                eb_residual_connections := rs\<rparr>))))"

subsection \<open>Encoder\<close>

record Encoder =
  enc_layers :: "EncoderBlock list"
  enc_norm :: LayerNormalization

definition Encoder_init :: "int \<Rightarrow> EncoderBlock list \<Rightarrow> error + Encoder" where
  "Encoder_init features layers =
     and_then (LayerNormalization_init features default_eps) (\<lambda>n.
       Inr \<lparr>enc_layers = layers, enc_norm = n\<rparr>)"

text \<open>The loop \<open>for layer in self.layers: x = layer(x, mask)\<close>.\<close>

fun Encoder_layers_forward ::
  "EncoderBlock list \<Rightarrow> rng \<Rightarrow> real tensor \<Rightarrow> int tensor option
     \<Rightarrow> error + real tensor \<times> EncoderBlock list" where
  "Encoder_layers_forward [] g x mask' = Inr (x, [])"
| "Encoder_layers_forward (l # ls) g x mask' =
     and_then (EncoderBlock_forward l (child g 0) x mask') (\<lambda>(x', l').
     and_then (Encoder_layers_forward ls (child g 1) x' mask') (\<lambda>(y, ls').
       Inr (y, l' # ls')))"

definition Encoder_forward ::
  "Encoder \<Rightarrow> rng \<Rightarrow> real tensor \<Rightarrow> int tensor option \<Rightarrow> error + real tensor \<times> Encoder" where
  "Encoder_forward enc g x mask' =
     and_then (Encoder_layers_forward (enc_layers enc) (child g 0) x mask') (\<lambda>(y, ls).
     and_then (LayerNormalization_forward (enc_norm enc) y) (\<lambda>z.
       Inr (z, enc\<lparr>enc_layers := ls\<rparr>)))"

fun EncoderBlocks_init_params :: "rng \<Rightarrow> EncoderBlock list \<Rightarrow> error + EncoderBlock list" where
  "EncoderBlocks_init_params g [] = Inr []"
| "EncoderBlocks_init_params g (l # ls) =
     and_then (EncoderBlock_init_params (child g 0) l) (\<lambda>l'.
     and_then (EncoderBlocks_init_params (child g 1) ls) (\<lambda>ls'. Inr (l' # ls')))"

definition Encoder_init_params :: "rng \<Rightarrow> Encoder \<Rightarrow> error + Encoder" where
  "Encoder_init_params g enc =
     and_then (EncoderBlocks_init_params (child g 0) (enc_layers enc)) (\<lambda>ls.
     and_then (LayerNormalization_init_params (child g 1) (enc_norm enc)) (\<lambda>n.
       Inr (enc\<lparr>enc_layers := ls, enc_norm := n\<rparr>)))"

subsection \<open>ProjectionLayer\<close>

record ProjectionLayer =
  proj :: Linear

definition ProjectionLayer_init :: "rng \<Rightarrow> int \<Rightarrow> int \<Rightarrow> error + ProjectionLayer" where
  "ProjectionLayer_init g d_model class_size =
     and_then (nn_Linear g d_model class_size True) (\<lambda>l. Inr \<lparr>proj = l\<rparr>)"

definition ProjectionLayer_forward :: "ProjectionLayer \<Rightarrow> real tensor \<Rightarrow> error + real tensor" where
  "ProjectionLayer_forward pl x = Linear_forward (proj pl) x"

definition ProjectionLayer_init_params :: "rng \<Rightarrow> ProjectionLayer \<Rightarrow> error + ProjectionLayer" where
  "ProjectionLayer_init_params g pl =
     and_then (Linear_init_params g (proj pl)) (\<lambda>l. Inr (pl\<lparr>proj := l\<rparr>))"

subsection \<open>Transformer\<close>

text \<open>
  \<open>seq_embed\<close> and \<open>projection_layer\<close> may be \<open>None\<close>; calling \<open>None\<close> is Python's
  TypeError (\<open>'NoneType' object is not callable\<close>).
\<close>

record Transformer =
  tr_encoder :: Encoder
  tr_seq_embed :: "InputEmbeddings option"
  tr_seq_pos :: PositionalEncoding
  tr_projection_layer :: "ProjectionLayer option"

definition Transformer_init ::
  "Encoder \<Rightarrow> InputEmbeddings option \<Rightarrow> PositionalEncoding \<Rightarrow> ProjectionLayer option \<Rightarrow> Transformer" where
  "Transformer_init encoder seq_embed seq_pos projection_layer =
     \<lparr>tr_encoder = encoder, tr_seq_embed = seq_embed, tr_seq_pos = seq_pos,
      tr_projection_layer = projection_layer\<rparr>"

definition embed :: "Transformer \<Rightarrow> int tensor \<Rightarrow> error + real tensor" where
  "embed t seq =
     (case tr_seq_embed t of None \<Rightarrow> Inl TypeError | Some e \<Rightarrow> InputEmbeddings_forward e seq)"

definition encode ::
  "Transformer \<Rightarrow> rng \<Rightarrow> real tensor \<Rightarrow> int tensor option \<Rightarrow> error + real tensor \<times> Transformer" where
  "encode t g seq mask' =
     and_then (PositionalEncoding_forward (tr_seq_pos t) (child g 0) seq) (\<lambda>seq'.
     and_then (Encoder_forward (tr_encoder t) (child g 1) seq' mask') (\<lambda>(y, enc).
       Inr (y, t\<lparr>tr_encoder := enc\<rparr>)))"

definition project :: "Transformer \<Rightarrow> real tensor \<Rightarrow> error + real tensor" where
  "project t x =
     (case tr_projection_layer t of None \<Rightarrow> Inl TypeError | Some pl \<Rightarrow> ProjectionLayer_forward pl x)"

definition Transformer_init_params :: "rng \<Rightarrow> Transformer \<Rightarrow> error + Transformer" where
  "Transformer_init_params g t =
     and_then (Encoder_init_params (child g 0) (tr_encoder t)) (\<lambda>enc.
     and_then (case tr_seq_embed t of None \<Rightarrow> Inr None
               | Some e \<Rightarrow> and_then (InputEmbeddings_init_params (child g 1) e) (\<lambda>e'. Inr (Some e')))
              (\<lambda>se.
     and_then (case tr_projection_layer t of None \<Rightarrow> Inr None
               | Some pl \<Rightarrow> and_then (ProjectionLayer_init_params (child g 2) pl) (\<lambda>pl'. Inr (Some pl')))
              (\<lambda>po.
       Inr (t\<lparr>tr_encoder := enc, tr_seq_embed := se, tr_projection_layer := po\<rparr>))))"

subsection \<open>build_transformer\<close>

text \<open>The loops that create the encoder blocks, \<open>n\<close> times.\<close>

fun make_encoder_blocks :: "rng \<Rightarrow> nat \<Rightarrow> int \<Rightarrow> int \<Rightarrow> real \<Rightarrow> int \<Rightarrow> error + EncoderBlock list" where
  "make_encoder_blocks g 0 d_model h dropout d_ff = Inr []"
| "make_encoder_blocks g (Suc n) d_model h dropout d_ff =
     and_then (MultiHeadAttentionBlock_init (child (child g 0) 0) d_model h dropout)
       (\<lambda>encoder_self_attention_block.
     and_then (FeedForwardBlock_init (child (child g 0) 1) d_model d_ff dropout)
       (\<lambda>feed_forward_block.
     and_then (EncoderBlock_init d_model encoder_self_attention_block feed_forward_block dropout)
       (\<lambda>encoder_block.
     and_then (make_encoder_blocks (child g 1) n d_model h dropout d_ff) (\<lambda>rest.
       Inr (encoder_block # rest)))))"

definition build_transformer ::
  "rng \<Rightarrow> int \<Rightarrow> int \<Rightarrow> int \<Rightarrow> int \<Rightarrow> int \<Rightarrow> int \<Rightarrow> int \<Rightarrow> real \<Rightarrow> int \<Rightarrow> bool
     \<Rightarrow> error + Transformer \<times> Transformer" where
  "build_transformer g seq_vocab_size seq_seq_len seq_pack_len class_size d_model N h dropout d_ff header =
     and_then (InputEmbeddings_init (child g 0) d_model seq_vocab_size) (\<lambda>seq_embed.
     and_then (PositionalEncoding_init d_model seq_seq_len dropout) (\<lambda>seq_pos.
     and_then (make_encoder_blocks (child g 1) (nat N) d_model h dropout d_ff) (\<lambda>encoder_blocks.
     and_then (Encoder_init d_model encoder_blocks) (\<lambda>encoder.
     and_then (if \<not> header
               then and_then (ProjectionLayer_init (child g 2) (d_model * 2) class_size)
                      (\<lambda>pl. Inr (Some pl))
               else Inr None) (\<lambda>projection_layer.
       let transformer = Transformer_init encoder (Some seq_embed) seq_pos projection_layer
       in and_then (PositionalEncoding_init d_model seq_pack_len dropout) (\<lambda>pack_pos.
          and_then (make_encoder_blocks (child g 3) 1 d_model h dropout d_ff) (\<lambda>pack_encoder_blocks.
          and_then (Encoder_init d_model pack_encoder_blocks) (\<lambda>pack_encoder.
            let pack_transformer = Transformer_init pack_encoder None pack_pos None
            in and_then (Transformer_init_params (child g 4) transformer) (\<lambda>transformer.
               and_then (Transformer_init_params (child g 5) pack_transformer) (\<lambda>pack_transformer.
                 Inr (transformer, pack_transformer)))))))))))"

text \<open>The defaults of \<open>build_transformer\<close>.\<close>

definition build_transformer_default ::
  "rng \<Rightarrow> int \<Rightarrow> int \<Rightarrow> int \<Rightarrow> int \<Rightarrow> error + Transformer \<times> Transformer" where
  "build_transformer_default g seq_vocab_size seq_seq_len seq_pack_len class_size =
     build_transformer g seq_vocab_size seq_seq_len seq_pack_len class_size 64 3 4 (1 / 10) 128 False"

subsection \<open>explainer_model\<close>

record 'b config =
  BYTE_PAD_TRUNC_LENGTH :: int
  HEADER_BYTE_PAD_TRUNC_LENGTH :: int
  baseline :: 'b

record 'b explainer_model =
  mask_header :: "real tensor"
  mask_payload :: "real tensor"
  em_config :: "'b config"

definition explainer_model_init :: "'b config \<Rightarrow> error + 'b explainer_model" where
  "explainer_model_init cfg =
     and_then (torch_ones [257]) (\<lambda>mh.
     and_then (torch_ones [257]) (\<lambda>mp.
       Inr \<lparr>mask_header = mh, mask_payload = mp, em_config = cfg\<rparr>))"

text \<open>
  \<open>compute_emb\<close> is imported from \<open>utils\<close>, which is not part of the sources: it is
  the first argument, called with the arguments in the order of the source
  (the model, the packet model, the sequence, its mask, the truncation length, the
  value weights, the baseline).
\<close>

definition explainer_model_forward ::
  "(Transformer \<Rightarrow> Transformer \<Rightarrow> 's \<Rightarrow> 'm \<Rightarrow> int \<Rightarrow> real tensor \<Rightarrow> 'b \<Rightarrow> error + real tensor)
     \<Rightarrow> 'b explainer_model \<Rightarrow> Transformer \<Rightarrow> Transformer \<Rightarrow> Transformer \<Rightarrow> Transformer
     \<Rightarrow> 's \<Rightarrow> 'm \<Rightarrow> 's \<Rightarrow> 'm \<Rightarrow> error + real tensor" where
  "explainer_model_forward compute_emb self model header_model model_pack header_model_pack
       seq mask' seq_header seq_header_mask =
     and_then (compute_emb model model_pack seq mask' (BYTE_PAD_TRUNC_LENGTH (em_config self))
                 (torch_sigmoid (mask_payload self)) (baseline (em_config self))) (\<lambda>seq_emb.
     and_then (compute_emb header_model header_model_pack seq_header seq_header_mask
                 (HEADER_BYTE_PAD_TRUNC_LENGTH (em_config self))
                 (torch_sigmoid (mask_header self)) (baseline (em_config self))) (\<lambda>header_emb.
     and_then (torch_cat1 seq_emb header_emb) (\<lambda>emb.
       project model emb)))"

section \<open>Multi-head attention in the words of the specification\<close>

text \<open>
  The reference for the forward pass without a mask, element by element: the three
  inputs are projected, head \<open>a\<close> reads the features \<open>a * d_k, ..., a * d_k + d_k - 1\<close>,
  its weights are the softmax of the scaled dot products over the key positions, with
  dropout on the weights; the heads are concatenated and projected by \<open>w_o\<close>.
\<close>

definition spec_linear :: "Linear \<Rightarrow> real tensor \<Rightarrow> nat \<Rightarrow> nat \<Rightarrow> nat \<Rightarrow> real" where
  "spec_linear l x i p f =
     (\<Sum>e<lin_in l. elem x [i, p, e] * elem (lin_weight l) [f, e])
     + (case lin_bias l of None \<Rightarrow> 0 | Some c \<Rightarrow> elem c [f])"

definition spec_score ::
  "MultiHeadAttentionBlock \<Rightarrow> real tensor \<Rightarrow> real tensor \<Rightarrow> nat \<Rightarrow> nat \<Rightarrow> nat \<Rightarrow> nat \<Rightarrow> real" where
  "spec_score blk q k i a p u =
     (\<Sum>c<nat (mha_d_k blk).
         spec_linear (mha_w_q blk) q i p (a * nat (mha_d_k blk) + c)
         * spec_linear (mha_w_k blk) k i u (a * nat (mha_d_k blk) + c))
     / sqrt (real (nat (mha_d_k blk)))"

definition spec_softmax :: "(nat \<Rightarrow> real) \<Rightarrow> nat \<Rightarrow> nat \<Rightarrow> real" where
  "spec_softmax f n u = exp (f u) / (\<Sum>j<n. exp (f j))"

definition spec_dropout :: "Dropout \<Rightarrow> rng \<Rightarrow> nat list \<Rightarrow> real \<Rightarrow> real" where
  "spec_dropout d g idx w =
     (if drop_training d then (if draw g idx < drop_p d then 0 else w / (1 - drop_p d)) else w)"

definition spec_head ::
  "MultiHeadAttentionBlock \<Rightarrow> rng \<Rightarrow> real tensor \<Rightarrow> real tensor \<Rightarrow> real tensor \<Rightarrow> nat
     \<Rightarrow> nat \<Rightarrow> nat \<Rightarrow> nat \<Rightarrow> nat \<Rightarrow> real" where
  "spec_head blk g q k v n i a p c =
     (\<Sum>u<n. spec_dropout (mha_dropout blk) g [i, a, p, u]
                (spec_softmax (spec_score blk q k i a p) n u)
              * spec_linear (mha_w_v blk) v i u (a * nat (mha_d_k blk) + c))"

definition spec_multi_head_attention ::
  "MultiHeadAttentionBlock \<Rightarrow> rng \<Rightarrow> real tensor \<Rightarrow> real tensor \<Rightarrow> real tensor \<Rightarrow> nat
     \<Rightarrow> nat \<Rightarrow> nat \<Rightarrow> nat \<Rightarrow> real" where
  "spec_multi_head_attention blk g q k v n i p f =
     (\<Sum>e<lin_in (mha_w_o blk).
         spec_head blk g q k v n i (e div nat (mha_d_k blk)) p (e mod nat (mha_d_k blk))
         * elem (lin_weight (mha_w_o blk)) [f, e])
     + (case lin_bias (mha_w_o blk) of None \<Rightarrow> 0 | Some c \<Rightarrow> elem c [f])"

section \<open>Shape invariants of the modules\<close>

text \<open>
  What the constructors establish and the forward passes rely on: the shapes of the
  parameters of a module that works on feature vectors of width \<open>d\<close>.
\<close>

definition wf_Linear :: "Linear \<Rightarrow> nat \<Rightarrow> nat \<Rightarrow> bool" where
  "wf_Linear l n m \<longleftrightarrow>
     lin_in l = n \<and> lin_out l = m \<and> shape (lin_weight l) = [m, n]
     \<and> (case lin_bias l of None \<Rightarrow> True | Some b \<Rightarrow> shape b = [m])"

definition wf_LayerNormalization :: "LayerNormalization \<Rightarrow> nat \<Rightarrow> bool" where
  "wf_LayerNormalization l d \<longleftrightarrow> shape (ln_alpha l) = [d] \<and> shape (ln_bias l) = [d]"

definition wf_FeedForwardBlock :: "FeedForwardBlock \<Rightarrow> nat \<Rightarrow> bool" where
  "wf_FeedForwardBlock ff d \<longleftrightarrow>
     wf_Linear (ff_linear_1 ff) d (lin_out (ff_linear_1 ff))
     \<and> wf_Linear (ff_linear_2 ff) (lin_out (ff_linear_1 ff)) d"

definition wf_InputEmbeddings :: "InputEmbeddings \<Rightarrow> nat \<Rightarrow> nat \<Rightarrow> bool" where
  "wf_InputEmbeddings ie d v \<longleftrightarrow>
     ie_d_model ie = int d \<and> emb_dim (ie_embedding ie) = d \<and> emb_num (ie_embedding ie) = v
     \<and> shape (emb_weight (ie_embedding ie)) = [v, d]"

definition wf_MultiHeadAttentionBlock :: "MultiHeadAttentionBlock \<Rightarrow> nat \<Rightarrow> bool" where
  "wf_MultiHeadAttentionBlock blk d \<longleftrightarrow>
     wf_Linear (mha_w_q blk) d d \<and> wf_Linear (mha_w_k blk) d d
     \<and> wf_Linear (mha_w_v blk) d d \<and> wf_Linear (mha_w_o blk) d d
     \<and> 0 < mha_h blk \<and> 0 \<le> mha_d_k blk \<and> mha_h blk * mha_d_k blk = int d"

definition wf_ResidualConnection :: "ResidualConnection \<Rightarrow> nat \<Rightarrow> bool" where
  "wf_ResidualConnection rc d \<longleftrightarrow> wf_LayerNormalization (rc_norm rc) d"

definition wf_EncoderBlock :: "EncoderBlock \<Rightarrow> nat \<Rightarrow> bool" where
  "wf_EncoderBlock blk d \<longleftrightarrow>
     wf_MultiHeadAttentionBlock (eb_self_attention_block blk) d
     \<and> wf_FeedForwardBlock (eb_feed_forward_block blk) d
     \<and> length (eb_residual_connections blk) = 2
     \<and> list_all (\<lambda>rc. wf_ResidualConnection rc d) (eb_residual_connections blk)"

definition wf_Encoder :: "Encoder \<Rightarrow> nat \<Rightarrow> bool" where
  "wf_Encoder enc d \<longleftrightarrow>
     list_all (\<lambda>blk. wf_EncoderBlock blk d) (enc_layers enc)
     \<and> wf_LayerNormalization (enc_norm enc) d"

section \<open>Basic facts\<close>

lemma and_then_Inr [simp]: "and_then (Inr x) f = f x"
  by (simp add: and_then_def)

lemma and_then_Inl [simp]: "and_then (Inl e) f = Inl e"
  by (simp add: and_then_def)

lemma and_then_eq_Inr: "and_then m f = Inr y \<longleftrightarrow> (\<exists>x. m = Inr x \<and> f x = Inr y)"
  by (cases m) simp_all

lemma isl_and_then_left: "isl m \<Longrightarrow> isl (and_then m f)"
  by (cases m) simp_all

lemma isl_and_then_right: "(\<And>x. isl (f x)) \<Longrightarrow> isl (and_then m f)"
  by (cases m) simp_all

lemma shape_map_tensor [simp]: "shape (map_tensor f a) = shape a"
  by (simp add: map_tensor_def)

lemma elem_map_tensor [simp]: "elem (map_tensor f a) idx = f (elem a idx)"
  by (simp add: map_tensor_def)

lemma nn_Linear_nonneg:
  "0 \<le> n_in \<Longrightarrow> 0 \<le> n_out \<Longrightarrow>
   nn_Linear g n_in n_out b =
     Inr \<lparr>lin_in = nat n_in, lin_out = nat n_out,
          lin_weight = Tensor [nat n_out, nat n_in] (draw (child g 0)),
          lin_bias = (if b then Some (Tensor [nat n_out] (draw (child g 1))) else None)\<rparr>"
  by (simp add: nn_Linear_def torch_random_def torch_size_def)

lemma nn_Dropout_valid:
  "0 \<le> q \<Longrightarrow> q \<le> 1 \<Longrightarrow> nn_Dropout q = Inr \<lparr>drop_p = q, drop_training = True\<rparr>"
  by (simp add: nn_Dropout_def)

section \<open>Broadcasting, slices and the positional table\<close>

lemma broadcast_rev_Nil2 [simp]: "broadcast_rev xs [] = Inr xs"
  by (cases xs) simp_all

lemma broadcast_rev_same [simp]: "broadcast_rev xs xs = Inr xs"
  by (induction xs) simp_all

lemma broadcast_shapes_same [simp]: "broadcast_shapes s s = Inr s"
  by (simp add: broadcast_shapes_def)

lemma bidx_valid: "list_all2 (<) idx s \<Longrightarrow> bidx s idx = idx"
proof (induction idx s rule: list_all2_induct)
  case Nil
  then show ?case by (simp add: bidx_def)
next
  case (Cons i idx d s)
  then show ?case by (auto simp: bidx_def dest: list_all2_lengthD)
qed

lemma t_mul_position_div_term:
  "shape a = [S, 1] \<Longrightarrow> shape b = [C] \<Longrightarrow>
   t_mul a b = Inr (Tensor [S, C] (\<lambda>idx. elem a (bidx [S, 1] idx) * elem b (bidx [C] idx)))"
  by (auto simp: t_mul_def broadcast_op_def broadcast_shapes_def)

lemma expand_strip_2d:
  "shape a = [S, C] \<Longrightarrow>
   expand_to (strip_leading_ones a) [S, F] =
     (if C = F \<or> C = 1 then Inr (Tensor [S, F] (\<lambda>idx. elem (strip_leading_ones a) (bidx (shape (strip_leading_ones a)) idx))) else Inl RuntimeError)"
  by (auto simp: expand_to_def strip_leading_ones_def Let_def)


lemma slice_len_0_2: "slice_len D 0 2 = (D + 1) div 2"
  by (simp add: slice_len_def)

lemma slice_len_1_2: "slice_len D (Suc 0) 2 = D div 2"
  by (auto simp: slice_len_def)


lemma expand_strip_2d_elem:
  assumes "shape a = [S, C]" "C = F \<or> C = 1"
  shows "\<exists>b. expand_to (strip_leading_ones a) [S, F] = Inr b \<and> shape b = [S, F]
           \<and> (\<forall>i c. i < S \<longrightarrow> elem b [i, c] = elem a [i, if C = 1 then 0 else c])"
  using assms
  by (auto simp: expand_to_def strip_leading_ones_def Let_def bidx_def)

lemma setitem_cols_2d:
  assumes "shape dst = [S, D]" "shape src = [S, C]" "C = slice_len D start step \<or> C = 1"
  shows "\<exists>r. setitem_cols dst start step src = Inr r \<and> shape r = [S, D]
           \<and> (\<forall>i j. i < S \<longrightarrow> elem r [i, j] =
                 (if start \<le> j \<and> (j - start) mod step = 0
                  then elem src [i, if C = 1 then 0 else (j - start) div step]
                  else elem dst [i, j]))"
proof -
  from expand_strip_2d_elem [OF assms(2,3)]
  obtain b where b: "expand_to (strip_leading_ones src) [S, slice_len D start step] = Inr b"
    "shape b = [S, slice_len D start step]"
    "\<And>i c. i < S \<Longrightarrow> elem b [i, c] = elem src [i, if C = 1 then 0 else c]"
    by blast
  show ?thesis
    using assms(1) b by (simp add: setitem_cols_def)
qed

lemma setitem_cols_2d_mismatch:
  assumes "shape dst = [S, D]" "shape src = [S, C]" "C \<noteq> slice_len D start step" "C \<noteq> 1"
  shows "setitem_cols dst start step src = Inl RuntimeError"
  using assms by (simp add: setitem_cols_def expand_strip_2d)


lemma bidx_2_2 [simp]: "bidx [a, b] [i, j] = [if a = 1 then 0 else i, if b = 1 then 0 else j]"
  by (simp add: bidx_def)

lemma bidx_1_2 [simp]: "bidx [a] [i, j] = [if a = 1 then 0 else j]"
  by (simp add: bidx_def)

lemma elem_strip_bidx_2d:
  "shape a = [S, C] \<Longrightarrow> i < S \<Longrightarrow>
   elem (strip_leading_ones a) (bidx (shape (strip_leading_ones a)) [i, c])
     = elem a [i, if C = 1 then 0 else c]"
  by (auto simp: strip_leading_ones_def Let_def bidx_def)

lemma halves_agree:
  assumes "0 < d" "even d \<or> d = 1"
  shows "Suc (nat d) div 2 = nat d div 2 \<or> Suc (nat d) div 2 = Suc 0"
proof -
  from assms have "even (nat d) \<or> nat d = 1"
    by (auto simp: even_nat_iff)
  then show ?thesis by auto
qed

lemma t_mul_outer:
  assumes "shape a = [S, 1]" "shape b = [C]"
  shows "\<exists>r. t_mul a b = Inr r \<and> shape r = [S, C]
           \<and> (\<forall>i c. i < S \<longrightarrow> c < C \<longrightarrow> elem r [i, c] = elem a [i, 0] * elem b [c])"
  using assms by (auto simp: t_mul_position_div_term)

lemma PositionalEncoding_init_sine_stage:
  assumes "0 \<le> dropout" "dropout \<le> 1" "0 \<le> seq_len" "0 < d_model"
  shows "\<exists>ang pe1.
           shape ang = [nat seq_len, (nat d_model + 1) div 2]
         \<and> (\<forall>i k. i < nat seq_len \<longrightarrow> k < (nat d_model + 1) div 2 \<longrightarrow>
                elem ang [i, k] = real i * exp (real (k * 2) * (- ln 10000 / real_of_int d_model)))
         \<and> shape pe1 = [nat seq_len, nat d_model]
         \<and> (\<forall>i j. i < nat seq_len \<longrightarrow> elem pe1 [i, j] =
                (if even j
                 then sin (elem ang [i, if (nat d_model + 1) div 2 = 1 then 0 else j div 2])
                 else 0))
         \<and> PositionalEncoding_init d_model seq_len dropout =
             and_then (setitem_cols pe1 (Suc 0) 2 (map_tensor cos ang)) (\<lambda>pe2.
             and_then (unsqueeze pe2 0) (\<lambda>pe3.
               Inr \<lparr>pe_d_model = d_model, pe_seq_len = seq_len,
                    pe_dropout = \<lparr>drop_p = dropout, drop_training = True\<rparr>, pe = pe3\<rparr>))"
proof -
  define S D C where "S = nat seq_len" and "D = nat d_model" and "C = (D + 1) div 2"
  define c where "c = - ln 10000 / real_of_int d_model"
  define pe0 :: "real tensor" where "pe0 = Tensor [S, D] (\<lambda>idx. 0)"
  define ar :: "real tensor" where "ar = Tensor [S] (\<lambda>idx. real (hd idx))"
  define position :: "real tensor"
    where "position = Tensor [S, 1] (\<lambda>idx. elem ar (take (Suc 0) idx @ drop (Suc (Suc 0)) idx))"
  define evens :: "real tensor" where "evens = Tensor [C] (\<lambda>idx. real (hd idx * 2))"
  define div_term where "div_term = map_tensor exp (map_tensor (\<lambda>v. v * c) evens)"
  have dr: "nn_Dropout dropout = Inr \<lparr>drop_p = dropout, drop_training = True\<rparr>"
    using assms(1,2) by (rule nn_Dropout_valid)
  have zeros: "torch_zeros [seq_len, d_model] = Inr pe0"
    using assms(3,4) by (simp add: torch_zeros_def torch_full_def torch_size_def pe0_def S_def D_def)
  have ar: "torch_arange seq_len (Suc 0) = Inr ar"
    using assms(3) by (simp add: torch_arange_def ar_def S_def)
  have pos: "unsqueeze ar 1 = Inr position"
    by (simp add: unsqueeze_def ar_def position_def)
  have evens: "torch_arange d_model 2 = Inr evens"
    using assms(4) by (simp add: torch_arange_def evens_def C_def D_def)
  have quot: "py_truediv (- ln 10000) d_model = Inr c"
    using assms(4) by (simp add: py_truediv_def c_def)
  have "shape position = [S, 1]" "shape div_term = [C]"
    by (simp_all add: position_def div_term_def evens_def)
  from t_mul_outer [OF this]
  obtain ang where ang: "t_mul position div_term = Inr ang" "shape ang = [S, C]"
    and ang_elem: "\<And>i k. i < S \<Longrightarrow> k < C \<Longrightarrow> elem ang [i, k] = elem position [i, 0] * elem div_term [k]"
    by blast
  have ang_val: "elem ang [i, k] = real i * exp (real (k * 2) * c)" if "i < S" "k < C" for i k
    using ang_elem [OF that] by (simp add: position_def ar_def div_term_def evens_def)
  have "shape pe0 = [S, D]" "shape (map_tensor sin ang) = [S, C]" "C = slice_len D 0 2 \<or> C = 1"
    by (simp_all add: pe0_def ang(2) slice_len_0_2 C_def)
  from setitem_cols_2d [OF this]
  obtain pe1 where pe1: "setitem_cols pe0 0 2 (map_tensor sin ang) = Inr pe1" "shape pe1 = [S, D]"
    and pe1_elem: "\<And>i j. i < S \<Longrightarrow> elem pe1 [i, j] =
       (if 0 \<le> j \<and> (j - 0) mod 2 = 0 then elem (map_tensor sin ang) [i, if C = 1 then 0 else (j - 0) div 2]
        else elem pe0 [i, j])"
    by blast
  have pe1_val: "elem pe1 [i, j] = (if even j then sin (elem ang [i, if C = 1 then 0 else j div 2]) else 0)"
    if "i < S" for i j
    using pe1_elem [OF that, of j] by (simp add: pe0_def mod_2_eq_odd)
  have init: "PositionalEncoding_init d_model seq_len dropout =
      and_then (setitem_cols pe1 (Suc 0) 2 (map_tensor cos ang)) (\<lambda>pe2.
      and_then (unsqueeze pe2 0) (\<lambda>pe3.
        Inr \<lparr>pe_d_model = d_model, pe_seq_len = seq_len,
             pe_dropout = \<lparr>drop_p = dropout, drop_training = True\<rparr>, pe = pe3\<rparr>))"
    using ang(1) unfolding PositionalEncoding_init_def Let_def div_term_def
    by (simp only: dr zeros ar pos evens quot pe1(1) and_then_Inr One_nat_def)
  show ?thesis
    using ang(2) ang_val pe1(2) pe1_val init
    unfolding S_def D_def C_def c_def by blast
qed

lemma PositionalEncoding_init_ok:
  assumes "0 \<le> dropout" "dropout \<le> 1" "0 \<le> seq_len" "0 < d_model" "even d_model \<or> d_model = 1"
  shows "\<exists>P. PositionalEncoding_init d_model seq_len dropout = Inr P
           \<and> pe_dropout P = \<lparr>drop_p = dropout, drop_training = True\<rparr>
           \<and> shape (pe P) = [1, nat seq_len, nat d_model]
           \<and> (\<forall>pos j. pos < nat seq_len \<longrightarrow> j < nat d_model \<longrightarrow>
                 elem (pe P) [0, pos, j] =
                   (if even j then sin (real pos * exp (real j * (- ln 10000 / real_of_int d_model)))
                    else cos (real pos * exp (real (j - 1) * (- ln 10000 / real_of_int d_model)))))"
proof -
  define S D C where "S = nat seq_len" and "D = nat d_model" and "C = (D + 1) div 2"
  define c where "c = - ln 10000 / real_of_int d_model"
  from PositionalEncoding_init_sine_stage [OF assms(1-4)]
  obtain ang pe1 where ang: "shape ang = [S, C]"
    and ang_val: "\<And>i k. i < S \<Longrightarrow> k < C \<Longrightarrow> elem ang [i, k] = real i * exp (real (k * 2) * c)"
    and pe1: "shape pe1 = [S, D]"
    and pe1_val: "\<And>i j. i < S \<Longrightarrow> elem pe1 [i, j] =
          (if even j then sin (elem ang [i, if C = 1 then 0 else j div 2]) else 0)"
    and init: "PositionalEncoding_init d_model seq_len dropout =
      and_then (setitem_cols pe1 (Suc 0) 2 (map_tensor cos ang)) (\<lambda>pe2.
      and_then (unsqueeze pe2 0) (\<lambda>pe3.
        Inr \<lparr>pe_d_model = d_model, pe_seq_len = seq_len,
             pe_dropout = \<lparr>drop_p = dropout, drop_training = True\<rparr>, pe = pe3\<rparr>))"
    unfolding S_def D_def C_def c_def by blast
  have parity: "C = D div 2 \<or> C = 1"
    using halves_agree [OF assms(4,5)] by (simp add: C_def D_def)
  have "shape pe1 = [S, D]" "shape (map_tensor cos ang) = [S, C]" "C = slice_len D (Suc 0) 2 \<or> C = 1"
    using parity by (simp_all add: pe1 ang slice_len_1_2)
  from setitem_cols_2d [OF this]
  obtain pe2 where pe2: "setitem_cols pe1 (Suc 0) 2 (map_tensor cos ang) = Inr pe2" "shape pe2 = [S, D]"
    and pe2_elem: "\<And>i j. i < S \<Longrightarrow> elem pe2 [i, j] =
       (if Suc 0 \<le> j \<and> (j - Suc 0) mod 2 = 0
        then elem (map_tensor cos ang) [i, if C = 1 then 0 else (j - Suc 0) div 2]
        else elem pe1 [i, j])"
    by blast
  define P where "P = \<lparr>pe_d_model = d_model, pe_seq_len = seq_len,
      pe_dropout = \<lparr>drop_p = dropout, drop_training = True\<rparr>,
      pe = Tensor [1, S, D] (\<lambda>idx. elem pe2 (drop (Suc 0) idx))\<rparr>"
  have last: "unsqueeze pe2 0 = Inr (Tensor [1, S, D] (\<lambda>idx. elem pe2 (drop (Suc 0) idx)))"
    by (simp add: unsqueeze_def pe2(2))
  have P: "PositionalEncoding_init d_model seq_len dropout = Inr P"
    by (simp add: init pe2(1) last P_def)
  have "elem (pe P) [0, pos, j] =
          (if even j then sin (real pos * exp (real j * c)) else cos (real pos * exp (real (j - 1) * c)))"
    if "pos < S" "j < D" for pos j
  proof (cases "even j")
    case True
    define k where "k = (if C = 1 then 0 else j div 2)"
    have k: "k * 2 = j" "k < C"
      using that(2) True by (auto simp: C_def k_def)
    from True have "elem pe2 [pos, j] = sin (elem ang [pos, k])"
      using that(1) by (auto simp: pe2_elem pe1_val k_def mod_2_eq_odd)
    with ang_val [OF that(1) k(2)] k(1) True show ?thesis
      by (simp add: P_def)
  next
    case False
    define k where "k = (if C = 1 then 0 else (j - Suc 0) div 2)"
    have k: "k * 2 = j - 1" "k < C" "Suc 0 \<le> j"
      using that(2) False by (auto simp: C_def k_def elim!: oddE)
    from False have "elem pe2 [pos, j] = cos (elem ang [pos, k])"
      using that(1) k(3) by (simp add: pe2_elem k_def mod_2_eq_odd)
    with ang_val [OF that(1) k(2)] k(1) False show ?thesis
      by (simp add: P_def)
  qed
  then show ?thesis
    using P by (intro exI [of _ P]) (simp add: P_def S_def D_def c_def)
qed

lemma PositionalEncoding_init_odd:
  assumes "0 \<le> dropout" "dropout \<le> 1" "0 \<le> seq_len" "odd d_model" "3 \<le> d_model"
  shows "PositionalEncoding_init d_model seq_len dropout = Inl RuntimeError"
proof -
  define S D C where "S = nat seq_len" and "D = nat d_model" and "C = (D + 1) div 2"
  from assms(5) have pos: "0 < d_model" by simp
  from PositionalEncoding_init_sine_stage [OF assms(1-3) pos]
  obtain ang pe1 where ang: "shape ang = [S, C]"
    and pe1: "shape pe1 = [S, D]"
    and init: "PositionalEncoding_init d_model seq_len dropout =
      and_then (setitem_cols pe1 (Suc 0) 2 (map_tensor cos ang)) (\<lambda>pe2.
      and_then (unsqueeze pe2 0) (\<lambda>pe3.
        Inr \<lparr>pe_d_model = d_model, pe_seq_len = seq_len,
             pe_dropout = \<lparr>drop_p = dropout, drop_training = True\<rparr>, pe = pe3\<rparr>))"
    unfolding S_def D_def C_def by blast
  from assms(4,5) have "odd D" "3 \<le> D"
    by (simp_all add: D_def even_nat_iff)
  then have "C \<noteq> slice_len D (Suc 0) 2" "C \<noteq> 1"
    by (auto simp: C_def slice_len_1_2 elim!: oddE)
  with setitem_cols_2d_mismatch [of pe1 S D "map_tensor cos ang" C "Suc 0" 2]
  have "setitem_cols pe1 (Suc 0) 2 (map_tensor cos ang) = Inl RuntimeError"
    by (simp add: pe1 ang)
  then show ?thesis by (simp add: init)
qed

lemma PositionalEncoding_init_invalid:
  assumes "dropout < 0 \<or> 1 < dropout \<or> seq_len < 0 \<or> d_model \<le> 0"
  shows "isl (PositionalEncoding_init d_model seq_len dropout)"
  using assms
  by (auto simp: PositionalEncoding_init_def nn_Dropout_def torch_zeros_def torch_full_def
      torch_size_def torch_arange_def unsqueeze_def py_truediv_def)

lemma PositionalEncoding_init_Inr_iff:
  "(\<exists>P. PositionalEncoding_init d_model seq_len dropout = Inr P) \<longleftrightarrow>
     0 \<le> dropout \<and> dropout \<le> 1 \<and> 0 \<le> seq_len \<and> 0 < d_model \<and> (even d_model \<or> d_model = 1)"
proof
  assume ok: "\<exists>P. PositionalEncoding_init d_model seq_len dropout = Inr P"
  then have "\<not> isl (PositionalEncoding_init d_model seq_len dropout)"
    by auto
  with PositionalEncoding_init_invalid [of dropout seq_len d_model]
  have "\<not> (dropout < 0 \<or> 1 < dropout \<or> seq_len < 0 \<or> d_model \<le> 0)"
    by blast
  then have valid: "0 \<le> dropout" "dropout \<le> 1" "0 \<le> seq_len" "0 < d_model"
    by simp_all
  have "even d_model \<or> d_model = 1"
  proof (rule ccontr)
    assume "\<not> (even d_model \<or> d_model = 1)"
    with valid(4) have "odd d_model" "3 \<le> d_model"
      by presburger+
    from PositionalEncoding_init_odd [OF valid(1-3) this] ok show False by simp
  qed
  with valid show "0 \<le> dropout \<and> dropout \<le> 1 \<and> 0 \<le> seq_len \<and> 0 < d_model \<and> (even d_model \<or> d_model = 1)"
    by simp
next
  assume "0 \<le> dropout \<and> dropout \<le> 1 \<and> 0 \<le> seq_len \<and> 0 < d_model \<and> (even d_model \<or> d_model = 1)"
  then show "\<exists>P. PositionalEncoding_init d_model seq_len dropout = Inr P"
    using PositionalEncoding_init_ok [of dropout seq_len d_model] by blast
qed

section \<open>Construction of the attention block\<close>

lemma check_divisible_cases:
  "check_divisible d_model h =
     (if h = 0 then Inl ZeroDivisionError
      else if d_model mod h = 0 then Inr () else Inl AssertionError)"
  by (simp add: check_divisible_def py_mod_def py_assert_def)

lemma MultiHeadAttentionBlock_init_not_divisible:
  "\<not> h dvd d_model \<Longrightarrow> isl (MultiHeadAttentionBlock_init g d_model h dropout)"
  by (simp add: MultiHeadAttentionBlock_init_def check_divisible_cases mod_eq_0_iff_dvd)

lemma MultiHeadAttentionBlock_init_ok:
  assumes "h \<noteq> 0" "h dvd d_model" "0 \<le> d_model" "0 \<le> dropout" "dropout \<le> 1"
  shows "MultiHeadAttentionBlock_init g d_model h dropout =
           Inr \<lparr>mha_d_model = d_model, mha_h = h, mha_d_k = d_model div h,
                mha_w_q = \<lparr>lin_in = nat d_model, lin_out = nat d_model,
                           lin_weight = Tensor [nat d_model, nat d_model] (draw (child (child g 0) 0)),
                           lin_bias = None\<rparr>,
                mha_w_k = \<lparr>lin_in = nat d_model, lin_out = nat d_model,
                           lin_weight = Tensor [nat d_model, nat d_model] (draw (child (child g 1) 0)),
                           lin_bias = None\<rparr>,
                mha_w_v = \<lparr>lin_in = nat d_model, lin_out = nat d_model,
                           lin_weight = Tensor [nat d_model, nat d_model] (draw (child (child g 2) 0)),
                           lin_bias = None\<rparr>,
                mha_w_o = \<lparr>lin_in = nat d_model, lin_out = nat d_model,
                           lin_weight = Tensor [nat d_model, nat d_model] (draw (child (child g 3) 0)),
                           lin_bias = None\<rparr>,
                mha_dropout = \<lparr>drop_p = dropout, drop_training = True\<rparr>,
                mha_attention_scores = None\<rparr>"
  using assms
  by (simp add: MultiHeadAttentionBlock_init_def check_divisible_cases mod_eq_0_iff_dvd
      py_floordiv_def nn_Linear_nonneg nn_Dropout_valid)

lemma build_transformer_not_divisible:
  assumes "\<not> h dvd d_model"
  shows "isl (build_transformer g v s p c d_model N h dropout d_ff header)"
proof -
  have blocks: "isl (make_encoder_blocks g' (Suc 0) d_model h dropout d_ff)" for g'
    using MultiHeadAttentionBlock_init_not_divisible [OF assms]
    by (simp add: isl_and_then_left)
  show ?thesis
    unfolding build_transformer_def Let_def
    apply (rule isl_and_then_right)
    apply (rule isl_and_then_right)
    apply (rule isl_and_then_right)
    apply (rule isl_and_then_right)
    apply (rule isl_and_then_right)
    apply (rule isl_and_then_right)
    apply (rule isl_and_then_left)
    using blocks by simp
qed

text \<open>
  C3.  Constructing a MultiHeadAttentionBlock fails whenever \<open>d_model\<close> is not divisible
  by \<open>h\<close> (with an AssertionError when \<open>h\<close> is not zero), and so does
  \<open>build_transformer\<close>; when \<open>h\<close> is not zero and divides \<open>d_model\<close> the assertion
  passes, and the construction succeeds for a width that is not negative and a valid
  dropout rate.  With \<open>d_model = 64\<close> and \<open>h = 5\<close> the construction fails.
\<close>

theorem MultiHeadAttentionBlock_init_checks_divisibility:
  "(\<not> h dvd d_model \<longrightarrow> isl (MultiHeadAttentionBlock_init g d_model h dropout))
   \<and> (\<not> h dvd d_model \<longrightarrow> isl (build_transformer g v s p c d_model N h dropout d_ff header))
   \<and> (h \<noteq> 0 \<and> \<not> h dvd d_model \<longrightarrow>
        MultiHeadAttentionBlock_init g d_model h dropout = Inl AssertionError)
   \<and> (h \<noteq> 0 \<and> h dvd d_model \<longrightarrow> check_divisible d_model h = Inr ())
   \<and> (h \<noteq> 0 \<and> h dvd d_model \<and> 0 \<le> d_model \<and> 0 \<le> dropout \<and> dropout \<le> 1 \<longrightarrow>
        \<not> isl (MultiHeadAttentionBlock_init g d_model h dropout))
   \<and> MultiHeadAttentionBlock_init g 64 5 dropout = Inl AssertionError"
proof (intro conjI impI)
  show "MultiHeadAttentionBlock_init g 64 5 dropout = Inl AssertionError"
    by (simp add: MultiHeadAttentionBlock_init_def check_divisible_cases)
next
  assume "h \<noteq> 0 \<and> \<not> h dvd d_model"
  then show "MultiHeadAttentionBlock_init g d_model h dropout = Inl AssertionError"
    by (simp add: MultiHeadAttentionBlock_init_def check_divisible_cases mod_eq_0_iff_dvd)
next
  assume "h \<noteq> 0 \<and> h dvd d_model"
  then show "check_divisible d_model h = Inr ()"
    by (simp add: check_divisible_cases mod_eq_0_iff_dvd)
next
  assume "h \<noteq> 0 \<and> h dvd d_model \<and> 0 \<le> d_model \<and> 0 \<le> dropout \<and> dropout \<le> 1"
  then show "\<not> isl (MultiHeadAttentionBlock_init g d_model h dropout)"
    by (simp add: MultiHeadAttentionBlock_init_ok)
qed (simp_all add: MultiHeadAttentionBlock_init_not_divisible build_transformer_not_divisible)

theorem MultiHeadAttentionBlock_init_checks_divisibility_witness:
  "\<not> (4::int) dvd 63 \<and> (4::int) \<noteq> 0 \<and> (4::int) dvd 64 \<and> (0::int) \<le> 64 \<and> (0::real) \<le> 1 / 10 \<and> (1::real) / 10 \<le> 1
   \<and> MultiHeadAttentionBlock_init (\<lambda>path idx. 0) 63 4 (1 / 10) = Inl AssertionError
   \<and> isl (build_transformer (\<lambda>path idx. 0) 256 150 10 2 63 3 4 (1 / 10) 128 False)
   \<and> check_divisible 64 4 = Inr ()
   \<and> \<not> isl (MultiHeadAttentionBlock_init (\<lambda>path idx. 0) 64 4 (1 / 10))"
  using MultiHeadAttentionBlock_init_checks_divisibility
          [of 4 63 "\<lambda>path idx. 0" "1 / 10" 256 150 10 2 3 128 False]
        MultiHeadAttentionBlock_init_checks_divisibility
          [of 4 64 "\<lambda>path idx. 0" "1 / 10" 256 150 10 2 3 128 False]
  by simp

section \<open>What the constructors establish\<close>

lemma nn_Linear_wf:
  assumes "0 \<le> n_in" "0 \<le> n_out"
  shows "\<exists>l. nn_Linear g n_in n_out b = Inr l \<and> wf_Linear l (nat n_in) (nat n_out)"
  using assms by (simp add: nn_Linear_nonneg wf_Linear_def)

lemma Linear_init_params_wf:
  assumes "wf_Linear l n m" "0 < n + m"
  shows "\<exists>l'. Linear_init_params g l = Inr l' \<and> wf_Linear l' n m"
  using assms
  by (auto simp: Linear_init_params_def init_param_def xavier_uniform_def wf_Linear_def Let_def
      split: option.splits)

lemma LayerNormalization_init_wf:
  assumes "0 \<le> features"
  shows "\<exists>l. LayerNormalization_init features eps = Inr l \<and> wf_LayerNormalization l (nat features)"
  using assms
  by (simp add: LayerNormalization_init_def torch_ones_def torch_zeros_def torch_full_def
      torch_size_def wf_LayerNormalization_def)

lemma LayerNormalization_init_params_wf:
  assumes "wf_LayerNormalization l d"
  shows "LayerNormalization_init_params g l = Inr l"
  using assms
  by (simp add: LayerNormalization_init_params_def init_param_def wf_LayerNormalization_def)

lemma FeedForwardBlock_init_wf:
  assumes "0 \<le> d_model" "0 \<le> d_ff" "0 \<le> dropout" "dropout \<le> 1"
  shows "\<exists>ff. FeedForwardBlock_init g d_model d_ff dropout = Inr ff
            \<and> wf_FeedForwardBlock ff (nat d_model)"
  using assms
  by (simp add: FeedForwardBlock_init_def nn_Linear_nonneg nn_Dropout_valid
      wf_FeedForwardBlock_def wf_Linear_def)

lemma FeedForwardBlock_init_params_wf:
  assumes "wf_FeedForwardBlock ff d" "0 < d"
  shows "\<exists>ff'. FeedForwardBlock_init_params g ff = Inr ff' \<and> wf_FeedForwardBlock ff' d"
proof -
  define dff where "dff = lin_out (ff_linear_1 ff)"
  from assms have w: "wf_Linear (ff_linear_1 ff) d dff" "wf_Linear (ff_linear_2 ff) dff d"
    by (simp_all add: wf_FeedForwardBlock_def dff_def)
  from Linear_init_params_wf [OF w(1), of "child g 0"] assms(2)
  obtain l1 where l1: "Linear_init_params (child g 0) (ff_linear_1 ff) = Inr l1" "wf_Linear l1 d dff"
    by auto
  from Linear_init_params_wf [OF w(2), of "child g 1"] assms(2)
  obtain l2 where l2: "Linear_init_params (child g 1) (ff_linear_2 ff) = Inr l2" "wf_Linear l2 dff d"
    by auto
  from l1(2) have "lin_out l1 = dff" by (simp add: wf_Linear_def)
  with l1 l2 show ?thesis
    by (simp add: FeedForwardBlock_init_params_def wf_FeedForwardBlock_def)
qed

lemma MultiHeadAttentionBlock_init_wf:
  assumes "0 < h" "h dvd d_model" "0 < d_model" "0 \<le> dropout" "dropout \<le> 1"
  shows "\<exists>blk. MultiHeadAttentionBlock_init g d_model h dropout = Inr blk
            \<and> wf_MultiHeadAttentionBlock blk (nat d_model)"
proof -
  from assms have "h \<noteq> 0" "0 \<le> d_model" "0 \<le> d_model div h" "h * (d_model div h) = d_model"
    by (simp_all add: pos_imp_zdiv_nonneg_iff)
  then show ?thesis
    using assms
    by (simp add: MultiHeadAttentionBlock_init_ok wf_MultiHeadAttentionBlock_def wf_Linear_def)
qed

lemma MultiHeadAttentionBlock_init_params_wf:
  assumes "wf_MultiHeadAttentionBlock blk d" "0 < d"
  shows "\<exists>blk'. MultiHeadAttentionBlock_init_params g blk = Inr blk'
            \<and> wf_MultiHeadAttentionBlock blk' d"
proof -
  from assms have w: "wf_Linear (mha_w_q blk) d d" "wf_Linear (mha_w_k blk) d d"
    "wf_Linear (mha_w_v blk) d d" "wf_Linear (mha_w_o blk) d d"
    by (simp_all add: wf_MultiHeadAttentionBlock_def)
  from Linear_init_params_wf [OF w(1), of "child g 0"] assms(2)
  obtain wq where wq: "Linear_init_params (child g 0) (mha_w_q blk) = Inr wq" "wf_Linear wq d d"
    by auto
  from Linear_init_params_wf [OF w(2), of "child g 1"] assms(2)
  obtain wk where wk: "Linear_init_params (child g 1) (mha_w_k blk) = Inr wk" "wf_Linear wk d d"
    by auto
  from Linear_init_params_wf [OF w(3), of "child g 2"] assms(2)
  obtain wv where wv: "Linear_init_params (child g 2) (mha_w_v blk) = Inr wv" "wf_Linear wv d d"
    by auto
  from Linear_init_params_wf [OF w(4), of "child g 3"] assms(2)
  obtain wo where wo: "Linear_init_params (child g 3) (mha_w_o blk) = Inr wo" "wf_Linear wo d d"
    by auto
  from assms(1) wq wk wv wo show ?thesis
    by (simp add: MultiHeadAttentionBlock_init_params_def wf_MultiHeadAttentionBlock_def)
qed

lemma ResidualConnection_init_wf:
  assumes "0 \<le> features" "0 \<le> dropout" "dropout \<le> 1"
  shows "\<exists>rc. ResidualConnection_init features dropout = Inr rc
            \<and> wf_ResidualConnection rc (nat features)"
proof -
  from LayerNormalization_init_wf [OF assms(1), of default_eps]
  obtain l where "LayerNormalization_init features default_eps = Inr l"
    "wf_LayerNormalization l (nat features)"
    by blast
  then show ?thesis
    using assms(2,3) by (simp add: ResidualConnection_init_def nn_Dropout_valid wf_ResidualConnection_def)
qed

lemma ResidualConnections_init_params_wf:
  assumes "list_all (\<lambda>rc. wf_ResidualConnection rc d) rs"
  shows "ResidualConnections_init_params g rs = Inr rs"
  using assms
proof (induction rs arbitrary: g)
  case Nil
  then show ?case by simp
next
  case (Cons r rs)
  then have "wf_LayerNormalization (rc_norm r) d"
    by (simp add: wf_ResidualConnection_def)
  then have "LayerNormalization_init_params (child g 0) (rc_norm r) = Inr (rc_norm r)"
    by (rule LayerNormalization_init_params_wf)
  with Cons show ?case
    by (simp add: ResidualConnection_init_params_def)
qed

lemma EncoderBlock_init_wf:
  assumes "wf_MultiHeadAttentionBlock att (nat features)" "wf_FeedForwardBlock ff (nat features)"
    "0 \<le> features" "0 \<le> dropout" "dropout \<le> 1"
  shows "\<exists>blk. EncoderBlock_init features att ff dropout = Inr blk \<and> wf_EncoderBlock blk (nat features)"
proof -
  from ResidualConnection_init_wf [OF assms(3-5)]
  obtain rc where "ResidualConnection_init features dropout = Inr rc"
    "wf_ResidualConnection rc (nat features)"
    by blast
  then show ?thesis
    using assms(1,2) by (simp add: EncoderBlock_init_def wf_EncoderBlock_def)
qed

lemma EncoderBlock_init_params_wf:
  assumes "wf_EncoderBlock blk d" "0 < d"
  shows "\<exists>blk'. EncoderBlock_init_params g blk = Inr blk' \<and> wf_EncoderBlock blk' d"
proof -
  from assms(1) have w: "wf_MultiHeadAttentionBlock (eb_self_attention_block blk) d"
    "wf_FeedForwardBlock (eb_feed_forward_block blk) d"
    "length (eb_residual_connections blk) = 2"
    "list_all (\<lambda>rc. wf_ResidualConnection rc d) (eb_residual_connections blk)"
    by (simp_all add: wf_EncoderBlock_def)
  from MultiHeadAttentionBlock_init_params_wf [OF w(1) assms(2), of "child g 0"]
  obtain att where att: "MultiHeadAttentionBlock_init_params (child g 0) (eb_self_attention_block blk) = Inr att"
    "wf_MultiHeadAttentionBlock att d"
    by blast
  from FeedForwardBlock_init_params_wf [OF w(2) assms(2), of "child g 1"]
  obtain ff where ff: "FeedForwardBlock_init_params (child g 1) (eb_feed_forward_block blk) = Inr ff"
    "wf_FeedForwardBlock ff d"
    by blast
  from ResidualConnections_init_params_wf [OF w(4), of "child g 2"] att ff w(3,4) show ?thesis
    by (simp add: EncoderBlock_init_params_def wf_EncoderBlock_def)
qed

lemma make_encoder_blocks_wf:
  assumes "0 < h" "h dvd d_model" "0 < d_model" "0 \<le> dropout" "dropout \<le> 1" "0 \<le> d_ff"
  shows "\<exists>bs. make_encoder_blocks g n d_model h dropout d_ff = Inr bs \<and> length bs = n
           \<and> list_all (\<lambda>blk. wf_EncoderBlock blk (nat d_model)) bs"
proof (induction n arbitrary: g)
  case 0
  then show ?case by simp
next
  case (Suc n)
  from assms(3) have nonneg: "0 \<le> d_model" by simp
  from MultiHeadAttentionBlock_init_wf [OF assms(1-5), of "child (child g 0) 0"]
  obtain att where att: "MultiHeadAttentionBlock_init (child (child g 0) 0) d_model h dropout = Inr att"
    "wf_MultiHeadAttentionBlock att (nat d_model)"
    by blast
  from FeedForwardBlock_init_wf [OF nonneg assms(6,4,5), of "child (child g 0) 1"]
  obtain ff where ff: "FeedForwardBlock_init (child (child g 0) 1) d_model d_ff dropout = Inr ff"
    "wf_FeedForwardBlock ff (nat d_model)"
    by blast
  from EncoderBlock_init_wf [OF att(2) ff(2) nonneg assms(4,5)]
  obtain blk where blk: "EncoderBlock_init d_model att ff dropout = Inr blk"
    "wf_EncoderBlock blk (nat d_model)"
    by blast
  from Suc.IH [of "child g 1"]
  obtain bs where bs: "make_encoder_blocks (child g 1) n d_model h dropout d_ff = Inr bs"
    "length bs = n" "list_all (\<lambda>blk. wf_EncoderBlock blk (nat d_model)) bs"
    by blast
  from att ff blk bs show ?case by simp
qed

lemma EncoderBlocks_init_params_wf:
  assumes "list_all (\<lambda>blk. wf_EncoderBlock blk d) ls" "0 < d"
  shows "\<exists>ls'. EncoderBlocks_init_params g ls = Inr ls' \<and> length ls' = length ls
           \<and> list_all (\<lambda>blk. wf_EncoderBlock blk d) ls'"
  using assms(1)
proof (induction ls arbitrary: g)
  case Nil
  then show ?case by simp
next
  case (Cons l ls)
  then have "wf_EncoderBlock l d" "list_all (\<lambda>blk. wf_EncoderBlock blk d) ls"
    by simp_all
  from EncoderBlock_init_params_wf [OF this(1) assms(2), of "child g 0"] Cons.IH [OF this(2), of "child g 1"]
  show ?case by auto
qed

lemma Encoder_init_wf:
  assumes "list_all (\<lambda>blk. wf_EncoderBlock blk (nat features)) layers" "0 \<le> features"
  shows "\<exists>enc. Encoder_init features layers = Inr enc \<and> wf_Encoder enc (nat features)
           \<and> enc_layers enc = layers"
proof -
  from LayerNormalization_init_wf [OF assms(2), of default_eps]
  obtain l where "LayerNormalization_init features default_eps = Inr l"
    "wf_LayerNormalization l (nat features)"
    by blast
  then show ?thesis
    using assms(1) by (simp add: Encoder_init_def wf_Encoder_def)
qed

lemma Encoder_init_params_wf:
  assumes "wf_Encoder enc d" "0 < d"
  shows "\<exists>enc'. Encoder_init_params g enc = Inr enc' \<and> wf_Encoder enc' d
           \<and> length (enc_layers enc') = length (enc_layers enc)"
proof -
  from assms(1) have w: "list_all (\<lambda>blk. wf_EncoderBlock blk d) (enc_layers enc)"
    "wf_LayerNormalization (enc_norm enc) d"
    by (simp_all add: wf_Encoder_def)
  from EncoderBlocks_init_params_wf [OF w(1) assms(2), of "child g 0"]
  obtain ls where "EncoderBlocks_init_params (child g 0) (enc_layers enc) = Inr ls"
    "length ls = length (enc_layers enc)" "list_all (\<lambda>blk. wf_EncoderBlock blk d) ls"
    by blast
  with w(2) LayerNormalization_init_params_wf [OF w(2), of "child g 1"] show ?thesis
    by (simp add: Encoder_init_params_def wf_Encoder_def)
qed

lemma InputEmbeddings_init_wf:
  assumes "0 \<le> d_model" "0 \<le> vocab_size"
  shows "\<exists>ie. InputEmbeddings_init g d_model vocab_size = Inr ie
           \<and> wf_InputEmbeddings ie (nat d_model) (nat vocab_size)"
  using assms
  by (simp add: InputEmbeddings_init_def nn_Embedding_def torch_random_def torch_size_def
      wf_InputEmbeddings_def)

lemma InputEmbeddings_init_params_wf:
  assumes "wf_InputEmbeddings ie d v" "0 < d"
  shows "\<exists>ie'. InputEmbeddings_init_params g ie = Inr ie' \<and> wf_InputEmbeddings ie' d v"
  using assms
  by (simp add: InputEmbeddings_init_params_def init_param_def xavier_uniform_def
      wf_InputEmbeddings_def)

lemma ProjectionLayer_init_wf:
  assumes "0 \<le> n" "0 \<le> class_size"
  shows "\<exists>pl. ProjectionLayer_init g n class_size = Inr pl \<and> wf_Linear (proj pl) (nat n) (nat class_size)"
  using assms by (simp add: ProjectionLayer_init_def nn_Linear_nonneg wf_Linear_def)

lemma ProjectionLayer_init_params_wf:
  assumes "wf_Linear (proj pl) n m" "0 < n"
  shows "\<exists>pl'. ProjectionLayer_init_params g pl = Inr pl' \<and> wf_Linear (proj pl') n m"
proof -
  from Linear_init_params_wf [OF assms(1), of g] assms(2)
  obtain l where "Linear_init_params g (proj pl) = Inr l" "wf_Linear l n m"
    by auto
  then show ?thesis by (simp add: ProjectionLayer_init_params_def)
qed


lemma Transformer_init_params_keeps:
  assumes "Transformer_init_params g t = Inr t'"
  shows "tr_seq_pos t' = tr_seq_pos t
         \<and> (tr_seq_embed t = None \<longrightarrow> tr_seq_embed t' = None)
         \<and> (tr_projection_layer t = None \<longrightarrow> tr_projection_layer t' = None)"
  using assms
  by (auto simp: Transformer_init_params_def and_then_eq_Inr split: option.splits)

lemma build_transformer_structure:
  assumes "build_transformer g v s p c d_model N h dropout d_ff header = Inr (t, pt)"
  shows "tr_seq_embed pt = None \<and> tr_projection_layer pt = None
         \<and> (header \<longrightarrow> tr_projection_layer t = None)"
proof -
  from assms obtain t0 pt0 where
    t: "Transformer_init_params (child g 4) t0 = Inr t"
      "header \<longrightarrow> tr_projection_layer t0 = None"
    and pt: "Transformer_init_params (child g 5) pt0 = Inr pt"
      "tr_seq_embed pt0 = None" "tr_projection_layer pt0 = None"
    by (auto simp: build_transformer_def and_then_eq_Inr Let_def Transformer_init_def
        split: if_splits)
  from Transformer_init_params_keeps [OF t(1)] Transformer_init_params_keeps [OF pt(1)] t(2) pt(2,3)
  show ?thesis by simp
qed

lemma Transformer_init_params_wf:
  assumes "wf_Encoder (tr_encoder t) d" "0 < d"
    and "case tr_seq_embed t of None \<Rightarrow> True | Some ie \<Rightarrow> wf_InputEmbeddings ie d v"
    and "case tr_projection_layer t of None \<Rightarrow> True | Some pl \<Rightarrow> wf_Linear (proj pl) n m \<and> 0 < n"
  shows "\<exists>t'. Transformer_init_params g t = Inr t'
           \<and> wf_Encoder (tr_encoder t') d
           \<and> length (enc_layers (tr_encoder t')) = length (enc_layers (tr_encoder t))
           \<and> tr_seq_pos t' = tr_seq_pos t
           \<and> (case tr_seq_embed t of None \<Rightarrow> tr_seq_embed t' = None
               | Some ie \<Rightarrow> \<exists>ie'. tr_seq_embed t' = Some ie' \<and> wf_InputEmbeddings ie' d v)
           \<and> (case tr_projection_layer t of None \<Rightarrow> tr_projection_layer t' = None
               | Some pl \<Rightarrow> \<exists>pl'. tr_projection_layer t' = Some pl' \<and> wf_Linear (proj pl') n m)"
proof -
  from Encoder_init_params_wf [OF assms(1,2), of "child g 0"]
  obtain enc where enc: "Encoder_init_params (child g 0) (tr_encoder t) = Inr enc"
    "wf_Encoder enc d" "length (enc_layers enc) = length (enc_layers (tr_encoder t))"
    by blast
  have se: "\<exists>se. (case tr_seq_embed t of None \<Rightarrow> Inr None
               | Some e \<Rightarrow> and_then (InputEmbeddings_init_params (child g 1) e) (\<lambda>e'. Inr (Some e'))) = Inr se
             \<and> (case tr_seq_embed t of None \<Rightarrow> se = None
                 | Some ie \<Rightarrow> \<exists>ie'. se = Some ie' \<and> wf_InputEmbeddings ie' d v)"
  proof (cases "tr_seq_embed t")
    case None
    then show ?thesis by simp
  next
    case (Some ie)
    with assms(3) have "wf_InputEmbeddings ie d v" by simp
    from InputEmbeddings_init_params_wf [OF this assms(2), of "child g 1"] Some
    show ?thesis by auto
  qed
  have po: "\<exists>po. (case tr_projection_layer t of None \<Rightarrow> Inr None
               | Some pl \<Rightarrow> and_then (ProjectionLayer_init_params (child g 2) pl) (\<lambda>pl'. Inr (Some pl'))) = Inr po
             \<and> (case tr_projection_layer t of None \<Rightarrow> po = None
                 | Some pl \<Rightarrow> \<exists>pl'. po = Some pl' \<and> wf_Linear (proj pl') n m)"
  proof (cases "tr_projection_layer t")
    case None
    then show ?thesis by simp
  next
    case (Some pl)
    with assms(4) have "wf_Linear (proj pl) n m" "0 < n" by simp_all
    from ProjectionLayer_init_params_wf [OF this, of "child g 2"] Some
    show ?thesis by auto
  qed
  from se obtain se' where se': "(case tr_seq_embed t of None \<Rightarrow> Inr None
               | Some e \<Rightarrow> and_then (InputEmbeddings_init_params (child g 1) e) (\<lambda>e'. Inr (Some e'))) = Inr se'"
    "case tr_seq_embed t of None \<Rightarrow> se' = None
                 | Some ie \<Rightarrow> \<exists>ie'. se' = Some ie' \<and> wf_InputEmbeddings ie' d v"
    by blast
  from po obtain po' where po': "(case tr_projection_layer t of None \<Rightarrow> Inr None
               | Some pl \<Rightarrow> and_then (ProjectionLayer_init_params (child g 2) pl) (\<lambda>pl'. Inr (Some pl'))) = Inr po'"
    "case tr_projection_layer t of None \<Rightarrow> po' = None
                 | Some pl \<Rightarrow> \<exists>pl'. po' = Some pl' \<and> wf_Linear (proj pl') n m"
    by blast
  show ?thesis
    unfolding Transformer_init_params_def
    using enc se'(2) po'(2) by (auto simp: enc(1) se'(1) po'(1) split: option.splits)
qed

lemma build_transformer_ok:
  assumes "0 \<le> v" "0 \<le> s" "0 \<le> p" "0 \<le> c" "0 < d_model" "even d_model \<or> d_model = 1"
    "0 < h" "h dvd d_model" "0 \<le> dropout" "dropout \<le> 1" "0 \<le> d_ff"
  shows "\<exists>t pt. build_transformer g v s p c d_model N h dropout d_ff header = Inr (t, pt)
     \<and> wf_Encoder (tr_encoder t) (nat d_model)
     \<and> length (enc_layers (tr_encoder t)) = nat N
     \<and> (\<exists>ie. tr_seq_embed t = Some ie \<and> wf_InputEmbeddings ie (nat d_model) (nat v))
     \<and> shape (pe (tr_seq_pos t)) = [1, nat s, nat d_model]
     \<and> (if header then tr_projection_layer t = None
         else \<exists>pl. tr_projection_layer t = Some pl \<and> wf_Linear (proj pl) (2 * nat d_model) (nat c))
     \<and> wf_Encoder (tr_encoder pt) (nat d_model)
     \<and> tr_seq_embed pt = None \<and> tr_projection_layer pt = None
     \<and> shape (pe (tr_seq_pos pt)) = [1, nat p, nat d_model]"
proof -
  define d where "d = nat d_model"
  from assms(5) have nonneg: "0 \<le> d_model" and dpos: "0 < d"
    by (simp_all add: d_def)
  from InputEmbeddings_init_wf [OF nonneg assms(1), of "child g 0"]
  obtain ie where ie: "InputEmbeddings_init (child g 0) d_model v = Inr ie"
    "wf_InputEmbeddings ie d (nat v)"
    unfolding d_def by blast
  from PositionalEncoding_init_ok [OF assms(9,10,2,5,6)]
  obtain sp where sp: "PositionalEncoding_init d_model s dropout = Inr sp"
    "shape (pe sp) = [1, nat s, d]"
    unfolding d_def by blast
  from make_encoder_blocks_wf [OF assms(7,8,5,9,10,11), of "child g 1" "nat N"]
  obtain bs where bs: "make_encoder_blocks (child g 1) (nat N) d_model h dropout d_ff = Inr bs"
    "length bs = nat N" "list_all (\<lambda>blk. wf_EncoderBlock blk d) bs"
    unfolding d_def by blast
  from Encoder_init_wf [OF bs(3) [unfolded d_def] nonneg]
  obtain enc where enc: "Encoder_init d_model bs = Inr enc" "wf_Encoder enc d" "enc_layers enc = bs"
    unfolding d_def by blast
  have "0 \<le> d_model * 2" using nonneg by simp
  from ProjectionLayer_init_wf [OF this assms(4), of "child g 2"]
  obtain pl where pl: "ProjectionLayer_init (child g 2) (d_model * 2) c = Inr pl"
    "wf_Linear (proj pl) (2 * d) (nat c)"
    using nonneg by (auto simp: d_def nat_mult_distrib mult.commute)
  from PositionalEncoding_init_ok [OF assms(9,10,3,5,6)]
  obtain pp where pp: "PositionalEncoding_init d_model p dropout = Inr pp"
    "shape (pe pp) = [1, nat p, d]"
    unfolding d_def by blast
  from make_encoder_blocks_wf [OF assms(7,8,5,9,10,11), of "child g 3" 1]
  obtain pbs where pbs: "make_encoder_blocks (child g 3) 1 d_model h dropout d_ff = Inr pbs"
    "list_all (\<lambda>blk. wf_EncoderBlock blk d) pbs"
    unfolding d_def by blast
  from Encoder_init_wf [OF pbs(2) [unfolded d_def] nonneg]
  obtain penc where penc: "Encoder_init d_model pbs = Inr penc" "wf_Encoder penc d"
    unfolding d_def by blast
  define t0 where "t0 = Transformer_init enc (Some ie) sp (if header then None else Some pl)"
  define pt0 where "pt0 = Transformer_init penc None pp None"
  have "\<exists>t'. Transformer_init_params (child g 4) t0 = Inr t'
           \<and> wf_Encoder (tr_encoder t') d
           \<and> length (enc_layers (tr_encoder t')) = length (enc_layers (tr_encoder t0))
           \<and> tr_seq_pos t' = tr_seq_pos t0
           \<and> (case tr_seq_embed t0 of None \<Rightarrow> tr_seq_embed t' = None
               | Some ie \<Rightarrow> \<exists>ie'. tr_seq_embed t' = Some ie' \<and> wf_InputEmbeddings ie' d (nat v))
           \<and> (case tr_projection_layer t0 of None \<Rightarrow> tr_projection_layer t' = None
               | Some pl \<Rightarrow> \<exists>pl'. tr_projection_layer t' = Some pl' \<and> wf_Linear (proj pl') (2 * d) (nat c))"
    using enc(2) ie(2) pl(2) dpos
    by (intro Transformer_init_params_wf) (simp_all add: t0_def Transformer_init_def)
  then obtain t where t: "Transformer_init_params (child g 4) t0 = Inr t"
    "wf_Encoder (tr_encoder t) d" "length (enc_layers (tr_encoder t)) = nat N"
    "tr_seq_pos t = sp" "\<exists>ie'. tr_seq_embed t = Some ie' \<and> wf_InputEmbeddings ie' d (nat v)"
    "if header then tr_projection_layer t = None
     else \<exists>pl'. tr_projection_layer t = Some pl' \<and> wf_Linear (proj pl') (2 * d) (nat c)"
    using enc(3) bs(2) by (cases header) (auto simp: t0_def Transformer_init_def)
  have "\<exists>t'. Transformer_init_params (child g 5) pt0 = Inr t'
           \<and> wf_Encoder (tr_encoder t') d
           \<and> length (enc_layers (tr_encoder t')) = length (enc_layers (tr_encoder pt0))
           \<and> tr_seq_pos t' = tr_seq_pos pt0
           \<and> (case tr_seq_embed pt0 of None \<Rightarrow> tr_seq_embed t' = None
               | Some ie \<Rightarrow> \<exists>ie'. tr_seq_embed t' = Some ie' \<and> wf_InputEmbeddings ie' d 0)
           \<and> (case tr_projection_layer pt0 of None \<Rightarrow> tr_projection_layer t' = None
               | Some pl \<Rightarrow> \<exists>pl'. tr_projection_layer t' = Some pl' \<and> wf_Linear (proj pl') 0 0)"
    using penc(2) dpos
    by (intro Transformer_init_params_wf) (simp_all add: pt0_def Transformer_init_def)
  then obtain pt where pt: "Transformer_init_params (child g 5) pt0 = Inr pt"
    "wf_Encoder (tr_encoder pt) d" "tr_seq_pos pt = pp"
    "tr_seq_embed pt = None" "tr_projection_layer pt = None"
    by (auto simp: pt0_def Transformer_init_def)
  have proj_if: "(if \<not> header then Inr (Some pl) else Inr None)
      = (Inr (if header then None else Some pl) :: error + ProjectionLayer option)"
    by simp
  have "build_transformer g v s p c d_model N h dropout d_ff header = Inr (t, pt)"
    unfolding build_transformer_def Let_def
    by (simp only: ie(1) sp(1) bs(1) enc(1) pl(1) pp(1) pbs(1) penc(1) and_then_Inr proj_if
        t0_def [symmetric] pt0_def [symmetric] t(1) pt(1))
  with t pt sp(2) pp(2) show ?thesis
    unfolding d_def by (intro exI [of _ t] exI [of _ pt]) simp
qed

section \<open>Odd model widths\<close>

lemma PositionalEncoding_init_odd_fails:
  assumes "odd d_model" "d_model \<noteq> 1"
  shows "isl (PositionalEncoding_init d_model seq_len dropout)"
proof (cases "dropout < 0 \<or> 1 < dropout \<or> seq_len < 0 \<or> d_model \<le> 0")
  case True
  then show ?thesis by (rule PositionalEncoding_init_invalid)
next
  case False
  then have valid: "0 \<le> dropout" "dropout \<le> 1" "0 \<le> seq_len" "0 < d_model"
    by simp_all
  from assms valid(4) have "3 \<le> d_model"
    by presburger
  with valid assms(1) show ?thesis by (simp add: PositionalEncoding_init_odd)
qed

lemma build_transformer_odd_fails:
  assumes "odd d_model" "d_model \<noteq> 1"
  shows "isl (build_transformer g v s p c d_model N h dropout d_ff header)"
  unfolding build_transformer_def
  apply (rule isl_and_then_right)
  apply (rule isl_and_then_left)
  using assms by (rule PositionalEncoding_init_odd_fails)

text \<open>
  C9 (as amended).  Constructing a PositionalEncoding, and hence calling
  \<open>build_transformer\<close>, with an odd \<open>d_model\<close> other than 1 fails: for an odd
  \<open>d_model\<close> of at least 3 (a valid length and dropout rate) the cosine assignment
  raises the RuntimeError of a shape mismatch, so \<open>d_model = 63\<close> with \<open>h = 1\<close> cannot
  be built.
\<close>

theorem PositionalEncoding_init_odd_d_model:
  "(odd d_model \<and> d_model \<noteq> 1 \<longrightarrow>
      isl (PositionalEncoding_init d_model seq_len dropout)
      \<and> isl (build_transformer g v s p c d_model N h dropout d_ff header))
   \<and> (odd d_model \<and> 3 \<le> d_model \<and> 0 \<le> seq_len \<and> 0 \<le> dropout \<and> dropout \<le> 1 \<longrightarrow>
        PositionalEncoding_init d_model seq_len dropout = Inl RuntimeError)
   \<and> isl (build_transformer g v s p c 63 N 1 dropout d_ff header)"
  by (simp add: PositionalEncoding_init_odd_fails build_transformer_odd_fails
      PositionalEncoding_init_odd)

theorem PositionalEncoding_init_odd_d_model_witness:
  "odd (63::int) \<and> (63::int) \<noteq> 1 \<and> (3::int) \<le> 63 \<and> (0::int) \<le> 150
   \<and> (0::real) \<le> 1 / 10 \<and> (1::real) / 10 \<le> 1
   \<and> isl (PositionalEncoding_init 63 150 (1 / 10))
   \<and> isl (build_transformer (\<lambda>path idx. 0) 256 150 10 2 63 3 1 (1 / 10) 128 False)
   \<and> PositionalEncoding_init 63 150 (1 / 10) = Inl RuntimeError"
  using PositionalEncoding_init_odd_d_model
          [of 63 150 "1 / 10" "\<lambda>path idx. 0" 256 150 10 2 3 1 128 False]
  by simp

text \<open>
  The claim as stated fails at \<open>d_model = 1\<close>, which is odd: the one cosine column is
  broadcast into the empty slice of odd columns, and the models are built.
\<close>

theorem PositionalEncoding_init_odd_d_model_counterexample:
  "odd (1::int)
   \<and> \<not> isl (PositionalEncoding_init 1 150 (1 / 10))
   \<and> \<not> isl (build_transformer (\<lambda>path idx. 0) 256 150 10 2 1 3 1 (1 / 10) 128 False)"
proof -
  from PositionalEncoding_init_ok [of "1 / 10" 150 1]
  have "\<not> isl (PositionalEncoding_init 1 150 (1 / 10))"
    by auto
  moreover from build_transformer_ok [of 256 150 10 2 1 1 "1 / 10" 128 "\<lambda>path idx. 0" 3 False]
  have "\<not> isl (build_transformer (\<lambda>path idx. 0) 256 150 10 2 1 3 1 (1 / 10) 128 False)"
    by auto
  ultimately show ?thesis by simp
qed

section \<open>Calling an absent submodule\<close>

text \<open>
  C7.  On a Transformer without an embedding submodule, \<open>embed\<close> fails with Python's
  TypeError for calling \<open>None\<close>, and so does \<open>project\<close> on one without a projection
  submodule.  The packet-level transformer of \<open>build_transformer\<close> has neither, and with
  \<open>header = True\<close> the first transformer has no projection.
\<close>

theorem embed_project_without_submodule:
  "(tr_seq_embed t = None \<longrightarrow> embed t seq = Inl TypeError)
   \<and> (tr_projection_layer t = None \<longrightarrow> project t x = Inl TypeError)
   \<and> (build_transformer g v s p c d_model N h dropout d_ff header = Inr (t1, pt) \<longrightarrow>
        embed pt seq = Inl TypeError \<and> project pt x = Inl TypeError
        \<and> (header \<longrightarrow> project t1 x = Inl TypeError))"
proof (intro conjI impI)
  assume "build_transformer g v s p c d_model N h dropout d_ff header = Inr (t1, pt)"
  from build_transformer_structure [OF this]
  show "embed pt seq = Inl TypeError" "project pt x = Inl TypeError"
    by (simp_all add: embed_def project_def)
next
  assume "build_transformer g v s p c d_model N h dropout d_ff header = Inr (t1, pt)" header
  with build_transformer_structure [of g v s p c d_model N h dropout d_ff header t1 pt]
  show "project t1 x = Inl TypeError"
    by (simp add: project_def)
qed (simp_all add: embed_def project_def)

theorem embed_project_without_submodule_witness:
  "\<exists>t1 pt. build_transformer (\<lambda>path idx. 0) 256 150 10 2 64 3 4 (1 / 10) 128 True = Inr (t1, pt)
     \<and> tr_seq_embed pt = None \<and> tr_projection_layer pt = None
     \<and> embed pt (Tensor [1, 1] (\<lambda>idx. 0)) = Inl TypeError
     \<and> project pt (Tensor [1, 1, 64] (\<lambda>idx. 0)) = Inl TypeError
     \<and> project t1 (Tensor [1, 1, 64] (\<lambda>idx. 0)) = Inl TypeError"
proof -
  from build_transformer_ok [of 256 150 10 2 64 4 "1 / 10" 128 "\<lambda>path idx. 0" 3 True]
  obtain t1 pt where b: "build_transformer (\<lambda>path idx. 0) 256 150 10 2 64 3 4 (1 / 10) 128 True = Inr (t1, pt)"
    and n: "tr_seq_embed pt = None" "tr_projection_layer pt = None"
    by auto
  from embed_project_without_submodule
         [of pt "Tensor [1, 1] (\<lambda>idx. 0)" "Tensor [1, 1, 64] (\<lambda>idx. 0)"
             "\<lambda>path idx. 0" 256 150 10 2 64 3 4 "1 / 10" 128 True t1 pt] b n
  show ?thesis by auto
qed

section \<open>The importance masks of the explainer\<close>

lemma exp_one_lower: "(271 / 100 :: real) < exp 1"
proof -
  have "(1 + 1 / 8 + (1 / 8)\<^sup>2 / 2 :: real) \<le> exp (1 / 8)"
    by (rule exp_lower_Taylor_quadratic) simp
  then have "(145 / 128 :: real) ^ 8 \<le> exp (1 / 8) ^ 8"
    by (intro power_mono) (simp_all add: power2_eq_square)
  also have "exp (1 / 8 :: real) ^ 8 = exp 1"
    by (simp flip: exp_of_nat_mult)
  finally show ?thesis
    by (simp add: power_numeral_even power_numeral_odd)
qed

lemma exp_double_le:
  fixes x c c' :: real
  assumes "exp x \<le> c" "c\<^sup>2 \<le> c'"
  shows "exp (2 * x) \<le> c'"
proof -
  have "exp (2 * x) = (exp x)\<^sup>2"
    by (simp add: exp_double)
  also have "\<dots> \<le> c\<^sup>2"
    using assms(1) by (intro power_mono) simp_all
  finally show ?thesis using assms(2) by simp
qed

lemma exp_one_upper: "exp 1 < (273 / 100 :: real)"
proof -
  have "exp (1 / 128 :: real) \<le> 1 + 1 / 128 + (1 / 128)\<^sup>2"
    by (rule exp_bound) simp_all
  then have s0: "exp (1 / 128 :: real) \<le> 10078736 / 10000000"
    by (simp add: power2_eq_square)
  have s1: "exp (1 / 64 :: real) \<le> 10158092 / 10000000"
    using exp_double_le [OF s0, of "10158092 / 10000000"] by (simp add: power2_eq_square)
  have s2: "exp (1 / 32 :: real) \<le> 10318684 / 10000000"
    using exp_double_le [OF s1, of "10318684 / 10000000"] by (simp add: power2_eq_square)
  have s3: "exp (1 / 16 :: real) \<le> 10647524 / 10000000"
    using exp_double_le [OF s2, of "10647524 / 10000000"] by (simp add: power2_eq_square)
  have s4: "exp (1 / 8 :: real) \<le> 11336977 / 10000000"
    using exp_double_le [OF s3, of "11336977 / 10000000"] by (simp add: power2_eq_square)
  have s5: "exp (1 / 4 :: real) \<le> 12852705 / 10000000"
    using exp_double_le [OF s4, of "12852705 / 10000000"] by (simp add: power2_eq_square)
  have s6: "exp (1 / 2 :: real) \<le> 16519203 / 10000000"
    using exp_double_le [OF s5, of "16519203 / 10000000"] by (simp add: power2_eq_square)
  have s7: "exp (1 :: real) \<le> 27288407 / 10000000"
    using exp_double_le [OF s6, of "27288407 / 10000000"] by (simp add: power2_eq_square)
  then show ?thesis by simp
qed

lemma sigmoid_one_approx: "\<bar>1 / (1 + exp (- 1)) - 731 / 1000\<bar> < (1 / 1000 :: real)"
proof -
  note lo = exp_one_lower and hi = exp_one_upper
  have eq: "1 / (1 + exp (- 1)) = exp 1 / (exp 1 + 1 :: real)"
    by (simp add: exp_minus field_simps)
  have pos: "0 < exp 1 + (1 :: real)"
    by (simp add: add_pos_pos)
  have "730 / 1000 * (exp 1 + 1) < (exp 1 :: real)"
    using lo by (simp add: algebra_simps)
  then have a: "730 / 1000 < exp 1 / (exp 1 + 1 :: real)"
    unfolding pos_less_divide_eq [OF pos] .
  have "(exp 1 :: real) < 732 / 1000 * (exp 1 + 1)"
    using hi by (simp add: algebra_simps)
  then have b: "exp 1 / (exp 1 + 1 :: real) < 732 / 1000"
    unfolding pos_divide_less_eq [OF pos] .
  from a b show ?thesis
    unfolding eq by linarith
qed

lemma explainer_model_init_eq:
  "explainer_model_init cfg =
     Inr \<lparr>mask_header = Tensor [257] (\<lambda>idx. 1), mask_payload = Tensor [257] (\<lambda>idx. 1),
          em_config = cfg\<rparr>"
  by (simp add: explainer_model_init_def torch_ones_def torch_full_def torch_size_def)

text \<open>
  C8.  A new explainer_model holds the two mask vectors \<open>mask_payload\<close> and
  \<open>mask_header\<close>, each of length 257 and all ones.  Every forward call passes
  \<open>sigmoid(mask_payload)\<close> and \<open>sigmoid(mask_header)\<close> as the value weights to
  \<open>compute_emb\<close>; with the initial masks these are the constant weight
  \<open>sigma(1)\<close> for every byte value, which is 0.731 up to 0.001, so that the forward
  pass equals the one in which \<open>compute_emb\<close> is given that constant weighting.
\<close>

theorem explainer_model_mask_weights:
  "explainer_model_forward compute_emb self model header_model model_pack header_model_pack
       seq m seq_header seq_header_mask =
     and_then (compute_emb model model_pack seq m (BYTE_PAD_TRUNC_LENGTH (em_config self))
                 (torch_sigmoid (mask_payload self)) (baseline (em_config self))) (\<lambda>seq_emb.
     and_then (compute_emb header_model header_model_pack seq_header seq_header_mask
                 (HEADER_BYTE_PAD_TRUNC_LENGTH (em_config self))
                 (torch_sigmoid (mask_header self)) (baseline (em_config self))) (\<lambda>header_emb.
     and_then (torch_cat1 seq_emb header_emb) (project model)))
   \<and> (explainer_model_init cfg = Inr em \<longrightarrow>
        mask_payload em = Tensor [257] (\<lambda>idx. 1)
        \<and> mask_header em = Tensor [257] (\<lambda>idx. 1)
        \<and> torch_sigmoid (mask_payload em) = Tensor [257] (\<lambda>idx. 1 / (1 + exp (- 1)))
        \<and> torch_sigmoid (mask_header em) = Tensor [257] (\<lambda>idx. 1 / (1 + exp (- 1)))
        \<and> explainer_model_forward compute_emb em model header_model model_pack header_model_pack
              seq m seq_header seq_header_mask
            = explainer_model_forward
                (\<lambda>a b c d e w. compute_emb a b c d e (Tensor [257] (\<lambda>idx. 1 / (1 + exp (- 1)))))
                em model header_model model_pack header_model_pack seq m seq_header seq_header_mask)
   \<and> \<bar>1 / (1 + exp (- 1)) - 731 / 1000\<bar> < (1 / 1000 :: real)"
proof (intro conjI impI)
  show "\<bar>1 / (1 + exp (- 1)) - 731 / 1000\<bar> < (1 / 1000 :: real)"
    by (rule sigmoid_one_approx)
qed (auto simp: explainer_model_forward_def explainer_model_init_eq torch_sigmoid_def map_tensor_def)

theorem explainer_model_mask_weights_witness:
  "\<exists>em. explainer_model_init \<lparr>BYTE_PAD_TRUNC_LENGTH = 150, HEADER_BYTE_PAD_TRUNC_LENGTH = 40,
                                baseline = ()\<rparr> = Inr em
     \<and> shape (mask_payload em) = [257] \<and> shape (mask_header em) = [257]
     \<and> elem (mask_payload em) [0] = 1 \<and> elem (mask_header em) [256] = 1
     \<and> elem (torch_sigmoid (mask_payload em)) [255] = 1 / (1 + exp (- 1))"
proof -
  define cfg where "cfg = \<lparr>BYTE_PAD_TRUNC_LENGTH = 150, HEADER_BYTE_PAD_TRUNC_LENGTH = 40,
    baseline = ()\<rparr>"
  obtain em where em: "explainer_model_init cfg = Inr em"
    by (simp add: explainer_model_init_eq)
  from explainer_model_mask_weights
         [of "\<lambda>a b c d e w f. Inl RuntimeError" em undefined undefined undefined undefined
             "()" "()" "()" "()" cfg em] em
  show ?thesis
    unfolding cfg_def by (intro exI [of _ em]) (simp add: torch_sigmoid_def)
qed

section \<open>The forward pass of the positional encoding\<close>

lemma bidx_3_3 [simp]:
  "bidx [a, b, c] [i, j, k] = [if a = 1 then 0 else i, if b = 1 then 0 else j, if c = 1 then 0 else k]"
  by (simp add: bidx_def)

lemma shape_at_3:
  "shape x = [b, L, D] \<Longrightarrow> shape_at x 0 = Inr (int b)"
  "shape x = [b, L, D] \<Longrightarrow> shape_at x 1 = Inr (int L)"
  by (simp_all add: shape_at_def py_getitem_def)

lemma PositionalEncoding_forward_eq:
  assumes "shape (pe P) = [1, S, D]" "shape x = [b, L, D]" "L \<le> S \<or> S = 1"
  shows "PositionalEncoding_forward P g x =
           Inr (Dropout_forward (pe_dropout P) g
                 (Tensor [b, L, D]
                    (\<lambda>idx. elem x (bidx [b, L, D] idx) + elem (pe P) (bidx [1, min L S, D] idx))))"
  using assms
  by (auto simp: PositionalEncoding_forward_def shape_at_3 slice_rows_def t_add_def
      broadcast_op_def broadcast_shapes_def min_def)

lemma PositionalEncoding_forward_short:
  assumes "shape (pe P) = [1, S, D]" "shape x = [b, L, D]" "L \<le> S"
  shows "\<exists>y. PositionalEncoding_forward P g x = Inr (Dropout_forward (pe_dropout P) g y)
           \<and> shape y = [b, L, D]
           \<and> (\<forall>i j k. i < b \<longrightarrow> j < L \<longrightarrow> k < D \<longrightarrow>
                 elem y [i, j, k] = elem x [i, j, k] + elem (pe P) [0, j, k])"
  using assms by (auto simp: PositionalEncoding_forward_eq min_def)

lemma PositionalEncoding_forward_long:
  assumes "shape (pe P) = [1, S, D]" "shape x = [b, L, D]" "S < L" "2 \<le> S"
  shows "PositionalEncoding_forward P g x = Inl RuntimeError"
  using assms
  by (auto simp: PositionalEncoding_forward_def shape_at_3 slice_rows_def t_add_def
      broadcast_op_def broadcast_shapes_def min_def)

lemma PositionalEncoding_forward_single_row:
  assumes "shape (pe P) = [1, 1, D]" "shape x = [b, L, D]"
  shows "\<exists>y. PositionalEncoding_forward P g x = Inr (Dropout_forward (pe_dropout P) g y)
           \<and> shape y = [b, L, D]
           \<and> (\<forall>i j k. i < b \<longrightarrow> j < L \<longrightarrow> k < D \<longrightarrow>
                 elem y [i, j, k] = elem x [i, j, k] + elem (pe P) [0, 0, k])"
proof -
  let ?y = "Tensor [b, L, D]
     (\<lambda>idx. elem x (bidx [b, L, D] idx) + elem (pe P) (bidx [1, min L 1, D] idx))"
  have "PositionalEncoding_forward P g x = Inr (Dropout_forward (pe_dropout P) g ?y)"
    using assms by (intro PositionalEncoding_forward_eq) simp_all
  moreover have "elem ?y [i, j, k] = elem x [i, j, k] + elem (pe P) [0, 0, k]"
    if "i < b" "j < L" "k < D" for i j k
  proof (cases "L = 1")
    case True
    with that(2) have "j = 0" by simp
    with that True show ?thesis by auto
  next
    case False
    with that show ?thesis by (auto simp: min_def)
  qed
  ultimately show ?thesis
    by (intro exI [of _ ?y]) simp
qed

lemma PositionalEncoding_init_shape:
  assumes "PositionalEncoding_init d_model seq_len dropout = Inr P"
  shows "shape (pe P) = [1, nat seq_len, nat d_model] \<and> 0 \<le> seq_len \<and> 0 < d_model"
proof -
  from assms have ok: "0 \<le> dropout" "dropout \<le> 1" "0 \<le> seq_len" "0 < d_model"
    "even d_model \<or> d_model = 1"
    using PositionalEncoding_init_Inr_iff [of d_model seq_len dropout] by blast+
  from PositionalEncoding_init_ok [OF this] assms ok(3,4) show ?thesis by auto
qed


text \<open>
  C5 (as amended).  For an input of at most \<open>seq_len\<close> positions, the first rows of the
  table, as many as the input has positions, are added to the input before dropout.  For
  a longer input the slice silently stops at the end of the table, but the addition
  then raises the RuntimeError of a shape mismatch when the table has at least two
  rows; the one row of a table of length 1 is added to every position.
\<close>

theorem PositionalEncoding_forward_adds_rows:
  "(PositionalEncoding_init d_model seq_len dropout = Inr P \<and> shape x = [b, L, nat d_model]
      \<and> int L \<le> seq_len \<longrightarrow>
      (\<exists>y. PositionalEncoding_forward P g x = Inr (Dropout_forward (pe_dropout P) g y)
         \<and> shape y = [b, L, nat d_model]
         \<and> (\<forall>i j k. i < b \<longrightarrow> j < L \<longrightarrow> k < nat d_model \<longrightarrow>
               elem y [i, j, k] = elem x [i, j, k] + elem (pe P) [0, j, k])))
   \<and> (PositionalEncoding_init d_model seq_len dropout = Inr P \<and> shape x = [b, L, nat d_model]
      \<and> seq_len < int L \<and> 2 \<le> seq_len \<longrightarrow>
      PositionalEncoding_forward P g x = Inl RuntimeError)
   \<and> (PositionalEncoding_init d_model 1 dropout = Inr P1 \<and> shape x = [b, L, nat d_model] \<longrightarrow>
      (\<exists>y. PositionalEncoding_forward P1 g x = Inr (Dropout_forward (pe_dropout P1) g y)
         \<and> shape y = [b, L, nat d_model]
         \<and> (\<forall>i j k. i < b \<longrightarrow> j < L \<longrightarrow> k < nat d_model \<longrightarrow>
               elem y [i, j, k] = elem x [i, j, k] + elem (pe P1) [0, 0, k])))"
proof (intro conjI impI)
  assume a: "PositionalEncoding_init d_model seq_len dropout = Inr P \<and> shape x = [b, L, nat d_model]
      \<and> int L \<le> seq_len"
  then have "shape (pe P) = [1, nat seq_len, nat d_model]" "L \<le> nat seq_len"
    using PositionalEncoding_init_shape [of d_model seq_len dropout P] by (simp_all add: le_nat_iff)
  with a show "\<exists>y. PositionalEncoding_forward P g x = Inr (Dropout_forward (pe_dropout P) g y)
         \<and> shape y = [b, L, nat d_model]
         \<and> (\<forall>i j k. i < b \<longrightarrow> j < L \<longrightarrow> k < nat d_model \<longrightarrow>
               elem y [i, j, k] = elem x [i, j, k] + elem (pe P) [0, j, k])"
    by (intro PositionalEncoding_forward_short) simp_all
next
  assume a: "PositionalEncoding_init d_model seq_len dropout = Inr P \<and> shape x = [b, L, nat d_model]
      \<and> seq_len < int L \<and> 2 \<le> seq_len"
  then have "shape (pe P) = [1, nat seq_len, nat d_model]" "nat seq_len < L" "2 \<le> nat seq_len"
    using PositionalEncoding_init_shape [of d_model seq_len dropout P] by auto
  with a show "PositionalEncoding_forward P g x = Inl RuntimeError"
    by (intro PositionalEncoding_forward_long) simp_all
next
  assume a: "PositionalEncoding_init d_model 1 dropout = Inr P1 \<and> shape x = [b, L, nat d_model]"
  then have "shape (pe P1) = [1, 1, nat d_model]"
    using PositionalEncoding_init_shape [of d_model 1 dropout P1] by simp
  with a show "\<exists>y. PositionalEncoding_forward P1 g x = Inr (Dropout_forward (pe_dropout P1) g y)
         \<and> shape y = [b, L, nat d_model]
         \<and> (\<forall>i j k. i < b \<longrightarrow> j < L \<longrightarrow> k < nat d_model \<longrightarrow>
               elem y [i, j, k] = elem x [i, j, k] + elem (pe P1) [0, 0, k])"
    by (intro PositionalEncoding_forward_single_row) simp_all
qed

theorem PositionalEncoding_forward_adds_rows_witness:
  "\<exists>P P1. PositionalEncoding_init 2 2 0 = Inr P \<and> PositionalEncoding_init 2 1 0 = Inr P1
     \<and> (\<exists>y. PositionalEncoding_forward P (\<lambda>path idx. 0) (Tensor [1, 2, 2] (\<lambda>idx. 5))
               = Inr (Dropout_forward (pe_dropout P) (\<lambda>path idx. 0) y)
            \<and> shape y = [1, 2, 2] \<and> elem y [0, 1, 1] = 5 + elem (pe P) [0, 1, 1])
     \<and> PositionalEncoding_forward P (\<lambda>path idx. 0) (Tensor [1, 3, 2] (\<lambda>idx. 5)) = Inl RuntimeError
     \<and> (\<exists>y. PositionalEncoding_forward P1 (\<lambda>path idx. 0) (Tensor [1, 3, 2] (\<lambda>idx. 5))
               = Inr (Dropout_forward (pe_dropout P1) (\<lambda>path idx. 0) y)
            \<and> shape y = [1, 3, 2] \<and> elem y [0, 2, 1] = 5 + elem (pe P1) [0, 0, 1])"
proof -
  obtain P where P: "PositionalEncoding_init 2 2 0 = Inr P"
    using PositionalEncoding_init_ok [of 0 2 2] by auto
  obtain P1 where P1: "PositionalEncoding_init 2 1 0 = Inr P1"
    using PositionalEncoding_init_ok [of 0 1 2] by auto
  from PositionalEncoding_forward_adds_rows
         [of 2 2 0 P "Tensor [1, 2, 2] (\<lambda>idx. 5)" 1 2 "\<lambda>path idx. 0" P1] P P1
  have short: "\<exists>y. PositionalEncoding_forward P (\<lambda>path idx. 0) (Tensor [1, 2, 2] (\<lambda>idx. 5))
               = Inr (Dropout_forward (pe_dropout P) (\<lambda>path idx. 0) y)
            \<and> shape y = [1, 2, 2] \<and> elem y [0, 1, 1] = 5 + elem (pe P) [0, 1, 1]"
    by auto
  from PositionalEncoding_forward_adds_rows
         [of 2 2 0 P "Tensor [1, 3, 2] (\<lambda>idx. 5)" 1 3 "\<lambda>path idx. 0" P1] P P1
  have long: "PositionalEncoding_forward P (\<lambda>path idx. 0) (Tensor [1, 3, 2] (\<lambda>idx. 5)) = Inl RuntimeError"
    and single: "\<exists>y. PositionalEncoding_forward P1 (\<lambda>path idx. 0) (Tensor [1, 3, 2] (\<lambda>idx. 5))
               = Inr (Dropout_forward (pe_dropout P1) (\<lambda>path idx. 0) y)
            \<and> shape y = [1, 3, 2] \<and> elem y [0, 2, 1] = 5 + elem (pe P1) [0, 0, 1]"
    by auto
  from P P1 short long single show ?thesis by blast
qed

text \<open>
  The claim as stated fails: with a table of two rows and an input of three positions
  the call does not complete.
\<close>

theorem PositionalEncoding_forward_adds_rows_counterexample:
  "\<not> isl (PositionalEncoding_init 2 2 0)
   \<and> PositionalEncoding_forward (projr (PositionalEncoding_init 2 2 0)) (\<lambda>path idx. 0)
        (Tensor [1, 3, 2] (\<lambda>idx. 0)) = Inl RuntimeError"
proof -
  obtain P where P: "PositionalEncoding_init 2 2 0 = Inr P"
    using PositionalEncoding_init_ok [of 0 2 2] by auto
  from PositionalEncoding_init_shape [OF P]
  have "PositionalEncoding_forward P (\<lambda>path idx. 0) (Tensor [1, 3, 2] (\<lambda>idx. 0)) = Inl RuntimeError"
    by (intro PositionalEncoding_forward_long [where S = 2 and D = 2 and b = 1 and L = 3]) simp_all
  with P show ?thesis by simp
qed


section \<open>Layer normalisation\<close>

lemma broadcast_shapes_keepdim [simp]:
  "broadcast_shapes (pre @ [f]) (pre @ [Suc 0]) = Inr (pre @ [f])"
  by (simp add: broadcast_shapes_def)

lemma broadcast_shapes_vector_left [simp]:
  "broadcast_shapes [f] (pre @ [f]) = Inr (pre @ [f])"
  by (simp add: broadcast_shapes_def)

lemma broadcast_shapes_vector_right [simp]:
  "broadcast_shapes (pre @ [f]) [f] = Inr (pre @ [f])"
  by (simp add: broadcast_shapes_def)

lemma map2_valid:
  fixes ipre pre :: "nat list"
  shows "list_all2 (<) ipre pre \<Longrightarrow> map2 (\<lambda>d i. if d = Suc 0 then 0 else i) pre ipre = ipre"
  by (induction ipre pre rule: list_all2_induct) auto

lemma bidx_full:
  "list_all2 (<) ipre pre \<Longrightarrow> j < f \<Longrightarrow> bidx (pre @ [f]) (ipre @ [j]) = ipre @ [j]"
  by (rule bidx_valid) (simp add: list_all2_appendI)

lemma bidx_keepdim:
  "list_all2 (<) ipre pre \<Longrightarrow> bidx (pre @ [Suc 0]) (ipre @ [j]) = ipre @ [0]"
  by (frule list_all2_lengthD) (simp add: bidx_def map2_valid)

lemma bidx_vector:
  "j < f \<Longrightarrow> bidx [f] (ipre @ [j]) = [j]"
  by (auto simp: bidx_def)

lemma lastaxis_row:
  "shape x = pre @ [f] \<Longrightarrow> lastaxis x (ipre @ [j]) = map (\<lambda>k. elem x (ipre @ [k])) [0..<f]"
  by (simp add: lastaxis_def)

lemma broadcast_op_eq:
  assumes "broadcast_shapes (shape a) (shape b) = Inr s"
  shows "broadcast_op f a b =
           Inr (Tensor s (\<lambda>idx. f (elem a (bidx (shape a) idx)) (elem b (bidx (shape b) idx))))"
  using assms by (simp add: broadcast_op_def)

lemma LayerNormalization_forward_elem:
  assumes "shape x = pre @ [f]" "wf_LayerNormalization layer f"
  shows "\<exists>y. LayerNormalization_forward layer x = Inr y \<and> shape y = shape x
           \<and> (\<forall>idx. list_all2 (<) idx (shape x) \<longrightarrow>
                 elem y idx =
                   elem (ln_alpha layer) [last idx] * (elem x idx - mean_row (lastaxis x idx))
                     / (std_row (lastaxis x idx) + ln_eps layer)
                   + elem (ln_bias layer) [last idx])"
proof -
  from assms(2) have sh: "shape (ln_alpha layer) = [f]" "shape (ln_bias layer) = [f]"
    by (simp_all add: wf_LayerNormalization_def)
  define mean where "mean = mean_lastdim x"
  define denom where "denom = map_tensor (\<lambda>v. v + ln_eps layer) (std_lastdim x)"
  have msh: "shape mean = pre @ [Suc 0]" "shape denom = pre @ [Suc 0]"
    using assms(1) by (simp_all add: mean_def denom_def mean_lastdim_def std_lastdim_def keepdim_shape_def)
  define centred where "centred = Tensor (pre @ [f])
    (\<lambda>idx. elem x (bidx (shape x) idx) - elem mean (bidx (shape mean) idx))"
  define scaled where "scaled = Tensor (pre @ [f])
    (\<lambda>idx. elem (ln_alpha layer) (bidx (shape (ln_alpha layer)) idx)
            * elem centred (bidx (shape centred) idx))"
  define normed where "normed = Tensor (pre @ [f])
    (\<lambda>idx. elem scaled (bidx (shape scaled) idx) / elem denom (bidx (shape denom) idx))"
  define y where "y = Tensor (pre @ [f])
    (\<lambda>idx. elem normed (bidx (shape normed) idx)
            + elem (ln_bias layer) (bidx (shape (ln_bias layer)) idx))"
  have s1: "t_sub x mean = Inr centred"
    unfolding t_sub_def centred_def by (rule broadcast_op_eq) (simp add: assms(1) msh)
  have s2: "t_mul (ln_alpha layer) centred = Inr scaled"
    unfolding t_mul_def scaled_def by (rule broadcast_op_eq) (simp add: sh centred_def)
  have s3: "t_div scaled denom = Inr normed"
    unfolding t_div_def normed_def by (rule broadcast_op_eq) (simp add: scaled_def msh)
  have s4: "t_add normed (ln_bias layer) = Inr y"
    unfolding t_add_def y_def by (rule broadcast_op_eq) (simp add: sh normed_def)
  have fw: "LayerNormalization_forward layer x = Inr y"
    unfolding LayerNormalization_forward_def Let_def
    using s1 s2 s3 s4 by (simp add: mean_def denom_def)
  have "elem y idx =
          elem (ln_alpha layer) [last idx] * (elem x idx - mean_row (lastaxis x idx))
            / (std_row (lastaxis x idx) + ln_eps layer)
          + elem (ln_bias layer) [last idx]"
    if "list_all2 (<) idx (shape x)" for idx
  proof -
    from that assms(1) obtain ipre j where idx: "idx = ipre @ [j]" "list_all2 (<) ipre pre" "j < f"
      by (auto simp: list_all2_append2 list_all2_Cons2)
    have row: "lastaxis x (ipre @ [0]) = lastaxis x (ipre @ [j])"
      using assms(1) by (simp add: lastaxis_row)
    have full: "bidx (pre @ [f]) (ipre @ [j]) = ipre @ [j]"
      and keep: "bidx (pre @ [Suc 0]) (ipre @ [j]) = ipre @ [0]"
      and vec: "bidx [f] (ipre @ [j]) = [j]"
      using idx(2,3) by (simp_all add: bidx_full bidx_keepdim bidx_vector)
    have c: "elem centred (ipre @ [j]) = elem x (ipre @ [j]) - mean_row (lastaxis x (ipre @ [j]))"
      by (simp add: centred_def assms(1) full keep mean_def mean_lastdim_def keepdim_shape_def row)
    have d: "elem denom (ipre @ [0]) = std_row (lastaxis x (ipre @ [j])) + ln_eps layer"
      by (simp add: denom_def std_lastdim_def keepdim_shape_def row)
    show ?thesis
      by (simp add: y_def normed_def scaled_def sh msh full keep vec c d idx(1) centred_def [THEN arg_cong [of _ _ shape]])
  qed
  with fw assms(1) show ?thesis
    by (intro exI [of _ y]) (simp add: y_def)
qed


lemma LayerNormalization_init_eq:
  "0 \<le> n \<Longrightarrow>
   LayerNormalization_init n eps =
     Inr \<lparr>ln_eps = eps, ln_alpha = Tensor [nat n] (\<lambda>idx. 1), ln_bias = Tensor [nat n] (\<lambda>idx. 0)\<rparr>"
  by (simp add: LayerNormalization_init_def torch_ones_def torch_zeros_def torch_full_def
      torch_size_def)

lemma mean_row_upt:
  "mean_row (map f [0..<n]) = (\<Sum>j<n. f j) / real n"
  by (simp add: mean_row_def interv_sum_list_conv_sum_set_nat atLeast0LessThan)

lemma std_row_upt:
  "std_row (map f [0..<n])
     = sqrt ((\<Sum>j<n. (f j - (\<Sum>j<n. f j) / real n)\<^sup>2) / (real n - 1))"
  by (simp add: std_row_def mean_row_upt comp_def interv_sum_list_conv_sum_set_nat atLeast0LessThan)

text \<open>
  C6.  For an input whose last axis has \<open>features\<close> entries (at least two, so that the
  sample standard deviation is a number) and a layer whose \<open>alpha\<close> and \<open>bias\<close> are
  vectors of length \<open>features\<close>, the forward pass returns a tensor of the shape of
  the input with the elements \<open>alpha * (x - mean) / (std + eps) + bias\<close>, where
  \<open>mean\<close> is the sum of the row along the last axis divided by \<open>features\<close> and
  \<open>std\<close> is the square root of the sum of the squared deviations from it divided by
  \<open>features - 1\<close>; this in every row in which \<open>std + eps\<close> is not zero, which are
  all rows when \<open>eps\<close> is positive.  The constructor sets \<open>alpha\<close> to ones and
  \<open>bias\<close> to zeros, of length \<open>features\<close>.
\<close>

theorem LayerNormalization_forward_formula:
  "(shape x = pre @ [features] \<and> 2 \<le> features
      \<and> shape (ln_alpha layer) = [features] \<and> shape (ln_bias layer) = [features] \<longrightarrow>
      (\<exists>y. LayerNormalization_forward layer x = Inr y \<and> shape y = shape x
         \<and> (\<forall>idx. list_all2 (<) idx (shape x) \<longrightarrow>
               (let row = (\<lambda>j. elem x (butlast idx @ [j]));
                    mean = (\<Sum>j<features. row j) / real features;
                    std = sqrt ((\<Sum>j<features. (row j - mean)\<^sup>2) / (real features - 1))
                in std + ln_eps layer \<noteq> 0 \<longrightarrow>
                     elem y idx =
                       elem (ln_alpha layer) [last idx] * (elem x idx - mean) / (std + ln_eps layer)
                       + elem (ln_bias layer) [last idx]))))
   \<and> (0 \<le> n \<longrightarrow>
        LayerNormalization_init n eps =
          Inr \<lparr>ln_eps = eps, ln_alpha = Tensor [nat n] (\<lambda>idx. 1),
               ln_bias = Tensor [nat n] (\<lambda>idx. 0)\<rparr>)"
proof (intro conjI impI)
  assume a: "shape x = pre @ [features] \<and> 2 \<le> features
      \<and> shape (ln_alpha layer) = [features] \<and> shape (ln_bias layer) = [features]"
  then have "wf_LayerNormalization layer features"
    by (simp add: wf_LayerNormalization_def)
  from LayerNormalization_forward_elem [of x pre features layer, OF _ this] a
  obtain y where y: "LayerNormalization_forward layer x = Inr y" "shape y = shape x"
    "\<And>idx. list_all2 (<) idx (shape x) \<Longrightarrow>
       elem y idx =
         elem (ln_alpha layer) [last idx] * (elem x idx - mean_row (lastaxis x idx))
           / (std_row (lastaxis x idx) + ln_eps layer)
         + elem (ln_bias layer) [last idx]"
    by blast
  have row: "lastaxis x idx = map (\<lambda>j. elem x (butlast idx @ [j])) [0..<features]" for idx
    using a by (simp add: lastaxis_def)
  show "\<exists>y. LayerNormalization_forward layer x = Inr y \<and> shape y = shape x
         \<and> (\<forall>idx. list_all2 (<) idx (shape x) \<longrightarrow>
               (let row = (\<lambda>j. elem x (butlast idx @ [j]));
                    mean = (\<Sum>j<features. row j) / real features;
                    std = sqrt ((\<Sum>j<features. (row j - mean)\<^sup>2) / (real features - 1))
                in std + ln_eps layer \<noteq> 0 \<longrightarrow>
                     elem y idx =
                       elem (ln_alpha layer) [last idx] * (elem x idx - mean) / (std + ln_eps layer)
                       + elem (ln_bias layer) [last idx]))"
    using y(1,2) by (intro exI [of _ y]) (simp add: y(3) row mean_row_upt std_row_upt Let_def)
next
  assume "0 \<le> n"
  then show "LayerNormalization_init n eps =
          Inr \<lparr>ln_eps = eps, ln_alpha = Tensor [nat n] (\<lambda>idx. 1),
               ln_bias = Tensor [nat n] (\<lambda>idx. 0)\<rparr>"
    by (rule LayerNormalization_init_eq)
qed

theorem LayerNormalization_forward_formula_witness:
  "LayerNormalization_init 3 default_eps =
     Inr \<lparr>ln_eps = default_eps, ln_alpha = Tensor [3] (\<lambda>idx. 1), ln_bias = Tensor [3] (\<lambda>idx. 0)\<rparr>
   \<and> (\<exists>y. LayerNormalization_forward
              \<lparr>ln_eps = default_eps, ln_alpha = Tensor [3] (\<lambda>idx. 1), ln_bias = Tensor [3] (\<lambda>idx. 0)\<rparr>
              (Tensor [1, 3] (\<lambda>idx. 3 * real (last idx))) = Inr y
          \<and> shape y = [1, 3]
          \<and> elem y [0, 0] = - 3 / (3 + default_eps)
          \<and> elem y [0, 1] = 0
          \<and> elem y [0, 2] = 3 / (3 + default_eps))"
proof -
  define layer where "layer =
    \<lparr>ln_eps = default_eps, ln_alpha = Tensor [3] (\<lambda>idx. 1), ln_bias = Tensor [3] (\<lambda>idx. 0)\<rparr>"
  define x :: "real tensor" where "x = Tensor [1, 3] (\<lambda>idx. 3 * real (last idx))"
  have hyp: "shape x = [1] @ [3] \<and> 2 \<le> (3::nat)
      \<and> shape (ln_alpha layer) = [3] \<and> shape (ln_bias layer) = [3]"
    "(0::int) \<le> 3"
    by (simp_all add: x_def layer_def default_eps_def)
  from LayerNormalization_forward_formula [of x "[1]" 3 layer 3 default_eps] hyp
  obtain y where y: "LayerNormalization_forward layer x = Inr y" "shape y = shape x"
    and el: "\<And>idx. list_all2 (<) idx (shape x) \<Longrightarrow>
               (let row = (\<lambda>j. elem x (butlast idx @ [j]));
                    mean = (\<Sum>j<3. row j) / real 3;
                    std = sqrt ((\<Sum>j<3. (row j - mean)\<^sup>2) / (real 3 - 1))
                in std + ln_eps layer \<noteq> 0 \<longrightarrow>
                     elem y idx =
                       elem (ln_alpha layer) [last idx] * (elem x idx - mean) / (std + ln_eps layer)
                       + elem (ln_bias layer) [last idx])"
    and init: "LayerNormalization_init 3 default_eps = Inr layer"
    unfolding layer_def by auto
  have ok: "list_all2 (<) [0, 0] (shape x)" "list_all2 (<) [0, Suc 0] (shape x)"
    "list_all2 (<) [0, 2] (shape x)"
    by (simp_all add: x_def)
  have sums: "(\<Sum>j<3. f j) = f 0 + f 1 + f 2" for f :: "nat \<Rightarrow> real"
    by (simp add: eval_nat_numeral)
  have nine: "sqrt 9 = 3"
    using real_sqrt_abs [of 3] by simp
  have e: "elem y [0, 0] = - 3 / (3 + default_eps)" "elem y [0, 1] = 0"
     "elem y [0, 2] = 3 / (3 + default_eps)"
    using el [OF ok(1)] el [OF ok(2)] el [OF ok(3)]
    by (simp_all add: Let_def sums x_def layer_def nine default_eps_def)
  have shy: "shape y = [1, 3]"
    using y(2) by (simp add: x_def)
  have "\<exists>y. LayerNormalization_forward layer x = Inr y \<and> shape y = [1, 3]
          \<and> elem y [0, 0] = - 3 / (3 + default_eps)
          \<and> elem y [0, 1] = 0
          \<and> elem y [0, 2] = 3 / (3 + default_eps)"
    by (intro exI [of _ y] conjI) (fact y(1) shy e)+
  with init show ?thesis
    unfolding layer_def x_def by (rule conjI)
qed


section \<open>Scaled dot-product attention\<close>

lemma shape_at_4:
  "shape x = [b, h, s, k] \<Longrightarrow> shape_at x 0 = Inr (int b)"
  "shape x = [b, h, s, k] \<Longrightarrow> shape_at x 1 = Inr (int h)"
  "shape x = [b, h, s, k] \<Longrightarrow> shape_at x 2 = Inr (int s)"
  "shape x = [b, h, s, k] \<Longrightarrow> shape_at x (- 1) = Inr (int k)"
  by (simp_all add: shape_at_def py_getitem_def)

lemma transpose_last_4:
  "shape x = [b, h, s, k] \<Longrightarrow>
   transpose_t x (- 2) (- 1) = Inr (Tensor [b, h, k, s] (\<lambda>idx. elem x (swap idx 2 3)))"
  by (simp add: transpose_t_def wrap_dim_def swap_def eval_nat_numeral)

lemma transpose_12_4:
  "shape x = [b, h, s, k] \<Longrightarrow>
   transpose_t x 1 2 = Inr (Tensor [b, s, h, k] (\<lambda>idx. elem x (swap idx 1 2)))"
  by (simp add: transpose_t_def wrap_dim_def swap_def eval_nat_numeral)

lemma swap_4 [simp]:
  "swap [i, a, p, q] 2 3 = [i, a, q, p]"
  "swap [i, a, p, q] 1 2 = [i, p, a, q]"
  by (simp_all add: swap_def eval_nat_numeral)

lemma matmul_4:
  assumes "shape x = [b, h, n, k]" "shape y = [b, h, k, m]"
  shows "matmul x y =
           Inr (Tensor [b, h, n, m]
                 (\<lambda>idx. \<Sum>l<k. elem x (bidx [b, h] (take 2 idx) @ [idx ! 2, l])
                                * elem y (bidx [b, h] (take 2 idx) @ [l, idx ! 3])))"
  using assms by (simp add: matmul_def Let_def eval_nat_numeral)

lemma matmul_4_mismatch:
  assumes "shape x = [b, h, n, k]" "shape y = [b', h', k', m]" "k \<noteq> k'"
  shows "matmul x y = Inl RuntimeError"
  using assms by (simp add: matmul_def Let_def eval_nat_numeral)

lemma elem_matmul_4:
  assumes "shape x = [b, h, n, k]" "shape y = [b, h, k, m]" "i < b" "a < h"
  shows "elem (projr (matmul x y)) [i, a, p, q] = (\<Sum>l<k. elem x [i, a, p, l] * elem y [i, a, l, q])"
  using assms by (auto simp: matmul_4 eval_nat_numeral)


lemma bidx_4_4 [simp]:
  "bidx [b, h, s, k] [i, a, p, q] =
     [if b = 1 then 0 else i, if h = 1 then 0 else a, if s = 1 then 0 else p, if k = 1 then 0 else q]"
  by (simp add: bidx_def)

lemma masked_scores_None:
  assumes "shape query = [b, h, sq, dk]" "shape key = [b, h, sk, dk]"
  shows "\<exists>sc. masked_scores query key None = Inr sc \<and> shape sc = [b, h, sq, sk]
           \<and> (\<forall>i a p u. i < b \<longrightarrow> a < h \<longrightarrow>
                 elem sc [i, a, p, u] =
                   (\<Sum>l<dk. elem query [i, a, p, l] * elem key [i, a, u, l]) / sqrt (real dk))"
  using assms
  by (auto simp: masked_scores_def shape_at_4 transpose_last_4 matmul_4 swap_def eval_nat_numeral)

lemma mask_expand:
  assumes "shape m = [b, sk]" "shape query = [b, h, sq, dk]"
  shows "\<exists>m3. shape m3 = [b, h, sq, sk]
           \<and> (\<forall>i a p u. i < b \<longrightarrow> u < sk \<longrightarrow> elem m3 [i, a, p, u] = elem m [i, u])
           \<and> (\<forall>f :: int tensor \<Rightarrow> error + real tensor.
                 and_then (unsqueeze m 1) (\<lambda>m1.
                 and_then (unsqueeze m1 2) (\<lambda>m2.
                 and_then (shape_at query 1) (\<lambda>q1.
                 and_then (shape_at query 2) (\<lambda>q2.
                 and_then (tensor_expand m2 [- 1, q1, q2, - 1]) f)))) = f m3)"
proof -
  define m1 where "m1 = Tensor [b, 1, sk] (\<lambda>idx. elem m (take (Suc 0) idx @ drop (Suc (Suc 0)) idx))"
  define m2 where "m2 = Tensor [b, 1, 1, sk] (\<lambda>idx. elem m1 (take 2 idx @ drop (Suc 2) idx))"
  define m3 where "m3 = Tensor [b, h, sq, sk] (\<lambda>idx. elem m2 (bidx [b, 1, 1, sk] idx))"
  have u1: "unsqueeze m 1 = Inr m1"
    by (simp add: unsqueeze_def assms(1) m1_def)
  have sh1: "shape m1 = [b, 1, sk]"
    by (simp add: m1_def)
  have u2: "unsqueeze m1 2 = Inr m2"
    by (simp add: unsqueeze_def sh1 m2_def)
  have ex: "tensor_expand m2 [- 1, int h, int sq, - 1] = Inr m3"
    by (auto simp: tensor_expand_def expand_to_def m2_def m3_def)
  have "and_then (unsqueeze m 1) (\<lambda>m1.
        and_then (unsqueeze m1 2) (\<lambda>m2.
        and_then (shape_at query 1) (\<lambda>q1.
        and_then (shape_at query 2) (\<lambda>q2.
        and_then (tensor_expand m2 [- 1, q1, q2, - 1]) f)))) = f m3"
    for f :: "int tensor \<Rightarrow> error + real tensor"
    by (simp only: u1 u2 shape_at_4 [OF assms(2)] ex and_then_Inr)
  moreover have "elem m3 [i, a, p, u] = elem m [i, u]" if "i < b" "u < sk" for i a p u
    using that by (auto simp: m3_def m2_def m1_def)
  ultimately show ?thesis
    by (intro exI [of _ m3]) (simp add: m3_def)
qed

lemma masked_fill_same_shape:
  assumes "shape mb = shape sc"
  shows "masked_fill sc mb c =
           Inr (Tensor (shape sc) (\<lambda>idx. if elem mb (bidx (shape sc) idx) then c else elem sc idx))"
proof -
  have "expandable_rev xs xs" for xs :: "nat list"
    by (induction xs) simp_all
  then show ?thesis
    using assms by (simp add: masked_fill_def expand_to_def)
qed

lemma masked_scores_Some:
  assumes "shape query = [b, h, sq, dk]" "shape key = [b, h, sk, dk]" "shape m = [b, sk]"
  shows "\<exists>sc. masked_scores query key (Some m) = Inr sc \<and> shape sc = [b, h, sq, sk]
           \<and> (\<forall>i a p u. i < b \<longrightarrow> a < h \<longrightarrow> p < sq \<longrightarrow> u < sk \<longrightarrow>
                 elem sc [i, a, p, u] =
                   (if elem m [i, u] = 1 then - 1000000000
                    else (\<Sum>l<dk. elem query [i, a, p, l] * elem key [i, a, u, l]) / sqrt (real dk)))"
proof -
  from masked_scores_None [OF assms(1,2)]
  obtain sc0 where sc0: "masked_scores query key None = Inr sc0" "shape sc0 = [b, h, sq, sk]"
    "\<And>i a p u. i < b \<Longrightarrow> a < h \<Longrightarrow>
       elem sc0 [i, a, p, u] =
         (\<Sum>l<dk. elem query [i, a, p, l] * elem key [i, a, u, l]) / sqrt (real dk)"
    by blast
  from mask_expand [OF assms(3,1)]
  obtain m3 where m3: "shape m3 = [b, h, sq, sk]"
    "\<And>i a p u. i < b \<Longrightarrow> u < sk \<Longrightarrow> elem m3 [i, a, p, u] = elem m [i, u]"
    "\<And>f :: int tensor \<Rightarrow> error + real tensor.
       and_then (unsqueeze m 1) (\<lambda>m1.
       and_then (unsqueeze m1 2) (\<lambda>m2.
       and_then (shape_at query 1) (\<lambda>q1.
       and_then (shape_at query 2) (\<lambda>q2.
       and_then (tensor_expand m2 [- 1, q1, q2, - 1]) f)))) = f m3"
    by blast
  define sc where "sc = Tensor [b, h, sq, sk]
    (\<lambda>idx. if elem (map_tensor (\<lambda>v. v = 1) m3) (bidx [b, h, sq, sk] idx)
            then - 1000000000 else elem sc0 idx)"
  have fill: "masked_fill sc0 (map_tensor (\<lambda>v. v = 1) m3) (- 1000000000) = Inr sc"
    using masked_fill_same_shape [of "map_tensor (\<lambda>v. v = 1) m3" sc0 "- 1000000000"]
    by (simp add: m3(1) sc0(2) sc_def)
  have "masked_scores query key (Some m) = Inr sc"
    using sc0(1) fill
    by (auto simp: masked_scores_def and_then_eq_Inr Let_def m3(3))
  moreover have "elem sc [i, a, p, u] =
      (if elem m [i, u] = 1 then - 1000000000
       else (\<Sum>l<dk. elem query [i, a, p, l] * elem key [i, a, u, l]) / sqrt (real dk))"
    if "i < b" "a < h" "p < sq" "u < sk" for i a p u
    using that by (auto simp: sc_def m3(2) sc0(3))
  ultimately show ?thesis
    by (intro exI [of _ sc]) (simp add: sc_def)
qed

lemma elem_softmax_4:
  assumes "shape sc = [b, h, sq, sk]"
  shows "elem (softmax_lastdim sc) [i, a, p, u] =
           exp (elem sc [i, a, p, u]) / (\<Sum>j<sk. exp (elem sc [i, a, p, j]))"
  using assms
  by (simp add: softmax_lastdim_def lastaxis_def comp_def interv_sum_list_conv_sum_set_nat
      atLeast0LessThan)


lemma shape_Dropout_forward [simp]: "shape (Dropout_forward d g x) = shape x"
  by (simp add: Dropout_forward_def)

lemma attention_eq:
  assumes "masked_scores query key msk = Inr sc" "shape sc = [b, h, sq, sk]"
    "shape value = [b, h, sk, dv]"
    and w: "w = (case dropout of None \<Rightarrow> softmax_lastdim sc
                 | Some d \<Rightarrow> Dropout_forward d g (softmax_lastdim sc))"
  shows "\<exists>out. attention query key value msk dropout g = Inr (out, w)
           \<and> shape out = [b, h, sq, dv]
           \<and> (\<forall>i a p c. i < b \<longrightarrow> a < h \<longrightarrow>
                 elem out [i, a, p, c] = (\<Sum>u<sk. elem w [i, a, p, u] * elem value [i, a, u, c]))"
proof -
  have shw: "shape w = [b, h, sq, sk]"
    by (simp add: w assms(2) softmax_lastdim_def split: option.splits)
  from matmul_4 [OF shw assms(3)] elem_matmul_4 [OF shw assms(3)]
  show ?thesis
    unfolding attention_def Let_def w
    by (simp add: assms(1))
qed

lemma softmax_row_bound:
  fixes f :: "nat \<Rightarrow> real"
  assumes "k < n" "u < n"
  shows "0 \<le> exp (f k) / (\<Sum>j<n. exp (f j))"
    and "exp (f k) / (\<Sum>j<n. exp (f j)) \<le> exp (f k - f u)"
proof -
  have "exp (f u) \<le> (\<Sum>j<n. exp (f j))"
    using assms(2) by (intro member_le_sum) simp_all
  moreover have "0 < exp (f u)"
    by simp
  ultimately have pos: "0 < (\<Sum>j<n. exp (f j))" and le: "exp (f u) \<le> (\<Sum>j<n. exp (f j))"
    by linarith+
  show "0 \<le> exp (f k) / (\<Sum>j<n. exp (f j))"
    using pos by simp
  have "exp (f k) / (\<Sum>j<n. exp (f j)) \<le> exp (f k) / exp (f u)"
    using le by (intro frac_le) simp_all
  then show "exp (f k) / (\<Sum>j<n. exp (f j)) \<le> exp (f k - f u)"
    by (simp add: exp_diff)
qed

lemma softmax_row_uniform:
  fixes f :: "nat \<Rightarrow> real"
  assumes "\<And>j. j < n \<Longrightarrow> f j = c" "k < n"
  shows "exp (f k) / (\<Sum>j<n. exp (f j)) = 1 / real n"
proof -
  have "(\<Sum>j<n. exp (f j)) = (\<Sum>j<n. exp c)"
    using assms(1) by (intro sum.cong) simp_all
  then show ?thesis
    using assms by simp
qed

lemma attention_masked:
  assumes "shape query = [b, h, sq, dk]" "shape key = [b, h, sk, dk]"
    "shape value = [b, h, sk, dv]" "shape m = [b, sk]"
  shows "\<exists>sc out out'. masked_scores query key (Some m) = Inr sc
     \<and> attention query key value (Some m) None g = Inr (out, softmax_lastdim sc)
     \<and> attention query key value (Some m) (Some d) g
          = Inr (out', Dropout_forward d g (softmax_lastdim sc))
     \<and> shape (softmax_lastdim sc) = [b, h, sq, sk]
     \<and> (\<forall>i a p k u. i < b \<longrightarrow> a < h \<longrightarrow> p < sq \<longrightarrow> k < sk \<longrightarrow> u < sk \<longrightarrow>
           elem m [i, k] = 1 \<longrightarrow> elem m [i, u] \<noteq> 1 \<longrightarrow>
             elem sc [i, a, p, k] = - 1000000000
           \<and> 0 \<le> elem (softmax_lastdim sc) [i, a, p, k]
           \<and> elem (softmax_lastdim sc) [i, a, p, k]
               \<le> exp (- 1000000000
                       - (\<Sum>l<dk. elem query [i, a, p, l] * elem key [i, a, u, l]) / sqrt (real dk)))
     \<and> (\<forall>i a p k. i < b \<longrightarrow> a < h \<longrightarrow> p < sq \<longrightarrow> k < sk \<longrightarrow>
           (\<forall>u. u < sk \<longrightarrow> elem m [i, u] = 1) \<longrightarrow>
             elem (softmax_lastdim sc) [i, a, p, k] = 1 / real sk)"
proof -
  from masked_scores_Some [OF assms(1,2,4)]
  obtain sc where sc: "masked_scores query key (Some m) = Inr sc" "shape sc = [b, h, sq, sk]"
    and el: "\<And>i a p u. i < b \<Longrightarrow> a < h \<Longrightarrow> p < sq \<Longrightarrow> u < sk \<Longrightarrow>
       elem sc [i, a, p, u] =
         (if elem m [i, u] = 1 then - 1000000000
          else (\<Sum>l<dk. elem query [i, a, p, l] * elem key [i, a, u, l]) / sqrt (real dk))"
    by blast
  from attention_eq [OF sc assms(3), where dropout = None and g = g and w = "softmax_lastdim sc"]
  obtain out where out: "attention query key value (Some m) None g = Inr (out, softmax_lastdim sc)"
    by auto
  from attention_eq [OF sc assms(3), where dropout = "Some d" and g = g
      and w = "Dropout_forward d g (softmax_lastdim sc)"]
  obtain out' where out': "attention query key value (Some m) (Some d) g
          = Inr (out', Dropout_forward d g (softmax_lastdim sc))"
    by auto
  have bound: "elem sc [i, a, p, k] = - 1000000000
           \<and> 0 \<le> elem (softmax_lastdim sc) [i, a, p, k]
           \<and> elem (softmax_lastdim sc) [i, a, p, k]
               \<le> exp (- 1000000000
                       - (\<Sum>l<dk. elem query [i, a, p, l] * elem key [i, a, u, l]) / sqrt (real dk))"
    if "i < b" "a < h" "p < sq" "k < sk" "u < sk" "elem m [i, k] = 1" "elem m [i, u] \<noteq> 1"
    for i a p k u
  proof -
    have k: "elem sc [i, a, p, k] = - 1000000000"
      using that by (simp add: el)
    have u: "elem sc [i, a, p, u]
        = (\<Sum>l<dk. elem query [i, a, p, l] * elem key [i, a, u, l]) / sqrt (real dk)"
      using that by (simp add: el)
    from softmax_row_bound [of k sk u "\<lambda>j. elem sc [i, a, p, j]"] that(4,5)
    show ?thesis
      by (simp add: elem_softmax_4 [OF sc(2)] k u)
  qed
  have uniform: "elem (softmax_lastdim sc) [i, a, p, k] = 1 / real sk"
    if "i < b" "a < h" "p < sq" "k < sk" "\<forall>u. u < sk \<longrightarrow> elem m [i, u] = 1" for i a p k
  proof -
    have "elem sc [i, a, p, j] = - 1000000000" if "j < sk" for j
      using that \<open>i < b\<close> \<open>a < h\<close> \<open>p < sq\<close> \<open>\<forall>u. u < sk \<longrightarrow> elem m [i, u] = 1\<close>
      by (simp add: el)
    from softmax_row_uniform [of sk "\<lambda>j. elem sc [i, a, p, j]", OF this \<open>k < sk\<close>]
    show ?thesis
      by (simp add: elem_softmax_4 [OF sc(2)])
  qed
  have "shape (softmax_lastdim sc) = [b, h, sq, sk]"
    by (simp add: softmax_lastdim_def sc(2))
  with sc out out' bound uniform show ?thesis
    by (intro exI [of _ sc] exI [of _ out] exI [of _ out']) simp
qed


text \<open>
  C2 (as amended).  For a query of shape (batch, h, seq_q, d_k) with \<open>d_k\<close> at least 1, a
  key and a value of seq_k positions and a mask of shape (batch, seq_k), the score of
  every key position whose mask value is 1 is \<open>-1e9\<close>, for every batch, head and query
  position (the other scores are the scaled dot products), and the weights are the
  softmax of these scores along the key axis.  In a row that has an unmasked key
  position \<open>u\<close> the weight of a masked position lies between 0 and \<open>exp (-1e9 - s)\<close>,
  where \<open>s\<close> is the scaled score of \<open>u\<close>.  In a row in which all key positions are
  masked the weights are uniform, \<open>1 / seq_k\<close> each.  These are the weights that
  \<open>attention\<close> returns without dropout, and those it passes to dropout.
\<close>

theorem attention_masked_weights:
  "shape query = [b, h, sq, dk] \<and> shape key = [b, h, sk, dk]
     \<and> shape value = [b, h, sk, dv] \<and> shape m = [b, sk] \<and> 0 < dk \<longrightarrow>
   (\<exists>sc out out'. masked_scores query key (Some m) = Inr sc
     \<and> attention query key value (Some m) None g = Inr (out, softmax_lastdim sc)
     \<and> attention query key value (Some m) (Some d) g
          = Inr (out', Dropout_forward d g (softmax_lastdim sc))
     \<and> shape (softmax_lastdim sc) = [b, h, sq, sk]
     \<and> (\<forall>i a p k. i < b \<longrightarrow> a < h \<longrightarrow> p < sq \<longrightarrow> k < sk \<longrightarrow>
           elem sc [i, a, p, k] =
             (if elem m [i, k] = 1 then - 1000000000
              else (\<Sum>l<dk. elem query [i, a, p, l] * elem key [i, a, k, l]) / sqrt (real dk))
           \<and> elem (softmax_lastdim sc) [i, a, p, k]
               = exp (elem sc [i, a, p, k]) / (\<Sum>j<sk. exp (elem sc [i, a, p, j])))
     \<and> (\<forall>i a p k u. i < b \<longrightarrow> a < h \<longrightarrow> p < sq \<longrightarrow> k < sk \<longrightarrow> u < sk \<longrightarrow>
           elem m [i, k] = 1 \<longrightarrow> elem m [i, u] \<noteq> 1 \<longrightarrow>
             0 \<le> elem (softmax_lastdim sc) [i, a, p, k]
           \<and> elem (softmax_lastdim sc) [i, a, p, k]
               \<le> exp (- 1000000000
                       - (\<Sum>l<dk. elem query [i, a, p, l] * elem key [i, a, u, l]) / sqrt (real dk)))
     \<and> (\<forall>i a p k. i < b \<longrightarrow> a < h \<longrightarrow> p < sq \<longrightarrow> k < sk \<longrightarrow>
           (\<forall>u. u < sk \<longrightarrow> elem m [i, u] = 1) \<longrightarrow>
             elem (softmax_lastdim sc) [i, a, p, k] = 1 / real sk))"
proof (intro impI, elim conjE)
  assume sh: "shape query = [b, h, sq, dk]" "shape key = [b, h, sk, dk]"
    "shape value = [b, h, sk, dv]" "shape m = [b, sk]"
  from attention_masked [OF sh, of g d]
  obtain sc out out' where sc: "masked_scores query key (Some m) = Inr sc"
    and att: "attention query key value (Some m) None g = Inr (out, softmax_lastdim sc)"
      "attention query key value (Some m) (Some d) g
          = Inr (out', Dropout_forward d g (softmax_lastdim sc))"
    and shw: "shape (softmax_lastdim sc) = [b, h, sq, sk]"
    and bound: "\<forall>i a p k u. i < b \<longrightarrow> a < h \<longrightarrow> p < sq \<longrightarrow> k < sk \<longrightarrow> u < sk \<longrightarrow>
           elem m [i, k] = 1 \<longrightarrow> elem m [i, u] \<noteq> 1 \<longrightarrow>
             elem sc [i, a, p, k] = - 1000000000
           \<and> 0 \<le> elem (softmax_lastdim sc) [i, a, p, k]
           \<and> elem (softmax_lastdim sc) [i, a, p, k]
               \<le> exp (- 1000000000
                       - (\<Sum>l<dk. elem query [i, a, p, l] * elem key [i, a, u, l]) / sqrt (real dk))"
    and uniform: "\<forall>i a p k. i < b \<longrightarrow> a < h \<longrightarrow> p < sq \<longrightarrow> k < sk \<longrightarrow>
           (\<forall>u. u < sk \<longrightarrow> elem m [i, u] = 1) \<longrightarrow>
             elem (softmax_lastdim sc) [i, a, p, k] = 1 / real sk"
    apply (elim exE conjE)
    apply (rule that)
         apply assumption+
    done
  from masked_scores_Some [OF sh(1,2,4)] sc
  have el: "\<forall>i a p u. i < b \<longrightarrow> a < h \<longrightarrow> p < sq \<longrightarrow> u < sk \<longrightarrow>
                 elem sc [i, a, p, u] =
                   (if elem m [i, u] = 1 then - 1000000000
                    else (\<Sum>l<dk. elem query [i, a, p, l] * elem key [i, a, u, l]) / sqrt (real dk))"
    by auto
  have shsc: "shape sc = [b, h, sq, sk]"
    using shw by (simp add: softmax_lastdim_def)
  have scores: "\<forall>i a p k. i < b \<longrightarrow> a < h \<longrightarrow> p < sq \<longrightarrow> k < sk \<longrightarrow>
           elem sc [i, a, p, k] =
             (if elem m [i, k] = 1 then - 1000000000
              else (\<Sum>l<dk. elem query [i, a, p, l] * elem key [i, a, k, l]) / sqrt (real dk))
           \<and> elem (softmax_lastdim sc) [i, a, p, k]
               = exp (elem sc [i, a, p, k]) / (\<Sum>j<sk. exp (elem sc [i, a, p, j]))"
    using el by (simp add: elem_softmax_4 [OF shsc])
  have bound': "\<forall>i a p k u. i < b \<longrightarrow> a < h \<longrightarrow> p < sq \<longrightarrow> k < sk \<longrightarrow> u < sk \<longrightarrow>
           elem m [i, k] = 1 \<longrightarrow> elem m [i, u] \<noteq> 1 \<longrightarrow>
             0 \<le> elem (softmax_lastdim sc) [i, a, p, k]
           \<and> elem (softmax_lastdim sc) [i, a, p, k]
               \<le> exp (- 1000000000
                       - (\<Sum>l<dk. elem query [i, a, p, l] * elem key [i, a, u, l]) / sqrt (real dk))"
    using bound by blast
  show "\<exists>sc out out'. masked_scores query key (Some m) = Inr sc
     \<and> attention query key value (Some m) None g = Inr (out, softmax_lastdim sc)
     \<and> attention query key value (Some m) (Some d) g
          = Inr (out', Dropout_forward d g (softmax_lastdim sc))
     \<and> shape (softmax_lastdim sc) = [b, h, sq, sk]
     \<and> (\<forall>i a p k. i < b \<longrightarrow> a < h \<longrightarrow> p < sq \<longrightarrow> k < sk \<longrightarrow>
           elem sc [i, a, p, k] =
             (if elem m [i, k] = 1 then - 1000000000
              else (\<Sum>l<dk. elem query [i, a, p, l] * elem key [i, a, k, l]) / sqrt (real dk))
           \<and> elem (softmax_lastdim sc) [i, a, p, k]
               = exp (elem sc [i, a, p, k]) / (\<Sum>j<sk. exp (elem sc [i, a, p, j])))
     \<and> (\<forall>i a p k u. i < b \<longrightarrow> a < h \<longrightarrow> p < sq \<longrightarrow> k < sk \<longrightarrow> u < sk \<longrightarrow>
           elem m [i, k] = 1 \<longrightarrow> elem m [i, u] \<noteq> 1 \<longrightarrow>
             0 \<le> elem (softmax_lastdim sc) [i, a, p, k]
           \<and> elem (softmax_lastdim sc) [i, a, p, k]
               \<le> exp (- 1000000000
                       - (\<Sum>l<dk. elem query [i, a, p, l] * elem key [i, a, u, l]) / sqrt (real dk)))
     \<and> (\<forall>i a p k. i < b \<longrightarrow> a < h \<longrightarrow> p < sq \<longrightarrow> k < sk \<longrightarrow>
           (\<forall>u. u < sk \<longrightarrow> elem m [i, u] = 1) \<longrightarrow>
             elem (softmax_lastdim sc) [i, a, p, k] = 1 / real sk)"
    by (intro exI [of _ sc] exI [of _ out] exI [of _ out'] conjI)
      (fact sc att shw scores bound' uniform)+
qed


theorem attention_masked_weights_witness:
  "(\<exists>sc out. masked_scores (Tensor [1, 1, 1, 1] (\<lambda>idx. 0)) (Tensor [1, 1, 2, 1] (\<lambda>idx. 0))
                (Some (Tensor [1, 2] (\<lambda>idx. if idx = [0, 0] then 1 else 0))) = Inr sc
      \<and> attention (Tensor [1, 1, 1, 1] (\<lambda>idx. 0)) (Tensor [1, 1, 2, 1] (\<lambda>idx. 0))
            (Tensor [1, 1, 2, 1] (\<lambda>idx. 0))
            (Some (Tensor [1, 2] (\<lambda>idx. if idx = [0, 0] then 1 else 0))) None (\<lambda>path idx. 0)
          = Inr (out, softmax_lastdim sc)
      \<and> elem sc [0, 0, 0, 0] = - 1000000000
      \<and> elem sc [0, 0, 0, 1] = 0
      \<and> 0 \<le> elem (softmax_lastdim sc) [0, 0, 0, 0]
      \<and> elem (softmax_lastdim sc) [0, 0, 0, 0] \<le> exp (- 1000000000))
   \<and> (\<exists>sc out. masked_scores (Tensor [1, 1, 1, 1] (\<lambda>idx. 0)) (Tensor [1, 1, 2, 1] (\<lambda>idx. 0))
                (Some (Tensor [1, 2] (\<lambda>idx. 1))) = Inr sc
      \<and> attention (Tensor [1, 1, 1, 1] (\<lambda>idx. 0)) (Tensor [1, 1, 2, 1] (\<lambda>idx. 0))
            (Tensor [1, 1, 2, 1] (\<lambda>idx. 0))
            (Some (Tensor [1, 2] (\<lambda>idx. 1))) None (\<lambda>path idx. 0)
          = Inr (out, softmax_lastdim sc)
      \<and> elem sc [0, 0, 0, 0] = - 1000000000
      \<and> elem sc [0, 0, 0, 1] = - 1000000000
      \<and> elem (softmax_lastdim sc) [0, 0, 0, 1] = 1 / 2)"
proof -
  define q :: "real tensor" where "q = Tensor [1, 1, 1, 1] (\<lambda>idx. 0)"
  define k :: "real tensor" where "k = Tensor [1, 1, 2, 1] (\<lambda>idx. 0)"
  define m0 :: "int tensor" where "m0 = Tensor [1, 2] (\<lambda>idx. if idx = [0, 0] then 1 else 0)"
  define m1 :: "int tensor" where "m1 = Tensor [1, 2] (\<lambda>idx. 1)"
  have sh: "shape q = [1, 1, 1, 1] \<and> shape k = [1, 1, 2, 1] \<and> shape k = [1, 1, 2, 1]
      \<and> shape m0 = [1, 2] \<and> 0 < (1::nat)"
    "shape q = [1, 1, 1, 1] \<and> shape k = [1, 1, 2, 1] \<and> shape k = [1, 1, 2, 1]
      \<and> shape m1 = [1, 2] \<and> 0 < (1::nat)"
    by (simp_all add: q_def k_def m0_def m1_def)
  from attention_masked_weights [of q 1 1 1 1 k 2 k 1 m0 "\<lambda>path idx. 0"
      "\<lparr>drop_p = 0, drop_training = False\<rparr>", THEN mp, OF sh(1)]
  obtain sc out where a: "masked_scores q k (Some m0) = Inr sc"
    "attention q k k (Some m0) None (\<lambda>path idx. 0) = Inr (out, softmax_lastdim sc)"
    and scores: "\<forall>i a p k'. i < 1 \<longrightarrow> a < 1 \<longrightarrow> p < 1 \<longrightarrow> k' < 2 \<longrightarrow>
           elem sc [i, a, p, k'] =
             (if elem m0 [i, k'] = 1 then - 1000000000
              else (\<Sum>l<1. elem q [i, a, p, l] * elem k [i, a, k', l]) / sqrt (real 1))
           \<and> elem (softmax_lastdim sc) [i, a, p, k']
               = exp (elem sc [i, a, p, k']) / (\<Sum>j<2. exp (elem sc [i, a, p, j]))"
    and bound: "\<forall>i a p k' u. i < 1 \<longrightarrow> a < 1 \<longrightarrow> p < 1 \<longrightarrow> k' < 2 \<longrightarrow> u < 2 \<longrightarrow>
           elem m0 [i, k'] = 1 \<longrightarrow> elem m0 [i, u] \<noteq> 1 \<longrightarrow>
           0 \<le> elem (softmax_lastdim sc) [i, a, p, k']
           \<and> elem (softmax_lastdim sc) [i, a, p, k']
               \<le> exp (- 1000000000
                       - (\<Sum>l<1. elem q [i, a, p, l] * elem k [i, a, u, l]) / sqrt (real 1))"
    apply (elim exE conjE)
    apply (rule that)
       apply assumption+
    done
  from scores [rule_format, of 0 0 0 0] scores [rule_format, of 0 0 0 1]
  have s0: "elem sc [0, 0, 0, 0] = - 1000000000" "elem sc [0, 0, 0, 1] = 0"
    by (simp_all add: m0_def q_def k_def)
  from bound [rule_format, of 0 0 0 0 1]
  have first: "0 \<le> elem (softmax_lastdim sc) [0, 0, 0, 0]"
      "elem (softmax_lastdim sc) [0, 0, 0, 0] \<le> exp (- 1000000000)"
    by (simp_all add: m0_def q_def k_def)
  from attention_masked_weights [of q 1 1 1 1 k 2 k 1 m1 "\<lambda>path idx. 0"
      "\<lparr>drop_p = 0, drop_training = False\<rparr>", THEN mp, OF sh(2)]
  obtain sc' out' where b: "masked_scores q k (Some m1) = Inr sc'"
    "attention q k k (Some m1) None (\<lambda>path idx. 0) = Inr (out', softmax_lastdim sc')"
    and scores': "\<forall>i a p k'. i < 1 \<longrightarrow> a < 1 \<longrightarrow> p < 1 \<longrightarrow> k' < 2 \<longrightarrow>
           elem sc' [i, a, p, k'] =
             (if elem m1 [i, k'] = 1 then - 1000000000
              else (\<Sum>l<1. elem q [i, a, p, l] * elem k [i, a, k', l]) / sqrt (real 1))
           \<and> elem (softmax_lastdim sc') [i, a, p, k']
               = exp (elem sc' [i, a, p, k']) / (\<Sum>j<2. exp (elem sc' [i, a, p, j]))"
    and uniform: "\<forall>i a p k'. i < 1 \<longrightarrow> a < 1 \<longrightarrow> p < 1 \<longrightarrow> k' < 2 \<longrightarrow>
           (\<forall>u. u < 2 \<longrightarrow> elem m1 [i, u] = 1) \<longrightarrow>
             elem (softmax_lastdim sc') [i, a, p, k'] = 1 / real 2"
    apply (elim exE conjE)
    apply (rule that)
       apply assumption+
    done
  from scores' [rule_format, of 0 0 0 0] scores' [rule_format, of 0 0 0 1]
  have s1: "elem sc' [0, 0, 0, 0] = - 1000000000" "elem sc' [0, 0, 0, 1] = - 1000000000"
    by (simp_all add: m1_def)
  from uniform [rule_format, of 0 0 0 1]
  have second: "elem (softmax_lastdim sc') [0, 0, 0, 1] = 1 / 2"
    by (simp add: m1_def)
  have "\<exists>sc out. masked_scores q k (Some m0) = Inr sc
      \<and> attention q k k (Some m0) None (\<lambda>path idx. 0) = Inr (out, softmax_lastdim sc)
      \<and> elem sc [0, 0, 0, 0] = - 1000000000
      \<and> elem sc [0, 0, 0, 1] = 0
      \<and> 0 \<le> elem (softmax_lastdim sc) [0, 0, 0, 0]
      \<and> elem (softmax_lastdim sc) [0, 0, 0, 0] \<le> exp (- 1000000000)"
    by (intro exI [of _ sc] exI [of _ out] conjI) (fact a s0 first)+
  moreover have "\<exists>sc out. masked_scores q k (Some m1) = Inr sc
      \<and> attention q k k (Some m1) None (\<lambda>path idx. 0) = Inr (out, softmax_lastdim sc)
      \<and> elem sc [0, 0, 0, 0] = - 1000000000
      \<and> elem sc [0, 0, 0, 1] = - 1000000000
      \<and> elem (softmax_lastdim sc) [0, 0, 0, 1] = 1 / 2"
    by (intro exI [of _ sc'] exI [of _ out'] conjI) (fact b s1 second)+
  ultimately show ?thesis
    unfolding q_def k_def m0_def m1_def by (rule conjI)
qed

text \<open>
  The claim as stated fails in a row in which all key positions are masked: with a
  single key position, masked, the weight is 1.
\<close>

theorem attention_masked_weights_counterexample:
  "elem (Tensor [1, 1] (\<lambda>idx. 1) :: int tensor) [0, 0] = 1
   \<and> \<not> isl (attention (Tensor [1, 1, 1, 1] (\<lambda>idx. 0)) (Tensor [1, 1, 1, 1] (\<lambda>idx. 0))
               (Tensor [1, 1, 1, 1] (\<lambda>idx. 0)) (Some (Tensor [1, 1] (\<lambda>idx. 1))) None
               (\<lambda>path idx. 0))
   \<and> elem (snd (projr (attention (Tensor [1, 1, 1, 1] (\<lambda>idx. 0)) (Tensor [1, 1, 1, 1] (\<lambda>idx. 0))
               (Tensor [1, 1, 1, 1] (\<lambda>idx. 0)) (Some (Tensor [1, 1] (\<lambda>idx. 1))) None
               (\<lambda>path idx. 0)))) [0, 0, 0, 0] = 1"
proof -
  define q :: "real tensor" where "q = Tensor [1, 1, 1, 1] (\<lambda>idx. 0)"
  define m :: "int tensor" where "m = Tensor [1, 1] (\<lambda>idx. 1)"
  have sh: "shape q = [1, 1, 1, 1]" "shape m = [1, 1]"
    by (simp_all add: q_def m_def)
  from attention_masked [OF sh(1) sh(1) sh(1) sh(2), where g = "\<lambda>path idx. 0"
      and d = "\<lparr>drop_p = 0, drop_training = False\<rparr>"]
  obtain sc out where a: "attention q q q (Some m) None (\<lambda>path idx. 0) = Inr (out, softmax_lastdim sc)"
    and uniform: "\<And>i a p k'. i < 1 \<Longrightarrow> a < 1 \<Longrightarrow> p < 1 \<Longrightarrow> k' < 1 \<Longrightarrow>
           (\<forall>u. u < 1 \<longrightarrow> elem m [i, u] = 1) \<Longrightarrow>
             elem (softmax_lastdim sc) [i, a, p, k'] = 1 / real 1"
    apply (elim exE conjE)
    apply (rule that)
     apply assumption
    apply simp
    done
  from uniform [of 0 0 0 0] have "elem (softmax_lastdim sc) [0, 0, 0, 0] = 1"
    by (simp add: m_def)
  with a show ?thesis
    unfolding q_def m_def by simp
qed

section \<open>Multi-head attention without a mask\<close>

lemma div_mod_block:
  fixes M x i :: nat
  assumes "x < M"
  shows "(i * M + x) div M = i" "(i * M + x) mod M = x"
  using assms by simp_all

lemma unflat_flat_split:
  assumes "i < b" "p < s" "a < H" "c < K"
  shows "unflat [b, s, H * K] (flat [b, s, H, K] [i, p, a, c]) = [i, p, a * K + c]"
proof -
  define D where "D = H * K"
  define r where "r = a * K + c"
  have "a * K + c < a * K + K"
    using assms(4) by simp
  also have "\<dots> = (a + 1) * K"
    by simp
  also have "\<dots> \<le> H * K"
    using assms(3) by (intro mult_le_mono1) simp
  finally have r: "r < D"
    by (simp add: r_def D_def)
  have "p * D + r < p * D + D"
    using r by simp
  also have "\<dots> = (p + 1) * D"
    by simp
  also have "\<dots> \<le> s * D"
    using assms(2) by (intro mult_le_mono1) simp
  finally have pr: "p * D + r < s * D" .
  have n: "flat [b, s, H, K] [i, p, a, c] = i * (s * D) + (p * D + r)"
    by (simp add: D_def r_def algebra_simps)
  have 1: "(i * (s * D) + (p * D + r)) div (s * D) = i"
    using pr by (rule div_mod_block)
  have eq: "i * (s * D) + (p * D + r) = (i * s + p) * D + r"
    by (simp add: algebra_simps)
  have 2: "(i * (s * D) + (p * D + r)) div D = i * s + p"
    unfolding eq using r by (rule div_mod_block)
  have 3: "(i * (s * D) + (p * D + r)) mod D = r"
    unfolding eq using r by (rule div_mod_block)
  show ?thesis
    unfolding n D_def [symmetric] r_def [symmetric]
    using assms(1,2) by (simp add: 1 2 3)
qed

lemma unflat_flat_merge:
  assumes "i < b" "p < s" "e < H * K"
  shows "unflat [b, s, H, K] (flat [b, s, H * K] [i, p, e]) = [i, p, e div K, e mod K]"
proof -
  define D where "D = H * K"
  from assms(3) have K: "0 < K"
    by (cases K) simp_all
  have e: "e < D" using assms(3) by (simp add: D_def)
  have "p * D + e < p * D + D"
    using e by simp
  also have "\<dots> = (p + 1) * D"
    by simp
  also have "\<dots> \<le> s * D"
    using assms(2) by (intro mult_le_mono1) simp
  finally have pe: "p * D + e < s * D" .
  have n: "flat [b, s, H * K] [i, p, e] = i * (s * D) + (p * D + e)"
    by (simp add: D_def)
  have eq: "i * (s * D) + (p * D + e) = (i * s + p) * D + e"
    by (simp add: algebra_simps)
  have 1: "(i * (s * D) + (p * D + e)) div (s * D) = i"
    using pe by (rule div_mod_block)
  have 2: "(i * (s * D) + (p * D + e)) div D = i * s + p"
    unfolding eq using e by (rule div_mod_block)
  have dK: "e div K < H"
    using assms(3) K by (simp add: less_mult_imp_div_less)
  have eqK: "i * (s * D) + (p * D + e) = ((i * s + p) * H) * K + e"
    by (simp add: D_def algebra_simps)
  have "(i * (s * D) + (p * D + e)) div K = (i * s + p) * H + e div K"
    unfolding eqK using K by simp
  then have 3: "((i * (s * D) + (p * D + e)) div K) mod H = e div K"
    using dK by simp
  have 4: "(i * (s * D) + (p * D + e)) mod K = e mod K"
    unfolding eqK by simp
  have sHK: "s * (H * K) = s * D" by (simp add: D_def)
  show ?thesis
    using assms(1,2) 1 2 3 4
    by (simp add: n sHK D_def [symmetric])
qed


lemma Linear_forward_3:
  assumes "wf_Linear l n m" "shape x = [b, s, n]"
  shows "\<exists>y. Linear_forward l x = Inr y \<and> shape y = [b, s, m]
          \<and> (\<forall>i p f. elem y [i, p, f] = spec_linear l x i p f)"
  using assms by (simp add: Linear_forward_def wf_Linear_def spec_linear_def split: option.splits)

lemma view_split:
  fixes t :: "'a tensor"
  assumes "shape t = [b, s, H * K]"
  shows "view t [int b, int s, int H, int K] =
           Inr (Tensor [b, s, H, K] (\<lambda>idx. elem t (unflat [b, s, H * K] (flat [b, s, H, K] idx))))"
  using assms by (simp add: view_def infer_view_def)

lemma split_heads_eq:
  assumes "shape t = [b, s, H * K]" "mha_h blk = int H" "mha_d_k blk = int K"
  shows "\<exists>th. split_heads blk t = Inr th \<and> shape th = [b, H, s, K]
     \<and> (\<forall>i a p c. i < b \<longrightarrow> a < H \<longrightarrow> p < s \<longrightarrow> c < K \<longrightarrow>
           elem th [i, a, p, c] = elem t [i, p, a * K + c])"
proof -
  define t4 where "t4 = Tensor [b, s, H, K] (\<lambda>idx. elem t (unflat [b, s, H * K] (flat [b, s, H, K] idx)))"
  have sh4: "shape t4 = [b, s, H, K]"
    by (simp add: t4_def)
  have "split_heads blk t = Inr (Tensor [b, H, s, K] (\<lambda>idx. elem t4 (swap idx 1 2)))"
    unfolding split_heads_def
    by (simp only: shape_at_3 [OF assms(1)] and_then_Inr assms(2,3) view_split [OF assms(1)]
        t4_def [symmetric] transpose_12_4 [OF sh4])
  moreover have "elem t4 [i, p, a, c] = elem t [i, p, a * K + c]"
    if "i < b" "a < H" "p < s" "c < K" for i a p c
    using unflat_flat_split [OF that(1) that(3) that(2) that(4)] by (simp add: t4_def)
  ultimately show ?thesis
    by (simp add: swap_def)
qed

lemma view_merge:
  fixes xt :: "'a tensor"
  assumes "prod_list (shape xt) = s * (b * D)" "0 < b" "0 < D"
  shows "view xt [int b, - 1, int D] =
           Inr (Tensor [b, s, D] (\<lambda>idx. elem xt (unflat (shape xt) (flat [b, s, D] idx))))"
  using assms by (simp add: view_def infer_view_def)

lemma merge_heads_eq:
  fixes x :: "real tensor"
  assumes "shape x = [b, H, s, K]" "0 < b" "0 < H * K" "mha_h blk = int H" "mha_d_k blk = int K"
  shows "\<exists>xv. and_then (transpose_t x 1 2) (\<lambda>xt.
               and_then (shape_at x 0) (\<lambda>b.
               and_then (view (contiguous xt) [b, - 1, mha_h blk * mha_d_k blk]) f)) = f xv
           \<and> shape xv = [b, s, H * K]
           \<and> (\<forall>i p e. i < b \<longrightarrow> p < s \<longrightarrow> e < H * K \<longrightarrow>
                 elem xv [i, p, e] = elem x [i, e div K, p, e mod K])"
proof -
  define xt where "xt = Tensor [b, s, H, K] (\<lambda>idx. elem x (swap idx 1 2))"
  define xv where "xv = Tensor [b, s, H * K] (\<lambda>idx. elem xt (unflat [b, s, H, K] (flat [b, s, H * K] idx)))"
  have hk: "mha_h blk * mha_d_k blk = int (H * K)"
    by (simp add: assms(4,5))
  have "prod_list (shape xt) = s * (b * (H * K))"
    by (simp add: xt_def)
  from view_merge [OF this assms(2,3)]
  have v: "view (contiguous xt) [int b, - 1, int (H * K)] = Inr xv"
    by (simp add: contiguous_def xv_def xt_def)
  have "and_then (transpose_t x 1 2) (\<lambda>xt.
               and_then (shape_at x 0) (\<lambda>b.
               and_then (view (contiguous xt) [b, - 1, mha_h blk * mha_d_k blk]) f)) = f xv"
    by (simp only: transpose_12_4 [OF assms(1)] xt_def [symmetric] and_then_Inr
        shape_at_4 [OF assms(1)] hk v)
  moreover have "elem xv [i, p, e] = elem x [i, e div K, p, e mod K]"
    if "i < b" "p < s" "e < H * K" for i p e
    using unflat_flat_merge [OF that] by (simp add: xv_def xt_def swap_def)
  ultimately show ?thesis
    by (intro exI [of _ xv]) (simp add: xv_def)
qed


lemma wf_MultiHeadAttentionBlock_heads:
  assumes "wf_MultiHeadAttentionBlock blk d"
  shows "mha_h blk = int (nat (mha_h blk))" "mha_d_k blk = int (nat (mha_d_k blk))"
    "nat (mha_h blk) * nat (mha_d_k blk) = d"
proof -
  from assms have h: "0 < mha_h blk" and k: "0 \<le> mha_d_k blk"
    and hk: "mha_h blk * mha_d_k blk = int d"
    by (simp_all add: wf_MultiHeadAttentionBlock_def)
  show "mha_h blk = int (nat (mha_h blk))" "mha_d_k blk = int (nat (mha_d_k blk))"
    using h k by simp_all
  have "int (nat (mha_h blk) * nat (mha_d_k blk)) = int d"
    using h k hk by simp
  then show "nat (mha_h blk) * nat (mha_d_k blk) = d"
    by (simp only: of_nat_eq_iff)
qed

lemma heads_eq:
  assumes "wf_Linear l (H * K) (H * K)" "shape t = [b, s, H * K]"
    "mha_h blk = int H" "mha_d_k blk = int K"
  shows "\<exists>lt th. Linear_forward l t = Inr lt \<and> split_heads blk lt = Inr th
     \<and> shape th = [b, H, s, K]
     \<and> (\<forall>i a p c. i < b \<longrightarrow> a < H \<longrightarrow> p < s \<longrightarrow> c < K \<longrightarrow>
           elem th [i, a, p, c] = spec_linear l t i p (a * K + c))"
proof -
  from Linear_forward_3 [OF assms(1,2)]
  obtain lt where lt: "Linear_forward l t = Inr lt" "shape lt = [b, s, H * K]"
    "\<And>i p f. elem lt [i, p, f] = spec_linear l t i p f"
    by blast
  from split_heads_eq [OF lt(2) assms(3,4)]
  obtain th where th: "split_heads blk lt = Inr th" "shape th = [b, H, s, K]"
    "\<And>i a p c. i < b \<Longrightarrow> a < H \<Longrightarrow> p < s \<Longrightarrow> c < K \<Longrightarrow>
       elem th [i, a, p, c] = elem lt [i, p, a * K + c]"
    by blast
  show ?thesis
    using lt(1) th(1,2) by (intro exI [of _ lt] exI [of _ th]) (simp add: th(3) lt(3))
qed


lemma MultiHeadAttentionBlock_forward_core:
  assumes wf: "wf_MultiHeadAttentionBlock blk (H * K)"
    and hk: "mha_h blk = int H" "mha_d_k blk = int K"
    and sh: "shape q = [b, s, H * K]" "shape k = [b, s, H * K]" "shape v = [b, s, H * K]"
    and pos: "0 < b" "0 < H * K"
    and Qh: "Qh = projr (split_heads blk (projr (Linear_forward (mha_w_q blk) q)))"
    and Kh: "Kh = projr (split_heads blk (projr (Linear_forward (mha_w_k blk) k)))"
    and sc: "masked_scores Qh Kh msk = Inr sc" "shape sc = [b, H, s, s]"
    and w: "w = Dropout_forward (mha_dropout blk) g (softmax_lastdim sc)"
  shows "\<exists>y. MultiHeadAttentionBlock_forward blk g q k v msk
                = Inr (y, blk\<lparr>mha_attention_scores := Some w\<rparr>)
           \<and> shape y = [b, s, H * K]
           \<and> (\<forall>i p f. i < b \<longrightarrow> p < s \<longrightarrow>
                 elem y [i, p, f] =
                   (\<Sum>e<H * K. (\<Sum>u<s. elem w [i, e div K, p, u] * spec_linear (mha_w_v blk) v i u e)
                                * elem (lin_weight (mha_w_o blk)) [f, e])
                   + (case lin_bias (mha_w_o blk) of None \<Rightarrow> 0 | Some c \<Rightarrow> elem c [f]))"
proof -
  from wf have wfl: "wf_Linear (mha_w_q blk) (H * K) (H * K)" "wf_Linear (mha_w_k blk) (H * K) (H * K)"
    "wf_Linear (mha_w_v blk) (H * K) (H * K)" "wf_Linear (mha_w_o blk) (H * K) (H * K)"
    by (simp_all add: wf_MultiHeadAttentionBlock_def)
  from heads_eq [OF wfl(1) sh(1) hk]
  obtain query Qh' where q: "Linear_forward (mha_w_q blk) q = Inr query"
    "split_heads blk query = Inr Qh'"
    by blast
  from heads_eq [OF wfl(2) sh(2) hk]
  obtain key Kh' where k: "Linear_forward (mha_w_k blk) k = Inr key"
    "split_heads blk key = Inr Kh'"
    by blast
  from heads_eq [OF wfl(3) sh(3) hk]
  obtain val Vh where v: "Linear_forward (mha_w_v blk) v = Inr val"
    "split_heads blk val = Inr Vh" "shape Vh = [b, H, s, K]"
    and Vh: "\<And>i a p c. i < b \<Longrightarrow> a < H \<Longrightarrow> p < s \<Longrightarrow> c < K \<Longrightarrow>
           elem Vh [i, a, p, c] = spec_linear (mha_w_v blk) v i p (a * K + c)"
    by blast
  have QK: "Qh' = Qh" "Kh' = Kh"
    by (simp_all add: Qh Kh q k)
  have w': "w = (case Some (mha_dropout blk) of None \<Rightarrow> softmax_lastdim sc
                 | Some d \<Rightarrow> Dropout_forward d g (softmax_lastdim sc))"
    by (simp add: w)
  from attention_eq [OF sc v(3) w']
  obtain out where out: "attention Qh Kh Vh msk (Some (mha_dropout blk)) g = Inr (out, w)"
    "shape out = [b, H, s, K]"
    and outel: "\<And>i a p c. i < b \<Longrightarrow> a < H \<Longrightarrow>
       elem out [i, a, p, c] = (\<Sum>u<s. elem w [i, a, p, u] * elem Vh [i, a, u, c])"
    by blast
  from merge_heads_eq [OF out(2) pos hk, where f = "\<lambda>xv.
      and_then (Linear_forward (mha_w_o blk) xv) (\<lambda>y.
        Inr (y, blk\<lparr>mha_attention_scores := Some w\<rparr>))"]
  obtain xv where xv: "and_then (transpose_t out 1 2) (\<lambda>xt.
               and_then (shape_at out 0) (\<lambda>b.
               and_then (view (contiguous xt) [b, - 1, mha_h blk * mha_d_k blk]) (\<lambda>xv.
      and_then (Linear_forward (mha_w_o blk) xv) (\<lambda>y.
        Inr (y, blk\<lparr>mha_attention_scores := Some w\<rparr>)))))
      = and_then (Linear_forward (mha_w_o blk) xv) (\<lambda>y.
        Inr (y, blk\<lparr>mha_attention_scores := Some w\<rparr>))"
    "shape xv = [b, s, H * K]"
    and xvel: "\<And>i p e. i < b \<Longrightarrow> p < s \<Longrightarrow> e < H * K \<Longrightarrow>
                 elem xv [i, p, e] = elem out [i, e div K, p, e mod K]"
    by blast
  from Linear_forward_3 [OF wfl(4) xv(2)]
  obtain y where y: "Linear_forward (mha_w_o blk) xv = Inr y" "shape y = [b, s, H * K]"
    and yel: "\<And>i p f. elem y [i, p, f] = spec_linear (mha_w_o blk) xv i p f"
    by blast
  have run: "MultiHeadAttentionBlock_forward blk g q k v msk
                = Inr (y, blk\<lparr>mha_attention_scores := Some w\<rparr>)"
    unfolding MultiHeadAttentionBlock_forward_def
    by (simp only: q k v(1,2) QK and_then_Inr out(1) prod.case xv(1) y(1))
  have el: "elem y [i, p, f] =
      (\<Sum>e<H * K. (\<Sum>u<s. elem w [i, e div K, p, u] * spec_linear (mha_w_v blk) v i u e)
                   * elem (lin_weight (mha_w_o blk)) [f, e])
      + (case lin_bias (mha_w_o blk) of None \<Rightarrow> 0 | Some c \<Rightarrow> elem c [f])"
    if "i < b" "p < s" for i p f
  proof -
    have K: "0 < K"
      using pos(2) by (cases K) simp_all
    have "elem xv [i, p, e] = (\<Sum>u<s. elem w [i, e div K, p, u] * spec_linear (mha_w_v blk) v i u e)"
      if "e < H * K" for e
    proof -
      have a: "e div K < H"
        using that K by (simp add: less_mult_imp_div_less)
      have c: "e mod K < K"
        using K by simp
      have "elem xv [i, p, e] = (\<Sum>u<s. elem w [i, e div K, p, u] * elem Vh [i, e div K, u, e mod K])"
        using \<open>i < b\<close> \<open>p < s\<close> that a by (simp add: xvel outel)
      also have "\<dots> = (\<Sum>u<s. elem w [i, e div K, p, u] * spec_linear (mha_w_v blk) v i u e)"
        using \<open>i < b\<close> a c by (intro sum.cong) (simp_all add: Vh)
      finally show ?thesis .
    qed
    then have "(\<Sum>e<H * K. elem xv [i, p, e] * elem (lin_weight (mha_w_o blk)) [f, e])
        = (\<Sum>e<H * K. (\<Sum>u<s. elem w [i, e div K, p, u] * spec_linear (mha_w_v blk) v i u e)
                   * elem (lin_weight (mha_w_o blk)) [f, e])"
      by (intro sum.cong) simp_all
    moreover have "lin_in (mha_w_o blk) = H * K"
      using wfl(4) by (simp add: wf_Linear_def)
    ultimately show ?thesis
      by (simp add: yel spec_linear_def)
  qed
  from run y(2) el show ?thesis
    by (intro exI [of _ y]) simp
qed


lemma elem_Dropout_forward:
  "elem (Dropout_forward d g x) idx = spec_dropout d g idx (elem x idx)"
  by (simp add: Dropout_forward_def spec_dropout_def)

lemma MultiHeadAttentionBlock_forward_None:
  assumes wf: "wf_MultiHeadAttentionBlock blk d"
    and sh: "shape q = [b, s, d]" "shape k = [b, s, d]" "shape v = [b, s, d]"
    and pos: "0 < b" "0 < d"
  shows "\<exists>y w. MultiHeadAttentionBlock_forward blk g q k v None
                  = Inr (y, blk\<lparr>mha_attention_scores := Some w\<rparr>)
           \<and> shape y = [b, s, d]
           \<and> (\<forall>i p f. i < b \<longrightarrow> p < s \<longrightarrow>
                 elem y [i, p, f] = spec_multi_head_attention blk g q k v s i p f)
           \<and> shape w = [b, nat (mha_h blk), s, s]
           \<and> (\<forall>i a p u. i < b \<longrightarrow> a < nat (mha_h blk) \<longrightarrow> p < s \<longrightarrow> u < s \<longrightarrow>
                 elem w [i, a, p, u]
                   = spec_dropout (mha_dropout blk) g [i, a, p, u]
                       (spec_softmax (spec_score blk q k i a p) s u))"
proof -
  define H where "H = nat (mha_h blk)"
  define K where "K = nat (mha_d_k blk)"
  from wf_MultiHeadAttentionBlock_heads [OF wf]
  have hk: "mha_h blk = int H" "mha_d_k blk = int K" and d: "d = H * K"
    by (simp_all add: H_def K_def)
  note wf' = wf [unfolded d] and sh' = sh [unfolded d] and pos' = pos [unfolded d]
  from wf' have wfl: "wf_Linear (mha_w_q blk) (H * K) (H * K)" "wf_Linear (mha_w_k blk) (H * K) (H * K)"
    "wf_Linear (mha_w_o blk) (H * K) (H * K)"
    by (simp_all add: wf_MultiHeadAttentionBlock_def)
  from heads_eq [OF wfl(1) sh'(1) hk]
  obtain query Qh where q: "Linear_forward (mha_w_q blk) q = Inr query"
    "split_heads blk query = Inr Qh" "shape Qh = [b, H, s, K]"
    and Qel: "\<And>i a p c. i < b \<Longrightarrow> a < H \<Longrightarrow> p < s \<Longrightarrow> c < K \<Longrightarrow>
           elem Qh [i, a, p, c] = spec_linear (mha_w_q blk) q i p (a * K + c)"
    by blast
  from heads_eq [OF wfl(2) sh'(2) hk]
  obtain key Kh where k: "Linear_forward (mha_w_k blk) k = Inr key"
    "split_heads blk key = Inr Kh" "shape Kh = [b, H, s, K]"
    and Kel: "\<And>i a p c. i < b \<Longrightarrow> a < H \<Longrightarrow> p < s \<Longrightarrow> c < K \<Longrightarrow>
           elem Kh [i, a, p, c] = spec_linear (mha_w_k blk) k i p (a * K + c)"
    by blast
  from masked_scores_None [OF q(3) k(3)]
  obtain sc where sc: "masked_scores Qh Kh None = Inr sc" "shape sc = [b, H, s, s]"
    and scel: "\<And>i a p u. i < b \<Longrightarrow> a < H \<Longrightarrow>
       elem sc [i, a, p, u] = (\<Sum>l<K. elem Qh [i, a, p, l] * elem Kh [i, a, u, l]) / sqrt (real K)"
    by blast
  define w where "w = Dropout_forward (mha_dropout blk) g (softmax_lastdim sc)"
  have Qh: "Qh = projr (split_heads blk (projr (Linear_forward (mha_w_q blk) q)))"
    and Kh: "Kh = projr (split_heads blk (projr (Linear_forward (mha_w_k blk) k)))"
    by (simp_all add: q k)
  from MultiHeadAttentionBlock_forward_core [OF wf' hk sh' pos' Qh Kh sc w_def]
  obtain y where y: "MultiHeadAttentionBlock_forward blk g q k v None
                = Inr (y, blk\<lparr>mha_attention_scores := Some w\<rparr>)"
    "shape y = [b, s, H * K]"
    and yel: "\<And>i p f. i < b \<Longrightarrow> p < s \<Longrightarrow>
                 elem y [i, p, f] =
                   (\<Sum>e<H * K. (\<Sum>u<s. elem w [i, e div K, p, u] * spec_linear (mha_w_v blk) v i u e)
                                * elem (lin_weight (mha_w_o blk)) [f, e])
                   + (case lin_bias (mha_w_o blk) of None \<Rightarrow> 0 | Some c \<Rightarrow> elem c [f])"
    by blast
  have K: "0 < K"
    using pos'(2) by (cases K) simp_all
  have score: "elem sc [i, a, p, u] = spec_score blk q k i a p u"
    if "i < b" "a < H" "p < s" "u < s" for i a p u
  proof -
    have "(\<Sum>l<K. elem Qh [i, a, p, l] * elem Kh [i, a, u, l])
        = (\<Sum>c<K. spec_linear (mha_w_q blk) q i p (a * K + c)
                  * spec_linear (mha_w_k blk) k i u (a * K + c))"
      using that by (intro sum.cong) (simp_all add: Qel Kel)
    then show ?thesis
      using that by (simp add: scel spec_score_def hk)
  qed
  have weight: "elem w [i, a, p, u]
      = spec_dropout (mha_dropout blk) g [i, a, p, u] (spec_softmax (spec_score blk q k i a p) s u)"
    if "i < b" "a < H" "p < s" "u < s" for i a p u
  proof -
    have "(\<Sum>j<s. exp (elem sc [i, a, p, j])) = (\<Sum>j<s. exp (spec_score blk q k i a p j))"
      using that by (intro sum.cong) (simp_all add: score)
    then show ?thesis
      using that by (simp add: w_def elem_Dropout_forward elem_softmax_4 [OF sc(2)] score spec_softmax_def)
  qed
  have el: "elem y [i, p, f] = spec_multi_head_attention blk g q k v s i p f"
    if "i < b" "p < s" for i p f
  proof -
    have "(\<Sum>u<s. elem w [i, e div K, p, u] * spec_linear (mha_w_v blk) v i u e)
        = spec_head blk g q k v s i (e div K) p (e mod K)" if "e < H * K" for e
    proof -
      have a: "e div K < H"
        using that K by (simp add: less_mult_imp_div_less)
      show ?thesis
        unfolding spec_head_def
        using \<open>i < b\<close> \<open>p < s\<close> a by (intro sum.cong) (simp_all add: weight hk)
    qed
    then have "(\<Sum>e<H * K. (\<Sum>u<s. elem w [i, e div K, p, u] * spec_linear (mha_w_v blk) v i u e)
                                * elem (lin_weight (mha_w_o blk)) [f, e])
        = (\<Sum>e<H * K. spec_head blk g q k v s i (e div K) p (e mod K)
                                * elem (lin_weight (mha_w_o blk)) [f, e])"
      by (intro sum.cong) simp_all
    moreover have "lin_in (mha_w_o blk) = H * K"
      using wfl(3) by (simp add: wf_Linear_def)
    ultimately show ?thesis
      using that by (simp add: yel spec_multi_head_attention_def hk)
  qed
  have shw: "shape w = [b, H, s, s]"
    by (simp add: w_def sc(2) softmax_lastdim_def)
  from y el shw weight show ?thesis
    unfolding d H_def [symmetric]
    by (intro exI [of _ y] exI [of _ w]) simp
qed

lemma MultiHeadAttentionBlock_forward_Some:
  assumes wf: "wf_MultiHeadAttentionBlock blk d"
    and sh: "shape q = [b, s, d]" "shape k = [b, s, d]" "shape v = [b, s, d]"
    and pos: "0 < b" "0 < d"
    and m: "shape m = [b, s]"
  shows "\<exists>y blk'. MultiHeadAttentionBlock_forward blk g q k v (Some m) = Inr (y, blk')
           \<and> shape y = [b, s, d]
           \<and> wf_MultiHeadAttentionBlock blk' d"
proof -
  define H where "H = nat (mha_h blk)"
  define K where "K = nat (mha_d_k blk)"
  from wf_MultiHeadAttentionBlock_heads [OF wf]
  have hk: "mha_h blk = int H" "mha_d_k blk = int K" and d: "d = H * K"
    by (simp_all add: H_def K_def)
  note wf' = wf [unfolded d] and sh' = sh [unfolded d] and pos' = pos [unfolded d]
  from wf' have wfl: "wf_Linear (mha_w_q blk) (H * K) (H * K)" "wf_Linear (mha_w_k blk) (H * K) (H * K)"
    by (simp_all add: wf_MultiHeadAttentionBlock_def)
  from heads_eq [OF wfl(1) sh'(1) hk]
  obtain query Qh where q: "Linear_forward (mha_w_q blk) q = Inr query"
    "split_heads blk query = Inr Qh" "shape Qh = [b, H, s, K]"
    by blast
  from heads_eq [OF wfl(2) sh'(2) hk]
  obtain key Kh where k: "Linear_forward (mha_w_k blk) k = Inr key"
    "split_heads blk key = Inr Kh" "shape Kh = [b, H, s, K]"
    by blast
  from masked_scores_Some [OF q(3) k(3) m]
  obtain sc where sc: "masked_scores Qh Kh (Some m) = Inr sc" "shape sc = [b, H, s, s]"
    by blast
  define w where "w = Dropout_forward (mha_dropout blk) g (softmax_lastdim sc)"
  have Qh: "Qh = projr (split_heads blk (projr (Linear_forward (mha_w_q blk) q)))"
    and Kh: "Kh = projr (split_heads blk (projr (Linear_forward (mha_w_k blk) k)))"
    by (simp_all add: q k)
  from MultiHeadAttentionBlock_forward_core [OF wf' hk sh' pos' Qh Kh sc w_def]
  obtain y where y: "MultiHeadAttentionBlock_forward blk g q k v (Some m)
                = Inr (y, blk\<lparr>mha_attention_scores := Some w\<rparr>)"
    "shape y = [b, s, H * K]"
    by blast
  have "wf_MultiHeadAttentionBlock (blk\<lparr>mha_attention_scores := Some w\<rparr>) d"
    using wf by (simp add: wf_MultiHeadAttentionBlock_def)
  with y show ?thesis
    unfolding d
    by (intro exI [of _ y] exI [of _ "blk\<lparr>mha_attention_scores := Some w\<rparr>"]) simp
qed


lemma view_empty_batch:
  fixes xt :: "'a tensor"
  shows "view xt [0, - 1, int D] = Inl RuntimeError"
  by (simp add: view_def infer_view_def)

lemma MultiHeadAttentionBlock_forward_empty_batch:
  assumes wf: "wf_MultiHeadAttentionBlock blk d"
    and sh: "shape q = [0, s, d]" "shape k = [0, s, d]" "shape v = [0, s, d]"
  shows "MultiHeadAttentionBlock_forward blk g q k v None = Inl RuntimeError"
proof -
  define H where "H = nat (mha_h blk)"
  define K where "K = nat (mha_d_k blk)"
  from wf_MultiHeadAttentionBlock_heads [OF wf]
  have hk: "mha_h blk = int H" "mha_d_k blk = int K" and d: "d = H * K"
    by (simp_all add: H_def K_def)
  note wf' = wf [unfolded d] and sh' = sh [unfolded d]
  from wf' have wfl: "wf_Linear (mha_w_q blk) (H * K) (H * K)" "wf_Linear (mha_w_k blk) (H * K) (H * K)"
    "wf_Linear (mha_w_v blk) (H * K) (H * K)"
    by (simp_all add: wf_MultiHeadAttentionBlock_def)
  from heads_eq [OF wfl(1) sh'(1) hk]
  obtain query Qh where q: "Linear_forward (mha_w_q blk) q = Inr query"
    "split_heads blk query = Inr Qh" "shape Qh = [0, H, s, K]"
    by blast
  from heads_eq [OF wfl(2) sh'(2) hk]
  obtain key Kh where k: "Linear_forward (mha_w_k blk) k = Inr key"
    "split_heads blk key = Inr Kh" "shape Kh = [0, H, s, K]"
    by blast
  from heads_eq [OF wfl(3) sh'(3) hk]
  obtain val Vh where v: "Linear_forward (mha_w_v blk) v = Inr val"
    "split_heads blk val = Inr Vh" "shape Vh = [0, H, s, K]"
    by blast
  from masked_scores_None [OF q(3) k(3)]
  obtain sc where sc: "masked_scores Qh Kh None = Inr sc" "shape sc = [0, H, s, s]"
    by blast
  define w where "w = Dropout_forward (mha_dropout blk) g (softmax_lastdim sc)"
  have w': "w = (case Some (mha_dropout blk) of None \<Rightarrow> softmax_lastdim sc
                 | Some d \<Rightarrow> Dropout_forward d g (softmax_lastdim sc))"
    by (simp add: w_def)
  from attention_eq [OF sc v(3) w']
  obtain out where out: "attention Qh Kh Vh None (Some (mha_dropout blk)) g = Inr (out, w)"
    "shape out = [0, H, s, K]"
    by blast
  have hk': "mha_h blk * mha_d_k blk = int (H * K)"
    by (simp add: hk)
  show ?thesis
    unfolding MultiHeadAttentionBlock_forward_def
    by (simp only: q k v(1,2) and_then_Inr out(1) prod.case transpose_12_4 [OF out(2)]
        shape_at_4 [OF out(2)] hk' of_nat_0 view_empty_batch and_then_Inl)
qed


text \<open>
  C10 (as amended).  A block constructed with a positive \<open>d_model\<close> and a positive
  number of heads that divides it has parameters of the shapes the forward pass
  relies on.  For such a block, a non-empty batch and query, key and value of shape
  (batch, seq_len, d_model), the forward pass without a mask returns a tensor of that
  shape whose elements are the multi-head combination of
  \<open>softmax ((Q K\<^sup>T) / sqrt d_k) V\<close>, with dropout on the weights and no masking, and it
  stores these weights as \<open>attention_scores\<close>.  On an empty batch the forward pass
  raises a RuntimeError.
\<close>

theorem MultiHeadAttentionBlock_forward_without_mask:
  "(0 < d_model \<and> 0 < h \<and> h dvd d_model \<and> 0 \<le> dropout \<and> dropout \<le> 1 \<longrightarrow>
      (\<exists>blk0. MultiHeadAttentionBlock_init g0 d_model h dropout = Inr blk0
          \<and> wf_MultiHeadAttentionBlock blk0 (nat d_model)))
   \<and> (wf_MultiHeadAttentionBlock blk d \<and> shape q = [b, s, d] \<and> shape k = [b, s, d]
        \<and> shape v = [b, s, d] \<and> 0 < b \<and> 0 < d \<longrightarrow>
        (\<exists>y w. MultiHeadAttentionBlock_forward blk g q k v None
                  = Inr (y, blk\<lparr>mha_attention_scores := Some w\<rparr>)
           \<and> shape y = [b, s, d]
           \<and> (\<forall>i p f. i < b \<longrightarrow> p < s \<longrightarrow>
                 elem y [i, p, f] = spec_multi_head_attention blk g q k v s i p f)
           \<and> shape w = [b, nat (mha_h blk), s, s]
           \<and> (\<forall>i a p u. i < b \<longrightarrow> a < nat (mha_h blk) \<longrightarrow> p < s \<longrightarrow> u < s \<longrightarrow>
                 elem w [i, a, p, u]
                   = spec_dropout (mha_dropout blk) g [i, a, p, u]
                       (spec_softmax (spec_score blk q k i a p) s u))))
   \<and> (wf_MultiHeadAttentionBlock blk d \<and> shape q = [0, s, d] \<and> shape k = [0, s, d]
        \<and> shape v = [0, s, d] \<longrightarrow>
        MultiHeadAttentionBlock_forward blk g q k v None = Inl RuntimeError)"
proof (intro conjI impI)
  assume "wf_MultiHeadAttentionBlock blk d \<and> shape q = [0, s, d] \<and> shape k = [0, s, d]
        \<and> shape v = [0, s, d]"
  then show "MultiHeadAttentionBlock_forward blk g q k v None = Inl RuntimeError"
    by (intro MultiHeadAttentionBlock_forward_empty_batch [of blk d q s k v]) simp_all
next
  assume "0 < d_model \<and> 0 < h \<and> h dvd d_model \<and> 0 \<le> dropout \<and> dropout \<le> 1"
  then show "\<exists>blk0. MultiHeadAttentionBlock_init g0 d_model h dropout = Inr blk0
          \<and> wf_MultiHeadAttentionBlock blk0 (nat d_model)"
    by (intro MultiHeadAttentionBlock_init_wf) simp_all
next
  assume "wf_MultiHeadAttentionBlock blk d \<and> shape q = [b, s, d] \<and> shape k = [b, s, d]
        \<and> shape v = [b, s, d] \<and> 0 < b \<and> 0 < d"
  then show "\<exists>y w. MultiHeadAttentionBlock_forward blk g q k v None
                  = Inr (y, blk\<lparr>mha_attention_scores := Some w\<rparr>)
           \<and> shape y = [b, s, d]
           \<and> (\<forall>i p f. i < b \<longrightarrow> p < s \<longrightarrow>
                 elem y [i, p, f] = spec_multi_head_attention blk g q k v s i p f)
           \<and> shape w = [b, nat (mha_h blk), s, s]
           \<and> (\<forall>i a p u. i < b \<longrightarrow> a < nat (mha_h blk) \<longrightarrow> p < s \<longrightarrow> u < s \<longrightarrow>
                 elem w [i, a, p, u]
                   = spec_dropout (mha_dropout blk) g [i, a, p, u]
                       (spec_softmax (spec_score blk q k i a p) s u))"
    by (intro MultiHeadAttentionBlock_forward_None) simp_all
qed

theorem MultiHeadAttentionBlock_forward_without_mask_witness:
  "\<exists>blk0 y w. MultiHeadAttentionBlock_init (\<lambda>path idx. 1) 2 2 0 = Inr blk0
      \<and> MultiHeadAttentionBlock_forward blk0 (\<lambda>path idx. 1)
            (Tensor [1, 2, 2] (\<lambda>idx. 1)) (Tensor [1, 2, 2] (\<lambda>idx. 1)) (Tensor [1, 2, 2] (\<lambda>idx. 1)) None
          = Inr (y, blk0\<lparr>mha_attention_scores := Some w\<rparr>)
      \<and> shape y = [1, 2, 2]
      \<and> elem y [0, 1, 0] = 4
      \<and> shape w = [1, 2, 2, 2]
      \<and> elem w [0, 1, 1, 0] = 1 / 2
      \<and> MultiHeadAttentionBlock_forward blk0 (\<lambda>path idx. 1)
            (Tensor [0, 2, 2] (\<lambda>idx. 1)) (Tensor [0, 2, 2] (\<lambda>idx. 1)) (Tensor [0, 2, 2] (\<lambda>idx. 1)) None
          = Inl RuntimeError"
proof -
  define g :: rng where "g = (\<lambda>path idx. 1)"
  define x :: "real tensor" where "x = Tensor [1, 2, 2] (\<lambda>idx. 1)"
  define x0 :: "real tensor" where "x0 = Tensor [0, 2, 2] (\<lambda>idx. 1)"
  define lin where "lin = \<lparr>lin_in = 2, lin_out = 2,
      lin_weight = Tensor [2, 2] (\<lambda>idx. 1 :: real), lin_bias = None\<rparr>"
  define blk0 where "blk0 = \<lparr>mha_d_model = 2, mha_h = 2, mha_d_k = 1,
      mha_w_q = lin, mha_w_k = lin, mha_w_v = lin, mha_w_o = lin,
      mha_dropout = \<lparr>drop_p = 0, drop_training = True\<rparr>, mha_attention_scores = None\<rparr>"
  have init: "MultiHeadAttentionBlock_init g 2 2 0 = Inr blk0"
    by (simp add: MultiHeadAttentionBlock_init_ok blk0_def lin_def g_def draw_def child_def)
  have hyp1: "(0::int) < 2 \<and> (0::int) < 2 \<and> (2::int) dvd 2 \<and> (0::real) \<le> 0 \<and> (0::real) \<le> 1"
    by simp
  from MultiHeadAttentionBlock_forward_without_mask [of 2 2 0 g blk0 2 x 1 2 x x g,
      THEN conjunct1, THEN mp, OF hyp1] init
  have wf: "wf_MultiHeadAttentionBlock blk0 2"
    by auto
  have hyp2: "wf_MultiHeadAttentionBlock blk0 2 \<and> shape x = [1, 2, 2] \<and> shape x = [1, 2, 2]
        \<and> shape x = [1, 2, 2] \<and> 0 < (1::nat) \<and> 0 < (2::nat)"
    using wf by (simp add: x_def)
  from MultiHeadAttentionBlock_forward_without_mask [of 2 2 0 g blk0 2 x 1 2 x x g,
      THEN conjunct2, THEN conjunct1, THEN mp, OF hyp2]
  obtain y w where run: "MultiHeadAttentionBlock_forward blk0 g x x x None
                  = Inr (y, blk0\<lparr>mha_attention_scores := Some w\<rparr>)"
    and shy: "shape y = [1, 2, 2]"
    and yel: "\<forall>i p f. i < 1 \<longrightarrow> p < 2 \<longrightarrow>
                 elem y [i, p, f] = spec_multi_head_attention blk0 g x x x 2 i p f"
    and shw: "shape w = [1, nat (mha_h blk0), 2, 2]"
    and wel: "\<forall>i a p u. i < 1 \<longrightarrow> a < nat (mha_h blk0) \<longrightarrow> p < 2 \<longrightarrow> u < 2 \<longrightarrow>
                 elem w [i, a, p, u]
                   = spec_dropout (mha_dropout blk0) g [i, a, p, u]
                       (spec_softmax (spec_score blk0 x x i a p) 2 u)"
    apply (elim exE conjE)
    apply (rule that)
        apply assumption+
    done
  have sums: "(\<Sum>j<2. f j) = f 0 + f 1" for f :: "nat \<Rightarrow> real"
    by (simp add: eval_nat_numeral)
  have lin: "spec_linear lin x i p f = 2" for i p f
    by (simp add: spec_linear_def lin_def x_def sums)
  have score: "spec_score blk0 x x i a p u = 4" for i a p u
    by (simp add: spec_score_def blk0_def lin)
  have soft: "spec_softmax (spec_score blk0 x x i a p) 2 u = 1 / 2" for i a p u
    by (simp add: spec_softmax_def score sums)
  have drop: "spec_dropout (mha_dropout blk0) g idx c = c" for idx c
    by (simp add: spec_dropout_def blk0_def g_def draw_def)
  have head: "spec_head blk0 g x x x 2 i a p c = 2" for i a p c
    by (simp add: spec_head_def soft drop sums) (simp add: blk0_def lin)
  have out: "spec_multi_head_attention blk0 g x x x 2 i p f = 4" for i p f
    by (simp add: spec_multi_head_attention_def head) (simp add: blk0_def lin_def sums)
  have e1: "elem y [0, 1, 0] = 4"
    using yel [rule_format, of 0 1 0] by (simp add: out)
  have e2: "elem w [0, 1, 1, 0] = 1 / 2"
    using wel [rule_format, of 0 1 1 0] by (simp add: soft drop) (simp add: blk0_def)
  have shw': "shape w = [1, 2, 2, 2]"
    using shw by (simp add: blk0_def)
  have hyp3: "wf_MultiHeadAttentionBlock blk0 2 \<and> shape x0 = [0, 2, 2] \<and> shape x0 = [0, 2, 2]
        \<and> shape x0 = [0, 2, 2]"
    using wf by (simp add: x0_def)
  from MultiHeadAttentionBlock_forward_without_mask [of 2 2 0 g blk0 2 x0 1 2 x0 x0 g,
      THEN conjunct2, THEN conjunct2, THEN mp, OF hyp3]
  have empty: "MultiHeadAttentionBlock_forward blk0 g x0 x0 x0 None = Inl RuntimeError" .
  have "\<exists>blk0 y w. MultiHeadAttentionBlock_init g 2 2 0 = Inr blk0
      \<and> MultiHeadAttentionBlock_forward blk0 g x x x None
          = Inr (y, blk0\<lparr>mha_attention_scores := Some w\<rparr>)
      \<and> shape y = [1, 2, 2]
      \<and> elem y [0, 1, 0] = 4
      \<and> shape w = [1, 2, 2, 2]
      \<and> elem w [0, 1, 1, 0] = 1 / 2
      \<and> MultiHeadAttentionBlock_forward blk0 g x0 x0 x0 None = Inl RuntimeError"
    by (intro exI [of _ blk0] exI [of _ y] exI [of _ w] conjI) (fact init run shy e1 shw' e2 empty)+
  then show ?thesis
    unfolding g_def x_def x0_def .
qed

text \<open>
  The claim as stated fails on an empty batch: \<open>view(x.shape[0], -1, h * d_k)\<close> cannot
  infer the size of the middle axis of a tensor without elements.
\<close>

theorem MultiHeadAttentionBlock_forward_without_mask_counterexample:
  "\<not> isl (MultiHeadAttentionBlock_init (\<lambda>path idx. 1) 64 4 (1 / 10))
   \<and> shape (Tensor [0, 3, 64] (\<lambda>idx. 1) :: real tensor) = [0, 3, 64]
   \<and> MultiHeadAttentionBlock_forward (projr (MultiHeadAttentionBlock_init (\<lambda>path idx. 1) 64 4 (1 / 10)))
        (\<lambda>path idx. 1) (Tensor [0, 3, 64] (\<lambda>idx. 1)) (Tensor [0, 3, 64] (\<lambda>idx. 1))
        (Tensor [0, 3, 64] (\<lambda>idx. 1)) None
      = Inl RuntimeError"
proof -
  from MultiHeadAttentionBlock_init_wf [of 4 64 "1 / 10" "\<lambda>path idx. 1"]
  obtain blk0 where blk0: "MultiHeadAttentionBlock_init (\<lambda>path idx. 1) 64 4 (1 / 10) = Inr blk0"
    "wf_MultiHeadAttentionBlock blk0 64"
    by auto
  have "MultiHeadAttentionBlock_forward blk0 (\<lambda>path idx. 1) (Tensor [0, 3, 64] (\<lambda>idx. 1))
          (Tensor [0, 3, 64] (\<lambda>idx. 1)) (Tensor [0, 3, 64] (\<lambda>idx. 1)) None = Inl RuntimeError"
    by (rule MultiHeadAttentionBlock_forward_empty_batch [OF blk0(2)]) simp_all
  then show ?thesis
    by (simp add: blk0(1))
qed

section \<open>The forward pass of the encoder\<close>

lemma LayerNormalization_forward_shape:
  assumes "wf_LayerNormalization layer d" "shape x = [b, s, d]"
  shows "\<exists>y. LayerNormalization_forward layer x = Inr y \<and> shape y = [b, s, d]"
  using LayerNormalization_forward_elem [of x "[b, s]" d layer] assms by auto

lemma shape_torch_relu [simp]: "shape (torch_relu x) = shape x"
  by (simp add: torch_relu_def)

lemma FeedForwardBlock_forward_shape:
  assumes "wf_FeedForwardBlock ff d" "shape x = [b, s, d]"
  shows "\<exists>y. FeedForwardBlock_forward ff g x = Inr y \<and> shape y = [b, s, d]"
proof -
  from assms(1) have wf: "wf_Linear (ff_linear_1 ff) d (lin_out (ff_linear_1 ff))"
    "wf_Linear (ff_linear_2 ff) (lin_out (ff_linear_1 ff)) d"
    by (simp_all add: wf_FeedForwardBlock_def)
  from Linear_forward_3 [OF wf(1) assms(2)]
  obtain a where a: "Linear_forward (ff_linear_1 ff) x = Inr a"
    "shape a = [b, s, lin_out (ff_linear_1 ff)]"
    by blast
  have "shape (Dropout_forward (ff_dropout ff) g (torch_relu a)) = [b, s, lin_out (ff_linear_1 ff)]"
    by (simp add: a(2))
  from Linear_forward_3 [OF wf(2) this]
  obtain y where "Linear_forward (ff_linear_2 ff) (Dropout_forward (ff_dropout ff) g (torch_relu a)) = Inr y"
    "shape y = [b, s, d]"
    by blast
  then show ?thesis
    by (simp add: FeedForwardBlock_forward_def a(1))
qed

lemma ResidualConnection_forward_shape:
  assumes "wf_ResidualConnection rc d" "shape x = [b, s, d]"
    and sub: "\<And>nx. shape nx = [b, s, d] \<Longrightarrow>
                \<exists>y st. sublayer nx = Inr (y, st) \<and> shape y = [b, s, d] \<and> P st"
  shows "\<exists>r st. ResidualConnection_forward rc g x sublayer = Inr (r, st)
           \<and> shape r = [b, s, d] \<and> P st"
proof -
  from assms(1) have "wf_LayerNormalization (rc_norm rc) d"
    by (simp add: wf_ResidualConnection_def)
  from LayerNormalization_forward_shape [OF this assms(2)]
  obtain nx where nx: "LayerNormalization_forward (rc_norm rc) x = Inr nx" "shape nx = [b, s, d]"
    by blast
  from sub [OF nx(2)]
  obtain y st where y: "sublayer nx = Inr (y, st)" "shape y = [b, s, d]" "P st"
    by blast
  define r where "r = Tensor [b, s, d]
     (\<lambda>idx. elem x (bidx (shape x) idx)
            + elem (Dropout_forward (rc_dropout rc) g y) (bidx (shape (Dropout_forward (rc_dropout rc) g y)) idx))"
  have "t_add x (Dropout_forward (rc_dropout rc) g y) = Inr r"
    unfolding t_add_def r_def by (rule broadcast_op_eq) (simp add: assms(2) y(2))
  then have "ResidualConnection_forward rc g x sublayer = Inr (r, st)"
    by (simp add: ResidualConnection_forward_def nx(1) y(1))
  moreover have "shape r = [b, s, d]"
    by (simp add: r_def)
  ultimately show ?thesis
    using y(3) by blast
qed

lemma MultiHeadAttentionBlock_forward_shape:
  assumes wf: "wf_MultiHeadAttentionBlock blk d"
    and sh: "shape q = [b, s, d]" "shape k = [b, s, d]" "shape v = [b, s, d]"
    and pos: "0 < b" "0 < d"
    and m: "case msk of None \<Rightarrow> True | Some m \<Rightarrow> shape m = [b, s]"
  shows "\<exists>y blk'. MultiHeadAttentionBlock_forward blk g q k v msk = Inr (y, blk')
           \<and> shape y = [b, s, d]
           \<and> wf_MultiHeadAttentionBlock blk' d"
proof (cases msk)
  case None
  from MultiHeadAttentionBlock_forward_None [OF wf sh pos, of g]
  obtain y w where y: "MultiHeadAttentionBlock_forward blk g q k v None
                  = Inr (y, blk\<lparr>mha_attention_scores := Some w\<rparr>)" "shape y = [b, s, d]"
    by blast
  have "wf_MultiHeadAttentionBlock (blk\<lparr>mha_attention_scores := Some w\<rparr>) d"
    using wf by (simp add: wf_MultiHeadAttentionBlock_def)
  with y None show ?thesis
    by blast
next
  case (Some m')
  with m have "shape m' = [b, s]"
    by simp
  from MultiHeadAttentionBlock_forward_Some [OF wf sh pos this, of g] Some show ?thesis
    by simp
qed

lemma py_getitem_2:
  "py_getitem [r0, r1] 0 = Inr r0" "py_getitem [r0, r1] 1 = Inr r1"
  by (simp_all add: py_getitem_def)

lemma EncoderBlock_forward_shape:
  assumes wf: "wf_EncoderBlock blk d" and sh: "shape x = [b, s, d]"
    and pos: "0 < b" "0 < d"
    and m: "case msk of None \<Rightarrow> True | Some m \<Rightarrow> shape m = [b, s]"
  shows "\<exists>y blk'. EncoderBlock_forward blk g x msk = Inr (y, blk')
           \<and> shape y = [b, s, d] \<and> wf_EncoderBlock blk' d"
proof -
  from wf obtain r0 r1 where rcs: "eb_residual_connections blk = [r0, r1]"
    and wfr: "wf_ResidualConnection r0 d" "wf_ResidualConnection r1 d"
    and wfa: "wf_MultiHeadAttentionBlock (eb_self_attention_block blk) d"
    and wff: "wf_FeedForwardBlock (eb_feed_forward_block blk) d"
    by (auto simp: wf_EncoderBlock_def length_Suc_conv eval_nat_numeral)
  have "\<exists>y st. MultiHeadAttentionBlock_forward (eb_self_attention_block blk) (child g 1) nx nx nx msk
           = Inr (y, st) \<and> shape y = [b, s, d] \<and> wf_MultiHeadAttentionBlock st d"
    if "shape nx = [b, s, d]" for nx
    by (rule MultiHeadAttentionBlock_forward_shape [OF wfa that that that pos m])
  from ResidualConnection_forward_shape [where P = "\<lambda>st. wf_MultiHeadAttentionBlock st d"
      and sublayer = "\<lambda>nx. MultiHeadAttentionBlock_forward (eb_self_attention_block blk) (child g 1)
                         nx nx nx msk" and g = "child g 0", OF wfr(1) sh this]
  obtain x1 att where x1: "ResidualConnection_forward r0 (child g 0) x
                 (\<lambda>nx. MultiHeadAttentionBlock_forward (eb_self_attention_block blk) (child g 1)
                         nx nx nx msk) = Inr (x1, att)"
    "shape x1 = [b, s, d]" "wf_MultiHeadAttentionBlock att d"
    by blast
  have "\<exists>y st. and_then (FeedForwardBlock_forward (eb_feed_forward_block blk) (child g 3) nx)
                         (\<lambda>y. Inr (y, ())) = Inr (y, st) \<and> shape y = [b, s, d] \<and> True"
    if "shape nx = [b, s, d]" for nx
    using FeedForwardBlock_forward_shape [OF wff that, of "child g 3"] by auto
  from ResidualConnection_forward_shape [where P = "\<lambda>st. True"
      and sublayer = "\<lambda>nx. and_then (FeedForwardBlock_forward (eb_feed_forward_block blk) (child g 3) nx)
                         (\<lambda>y. Inr (y, ()))" and g = "child g 2", OF wfr(2) x1(2) this]
  obtain x2 u where x2: "ResidualConnection_forward r1 (child g 2) x1
                 (\<lambda>nx. and_then (FeedForwardBlock_forward (eb_feed_forward_block blk) (child g 3) nx)
                         (\<lambda>y. Inr (y, ()))) = Inr (x2, u)"
    "shape x2 = [b, s, d]"
    by blast
  have "EncoderBlock_forward blk g x msk = Inr (x2, blk\<lparr>eb_self_attention_block := att\<rparr>)"
    unfolding EncoderBlock_forward_def rcs
    by (simp only: py_getitem_2 and_then_Inr x1(1) x2(1) prod.case)
  moreover have "wf_EncoderBlock (blk\<lparr>eb_self_attention_block := att\<rparr>) d"
    using wf x1(3) by (simp add: wf_EncoderBlock_def)
  ultimately show ?thesis
    using x2(2) by blast
qed

lemma Encoder_layers_forward_shape:
  assumes "list_all (\<lambda>blk. wf_EncoderBlock blk d) ls" "shape x = [b, s, d]"
    and pos: "0 < b" "0 < d"
    and m: "case msk of None \<Rightarrow> True | Some m \<Rightarrow> shape m = [b, s]"
  shows "\<exists>y ls'. Encoder_layers_forward ls g x msk = Inr (y, ls')
           \<and> shape y = [b, s, d] \<and> list_all (\<lambda>blk. wf_EncoderBlock blk d) ls'
           \<and> length ls' = length ls"
  using assms(1,2)
proof (induction ls arbitrary: g x)
  case Nil
  then show ?case by simp
next
  case (Cons l ls)
  from Cons.prems have wfl: "wf_EncoderBlock l d" and wfls: "list_all (\<lambda>blk. wf_EncoderBlock blk d) ls"
    by simp_all
  from EncoderBlock_forward_shape [OF wfl Cons.prems(2) pos m, of "child g 0"]
  obtain x' l' where l': "EncoderBlock_forward l (child g 0) x msk = Inr (x', l')"
    "shape x' = [b, s, d]" "wf_EncoderBlock l' d"
    by blast
  from Cons.IH [OF wfls l'(2), of "child g 1"]
  obtain y ls' where ls': "Encoder_layers_forward ls (child g 1) x' msk = Inr (y, ls')"
    "shape y = [b, s, d]" "list_all (\<lambda>blk. wf_EncoderBlock blk d) ls'" "length ls' = length ls"
    by blast
  have "Encoder_layers_forward (l # ls) g x msk = Inr (y, l' # ls')"
    by (simp only: Encoder_layers_forward.simps l'(1) ls'(1) and_then_Inr prod.case)
  with ls'(2,3,4) l'(3) show ?case
    by simp
qed

lemma Encoder_forward_shape:
  assumes "wf_Encoder enc d" "shape x = [b, s, d]"
    and pos: "0 < b" "0 < d"
    and m: "case msk of None \<Rightarrow> True | Some m \<Rightarrow> shape m = [b, s]"
  shows "\<exists>y enc'. Encoder_forward enc g x msk = Inr (y, enc')
           \<and> shape y = [b, s, d] \<and> wf_Encoder enc' d"
proof -
  from assms(1) have wfl: "list_all (\<lambda>blk. wf_EncoderBlock blk d) (enc_layers enc)"
    and wfn: "wf_LayerNormalization (enc_norm enc) d"
    by (simp_all add: wf_Encoder_def)
  from Encoder_layers_forward_shape [OF wfl assms(2) pos m, of "child g 0"]
  obtain y ls where ls: "Encoder_layers_forward (enc_layers enc) (child g 0) x msk = Inr (y, ls)"
    "shape y = [b, s, d]" "list_all (\<lambda>blk. wf_EncoderBlock blk d) ls"
    by blast
  from LayerNormalization_forward_shape [OF wfn ls(2)]
  obtain z where z: "LayerNormalization_forward (enc_norm enc) y = Inr z" "shape z = [b, s, d]"
    by blast
  have "Encoder_forward enc g x msk = Inr (z, enc\<lparr>enc_layers := ls\<rparr>)"
    by (simp add: Encoder_forward_def ls(1) z(1))
  moreover have "wf_Encoder (enc\<lparr>enc_layers := ls\<rparr>) d"
    using wfn ls(3) by (simp add: wf_Encoder_def)
  ultimately show ?thesis
    using z(2) by blast
qed


lemma list_all_indices_2:
  "list_all P (indices [b, s]) \<longleftrightarrow> (\<forall>i<b. \<forall>j<s. P [i, j])"
  by (auto simp: list_all_iff)

lemma embed_shape:
  assumes "tr_seq_embed t = Some ie" "wf_InputEmbeddings ie d v" "shape ids = [b, s]"
    and "\<forall>i<b. \<forall>j<s. 0 \<le> elem ids [i, j] \<and> elem ids [i, j] < int v"
  shows "\<exists>e. embed t ids = Inr e \<and> shape e = [b, s, d]"
proof -
  from assms(2) have v: "emb_num (ie_embedding ie) = v" "emb_dim (ie_embedding ie) = d"
    "ie_d_model ie = int d"
    by (simp_all add: wf_InputEmbeddings_def)
  have "list_all (\<lambda>idx. 0 \<le> elem ids idx \<and> elem ids idx < int (emb_num (ie_embedding ie)))
          (indices (shape ids))"
    unfolding assms(3) list_all_indices_2 v(1) by (rule assms(4))
  then show ?thesis
    by (simp add: embed_def assms(1,3) InputEmbeddings_forward_def Embedding_forward_def
        math_sqrt_def v del: indices.simps)
qed

lemma encode_shape:
  assumes "wf_Encoder (tr_encoder t) d" "shape (pe (tr_seq_pos t)) = [1, S, d]"
    and "shape x = [b, s, d]" "s \<le> S"
    and pos: "0 < b" "0 < d"
    and m: "case msk of None \<Rightarrow> True | Some m \<Rightarrow> shape m = [b, s]"
  shows "\<exists>y enc'. encode t g x msk = Inr (y, t\<lparr>tr_encoder := enc'\<rparr>)
           \<and> shape y = [b, s, d] \<and> wf_Encoder enc' d"
proof -
  from PositionalEncoding_forward_short [OF assms(2,3,4), of "child g 0"]
  obtain x' where x': "PositionalEncoding_forward (tr_seq_pos t) (child g 0) x = Inr x'"
    "shape x' = [b, s, d]"
    by auto
  from Encoder_forward_shape [OF assms(1) x'(2) pos m, of "child g 1"]
  obtain y enc' where y: "Encoder_forward (tr_encoder t) (child g 1) x' msk = Inr (y, enc')"
    "shape y = [b, s, d]" "wf_Encoder enc' d"
    by blast
  have "encode t g x msk = Inr (y, t\<lparr>tr_encoder := enc'\<rparr>)"
    unfolding encode_def by (simp only: x'(1) y(1) and_then_Inr prod.case)
  with y(2,3) show ?thesis
    by blast
qed

lemma project_mismatch:
  assumes "tr_projection_layer t = Some pl" "wf_Linear (proj pl) n m" "shape y = pre @ [d]" "d \<noteq> n"
  shows "project t y = Inl RuntimeError"
  using assms by (simp add: project_def ProjectionLayer_forward_def Linear_forward_def wf_Linear_def)

lemma project_shape:
  assumes "tr_projection_layer t = Some pl" "wf_Linear (proj pl) n m" "shape x = pre @ [n]"
  shows "\<exists>z. project t x = Inr z \<and> shape z = pre @ [m]"
  using assms by (simp add: project_def ProjectionLayer_forward_def Linear_forward_def wf_Linear_def)

section \<open>The default model, end to end\<close>

lemma build_transformer_default_pipeline:
  "\<exists>t pt. build_transformer_default g 256 150 10 2 = Inr (t, pt)
     \<and> (\<forall>ids msk g' b s.
           shape ids = [b, s] \<and> 0 < b \<and> s \<le> 150
           \<and> (\<forall>i<b. \<forall>j<s. 0 \<le> elem ids [i, j] \<and> elem ids [i, j] < 256)
           \<and> (case msk of None \<Rightarrow> True | Some m \<Rightarrow> shape m = [b, s]) \<longrightarrow>
           (\<exists>e y t'. embed t ids = Inr e \<and> shape e = [b, s, 64]
              \<and> encode t g' e msk = Inr (y, t') \<and> shape y = [b, s, 64]
              \<and> project t y = Inl RuntimeError \<and> project t' y = Inl RuntimeError))
     \<and> (\<forall>x pre. shape x = pre @ [128] \<longrightarrow> (\<exists>z. project t x = Inr z \<and> shape z = pre @ [2]))"
proof -
  from build_transformer_ok [of 256 150 10 2 64 4 "1 / 10" 128 g 3 False]
  obtain t pt where b: "build_transformer g 256 150 10 2 64 3 4 (1 / 10) 128 False = Inr (t, pt)"
    and enc: "wf_Encoder (tr_encoder t) 64"
    and emb: "\<exists>ie. tr_seq_embed t = Some ie \<and> wf_InputEmbeddings ie 64 256"
    and pos: "shape (pe (tr_seq_pos t)) = [1, 150, 64]"
    and prj: "\<exists>pl. tr_projection_layer t = Some pl \<and> wf_Linear (proj pl) 128 2"
    by auto
  from emb obtain ie where ie: "tr_seq_embed t = Some ie" "wf_InputEmbeddings ie 64 256"
    by blast
  from prj obtain pl where pl: "tr_projection_layer t = Some pl" "wf_Linear (proj pl) 128 2"
    by blast
  have run: "\<exists>e y t'. embed t ids = Inr e \<and> shape e = [b, s, 64]
              \<and> encode t g' e msk = Inr (y, t') \<and> shape y = [b, s, 64]
              \<and> project t y = Inl RuntimeError \<and> project t' y = Inl RuntimeError"
    if h: "shape ids = [b, s] \<and> 0 < b \<and> s \<le> 150
           \<and> (\<forall>i<b. \<forall>j<s. 0 \<le> elem ids [i, j] \<and> elem ids [i, j] < 256)
           \<and> (case msk of None \<Rightarrow> True | Some m \<Rightarrow> shape m = [b, s])"
    for ids msk g' b s
  proof -
    from h have sh: "shape ids = [b, s]" and bpos: "0 < b" and s: "s \<le> 150"
      and rng: "\<forall>i<b. \<forall>j<s. 0 \<le> elem ids [i, j] \<and> elem ids [i, j] < int 256"
      and m: "case msk of None \<Rightarrow> True | Some m \<Rightarrow> shape m = [b, s]"
      by simp_all
    from embed_shape [OF ie sh rng]
    obtain e where e: "embed t ids = Inr e" "shape e = [b, s, 64]"
      by blast
    from encode_shape [OF enc pos e(2) s bpos _ m, of g']
    obtain y enc' where y: "encode t g' e msk = Inr (y, t\<lparr>tr_encoder := enc'\<rparr>)"
      "shape y = [b, s, 64]"
      by auto
    have shy: "shape y = [b, s] @ [64]"
      by (simp add: y(2))
    have p1: "project t y = Inl RuntimeError"
      by (rule project_mismatch [OF pl shy]) simp
    have "tr_projection_layer (t\<lparr>tr_encoder := enc'\<rparr>) = Some pl"
      by (simp add: pl(1))
    from project_mismatch [OF this pl(2) shy]
    have p2: "project (t\<lparr>tr_encoder := enc'\<rparr>) y = Inl RuntimeError"
      by simp
    from e y p1 p2 show ?thesis
      by blast
  qed
  have prj_ok: "\<exists>z. project t x = Inr z \<and> shape z = pre @ [2]" if "shape x = pre @ [128]" for x pre
    by (rule project_shape [OF pl that])
  from b run prj_ok show ?thesis
    unfolding build_transformer_default_def
    by (intro exI [of _ t] exI [of _ pt]) blast
qed


text \<open>
  C1 (as amended).  \<open>build_transformer\<close> with vocab_size 256, seq_seq_len 150,
  seq_pack_len 10, class_size 2 and the defaults otherwise returns two transformers.
  On the first, for every non-empty batch of token ids in \<open>[0, 256)\<close> of sequence
  length at most 150 and every mask that is \<open>None\<close> or of shape (batch, seq_len),
  \<open>embed\<close> and then \<open>encode\<close> return a tensor of shape (batch, seq_len, 64), and
  \<open>project\<close> raises a RuntimeError on it: the projection layer is constructed with
  input width \<open>2 * d_model = 128\<close>, for the concatenated embeddings of
  \<open>explainer_model\<close>.  On an input whose last axis has 128 entries \<open>project\<close>
  returns a tensor whose last axis has 2.
\<close>

theorem build_transformer_default_end_to_end:
  "\<exists>t pt. build_transformer_default g 256 150 10 2 = Inr (t, pt)
     \<and> (\<forall>ids msk g' b s.
           shape ids = [b, s] \<and> 0 < b \<and> s \<le> 150
           \<and> (\<forall>i<b. \<forall>j<s. 0 \<le> elem ids [i, j] \<and> elem ids [i, j] < 256)
           \<and> (case msk of None \<Rightarrow> True | Some m \<Rightarrow> shape m = [b, s]) \<longrightarrow>
           (\<exists>e y t'. embed t ids = Inr e \<and> shape e = [b, s, 64]
              \<and> encode t g' e msk = Inr (y, t') \<and> shape y = [b, s, 64]
              \<and> project t y = Inl RuntimeError \<and> project t' y = Inl RuntimeError))
     \<and> (\<forall>x pre. shape x = pre @ [128] \<longrightarrow> (\<exists>z. project t x = Inr z \<and> shape z = pre @ [2]))"
  by (rule build_transformer_default_pipeline)

theorem build_transformer_default_end_to_end_witness:
  "\<exists>t pt e y t' z. build_transformer_default (\<lambda>path idx. 0) 256 150 10 2 = Inr (t, pt)
     \<and> embed t (Tensor [2, 3] (\<lambda>idx. 5)) = Inr e \<and> shape e = [2, 3, 64]
     \<and> encode t (\<lambda>path idx. 0) e (Some (Tensor [2, 3] (\<lambda>idx. 0))) = Inr (y, t')
     \<and> shape y = [2, 3, 64]
     \<and> project t' y = Inl RuntimeError
     \<and> project t (Tensor [2, 128] (\<lambda>idx. 0)) = Inr z \<and> shape z = [2, 2]"
proof -
  define g :: rng where "g = (\<lambda>path idx. 0)"
  define ids :: "int tensor" where "ids = Tensor [2, 3] (\<lambda>idx. 5)"
  define msk :: "int tensor" where "msk = Tensor [2, 3] (\<lambda>idx. 0)"
  define x :: "real tensor" where "x = Tensor [2, 128] (\<lambda>idx. 0)"
  from build_transformer_default_end_to_end [of g]
  obtain t pt where b: "build_transformer_default g 256 150 10 2 = Inr (t, pt)"
    and run: "\<forall>ids msk g' b s.
           shape ids = [b, s] \<and> 0 < b \<and> s \<le> 150
           \<and> (\<forall>i<b. \<forall>j<s. 0 \<le> elem ids [i, j] \<and> elem ids [i, j] < 256)
           \<and> (case msk of None \<Rightarrow> True | Some m \<Rightarrow> shape m = [b, s]) \<longrightarrow>
           (\<exists>e y t'. embed t ids = Inr e \<and> shape e = [b, s, 64]
              \<and> encode t g' e msk = Inr (y, t') \<and> shape y = [b, s, 64]
              \<and> project t y = Inl RuntimeError \<and> project t' y = Inl RuntimeError)"
    and prj: "\<forall>x pre. shape x = pre @ [128] \<longrightarrow> (\<exists>z. project t x = Inr z \<and> shape z = pre @ [2])"
    apply (elim exE conjE)
    apply (rule that)
      apply assumption+
    done
  have hyp: "shape ids = [2, 3] \<and> 0 < (2::nat) \<and> (3::nat) \<le> 150
           \<and> (\<forall>i<2. \<forall>j<3. 0 \<le> elem ids [i, j] \<and> elem ids [i, j] < 256)
           \<and> (case Some msk of None \<Rightarrow> True | Some m \<Rightarrow> shape m = [2, 3])"
    by (simp add: ids_def msk_def)
  from run [rule_format, of ids 2 3 "Some msk" g, OF hyp]
  obtain e y t' where e: "embed t ids = Inr e" "shape e = [2, 3, 64]"
    "encode t g e (Some msk) = Inr (y, t')" "shape y = [2, 3, 64]"
    "project t' y = Inl RuntimeError"
    by blast
  have "shape x = [2] @ [128]"
    by (simp add: x_def)
  from prj [rule_format, OF this]
  obtain z where z: "project t x = Inr z" "shape z = [2, 2]"
    by auto
  have "\<exists>t pt e y t' z. build_transformer_default g 256 150 10 2 = Inr (t, pt)
     \<and> embed t ids = Inr e \<and> shape e = [2, 3, 64]
     \<and> encode t g e (Some msk) = Inr (y, t')
     \<and> shape y = [2, 3, 64]
     \<and> project t' y = Inl RuntimeError
     \<and> project t x = Inr z \<and> shape z = [2, 2]"
    by (intro exI [of _ t] exI [of _ pt] exI [of _ e] exI [of _ y] exI [of _ t'] exI [of _ z] conjI)
      (fact b e z)+
  then show ?thesis
    unfolding g_def ids_def msk_def x_def .
qed

text \<open>
  The claim as stated fails on a batch with one sequence of one token: the encoder
  output has width 64 and the projection refuses it.
\<close>

theorem build_transformer_default_end_to_end_counterexample:
  "\<not> isl (and_then (build_transformer_default (\<lambda>path idx. 0) 256 150 10 2) (\<lambda>(t, pt).
            and_then (embed t (Tensor [1, 1] (\<lambda>idx. 0))) (\<lambda>e.
              encode t (\<lambda>path idx. 0) e None)))
   \<and> and_then (build_transformer_default (\<lambda>path idx. 0) 256 150 10 2) (\<lambda>(t, pt).
        and_then (embed t (Tensor [1, 1] (\<lambda>idx. 0))) (\<lambda>e.
        and_then (encode t (\<lambda>path idx. 0) e None) (\<lambda>(y, t'). project t' y)))
      = Inl RuntimeError"
proof -
  define g :: rng where "g = (\<lambda>path idx. 0)"
  define ids :: "int tensor" where "ids = Tensor [1, 1] (\<lambda>idx. 0)"
  from build_transformer_default_pipeline [of g]
  obtain t pt where b: "build_transformer_default g 256 150 10 2 = Inr (t, pt)"
    and run: "\<forall>ids msk g' b s.
           shape ids = [b, s] \<and> 0 < b \<and> s \<le> 150
           \<and> (\<forall>i<b. \<forall>j<s. 0 \<le> elem ids [i, j] \<and> elem ids [i, j] < 256)
           \<and> (case msk of None \<Rightarrow> True | Some m \<Rightarrow> shape m = [b, s]) \<longrightarrow>
           (\<exists>e y t'. embed t ids = Inr e \<and> shape e = [b, s, 64]
              \<and> encode t g' e msk = Inr (y, t') \<and> shape y = [b, s, 64]
              \<and> project t y = Inl RuntimeError \<and> project t' y = Inl RuntimeError)"
    apply (elim exE conjE)
    apply (rule that)
     apply assumption+
    done
  have hyp: "shape ids = [1, 1] \<and> 0 < (1::nat) \<and> (1::nat) \<le> 150
           \<and> (\<forall>i<1. \<forall>j<1. 0 \<le> elem ids [i, j] \<and> elem ids [i, j] < 256)
           \<and> (case None :: int tensor option of None \<Rightarrow> True | Some m \<Rightarrow> shape m = [1, 1])"
    by (simp add: ids_def)
  from run [rule_format, of ids 1 1 None g, OF hyp]
  obtain e y t' where e: "embed t ids = Inr e"
    "encode t g e None = Inr (y, t')" "project t' y = Inl RuntimeError"
    by blast
  have "\<not> isl (and_then (build_transformer_default g 256 150 10 2) (\<lambda>(t, pt).
            and_then (embed t ids) (\<lambda>e. encode t g e None)))
   \<and> and_then (build_transformer_default g 256 150 10 2) (\<lambda>(t, pt).
        and_then (embed t ids) (\<lambda>e.
        and_then (encode t g e None) (\<lambda>(y, t'). project t' y)))
      = Inl RuntimeError"
    by (simp add: b e)
  then show ?thesis
    unfolding g_def ids_def .
qed

section \<open>The values of the positional table\<close>




end
